theory Spec2Isabelle
  imports Main
begin

section \<open>JavaScript values used by the scripts\<close>

text \<open>
  The scripts are TypeScript run by Node. Strings are modelled as lists of ASCII
  characters; a \<open>bigint\<close> is an \<open>int\<close>. The numbers (IEEE doubles) that the scripts
  compute all come from \<open>Number(bigint)\<close>, \<open>parseInt\<close> and numeric literals, so they are
  integer valued, infinite or NaN.
\<close>

datatype number = NaN | PosInfinity | NegInfinity | Fin int

datatype jsval =
    Undefined
  | Null
  | Bool bool
  | Num number
  | BigInt int
  | Str string
  | Arr "jsval list"
  | Obj "(string \<times> jsval) list"

subsection \<open>Strings\<close>

definition isUpper :: "char \<Rightarrow> bool" where
  "isUpper c = (65 \<le> (of_char c :: nat) \<and> (of_char c :: nat) \<le> 90)"

definition toLowerChar :: "char \<Rightarrow> char" where
  "toLowerChar c = (if isUpper c then char_of ((of_char c :: nat) + 32) else c)"

text \<open>\<open>String.prototype.toLowerCase\<close> on ASCII text.\<close>

definition toLowerCase :: "string \<Rightarrow> string" where
  "toLowerCase s = map toLowerChar s"

text \<open>The ASCII white space and line terminators that \<open>trim\<close> strips.\<close>

definition isWhiteSpace :: "char \<Rightarrow> bool" where
  "isWhiteSpace c = ((of_char c :: nat) \<in> {9, 10, 11, 12, 13, 32})"

definition trimStart :: "string \<Rightarrow> string" where
  "trimStart s = dropWhile isWhiteSpace s"

definition trim :: "string \<Rightarrow> string" where
  "trim s = rev (dropWhile isWhiteSpace (rev (dropWhile isWhiteSpace s)))"

text \<open>Decimal rendering of a \<open>bigint\<close>, as a template literal \<open>${n}\<close> prints it.\<close>

fun decimal_nat :: "nat \<Rightarrow> string" where
  "decimal_nat n =
     (if n < 10 then [char_of (48 + n)]
      else decimal_nat (n div 10) @ [char_of (48 + n mod 10)])"

declare decimal_nat.simps [simp del]

definition bigint_toString :: "int \<Rightarrow> string" where
  "bigint_toString n = (if n < 0 then CHR ''-'' # decimal_nat (nat (- n)) else decimal_nat (nat n))"

definition bool_toString :: "bool \<Rightarrow> string" where
  "bool_toString b = (if b then ''true'' else ''false'')"

subsection \<open>Parsing integers\<close>

text \<open>The value of a digit in radix up to 36; \<open>None\<close> for any other character.\<close>

definition digitVal :: "char \<Rightarrow> nat option" where
  "digitVal c =
     (let k = (of_char c :: nat) in
      if 48 \<le> k \<and> k \<le> 57 then Some (k - 48)
      else if 97 \<le> k \<and> k \<le> 122 then Some (k - 87)
      else if 65 \<le> k \<and> k \<le> 90 then Some (k - 55)
      else None)"

definition isDigit :: "nat \<Rightarrow> char \<Rightarrow> bool" where
  "isDigit radix c = (case digitVal c of None \<Rightarrow> False | Some d \<Rightarrow> d < radix)"

text \<open>The number that a list of digits denotes; characters that are no digit count 0.\<close>

fun digitsValue :: "nat \<Rightarrow> nat \<Rightarrow> string \<Rightarrow> nat" where
  "digitsValue radix acc [] = acc"
| "digitsValue radix acc (c # cs) =
     digitsValue radix (acc * radix + (case digitVal c of None \<Rightarrow> 0 | Some d \<Rightarrow> d)) cs"

text \<open>A non-empty run of digits of the radix, and nothing else.\<close>

definition allDigits :: "nat \<Rightarrow> string \<Rightarrow> nat option" where
  "allDigits radix ds =
     (if ds \<noteq> [] \<and> list_all (isDigit radix) ds then Some (digitsValue radix 0 ds) else None)"

text \<open>
  \<open>BigInt(string)\<close>: the string is trimmed; the empty string is \<open>0n\<close>; a decimal literal
  may carry a sign; \<open>0x\<close>, \<open>0o\<close> and \<open>0b\<close> literals may not. Anything else throws a
  SyntaxError, which is \<open>None\<close> here.
\<close>

definition StringToBigInt :: "string \<Rightarrow> int option" where
  "StringToBigInt str =
     (let t = trim str in
      case t of
        [] \<Rightarrow> Some 0
      | c # rest \<Rightarrow>
          if c = CHR ''+'' then map_option int (allDigits 10 rest)
          else if c = CHR ''-'' then map_option (\<lambda>n. - int n) (allDigits 10 rest)
          else if c = CHR ''0'' \<and> rest \<noteq> [] \<and> hd rest \<in> {CHR ''x'', CHR ''X''}
            then map_option int (allDigits 16 (tl rest))
          else if c = CHR ''0'' \<and> rest \<noteq> [] \<and> hd rest \<in> {CHR ''o'', CHR ''O''}
            then map_option int (allDigits 8 (tl rest))
          else if c = CHR ''0'' \<and> rest \<noteq> [] \<and> hd rest \<in> {CHR ''b'', CHR ''B''}
            then map_option int (allDigits 2 (tl rest))
          else map_option int (allDigits 10 t))"

subsection \<open>Doubles\<close>

text \<open>The number of binary digits of a natural number.\<close>

fun bitlen :: "nat \<Rightarrow> nat" where
  "bitlen n = (if n = 0 then 0 else Suc (bitlen (n div 2)))"

declare bitlen.simps [simp del]

text \<open>
  The nearest integer with at most 53 significant bits, ties to the even significand:
  the rounding of a non-negative integer to a double. The exponent \<open>e\<close> is 0 for a
  number of at most 53 bits (the subtraction on \<open>nat\<close> stops at 0), which is then kept
  as it is.
\<close>

definition round53 :: "nat \<Rightarrow> nat" where
  "round53 n =
     (let e = bitlen n - 53;
          q = n div 2 ^ e;
          r = n mod 2 ^ e
      in if 2 ^ e < 2 * r \<or> (2 * r = 2 ^ e \<and> odd q) then (q + 1) * 2 ^ e else q * 2 ^ e)"

text \<open>\<open>Number(bigint)\<close>: round to nearest double, overflowing to an infinity.\<close>

definition Number :: "int \<Rightarrow> number" where
  "Number n =
     (let m = round53 (nat \<bar>n\<bar>) in
      if 2 ^ 1024 \<le> m then (if n < 0 then NegInfinity else PosInfinity)
      else Fin (if n < 0 then - int m else int m))"

text \<open>
  \<open>parseInt(string)\<close> with no radix: leading white space and a sign are skipped, a
  \<open>0x\<close> prefix selects radix 16 and is skipped, otherwise the radix is 10; the longest
  run of digits is read; with no digit the result is NaN.
\<close>

definition parseInt :: "string \<Rightarrow> number" where
  "parseInt str =
     (let s0 = trimStart str;
          neg = (s0 \<noteq> [] \<and> hd s0 = CHR ''-'');
          s1 = (if s0 \<noteq> [] \<and> hd s0 \<in> {CHR ''+'', CHR ''-''} then tl s0 else s0);
          hex = (2 \<le> length s1 \<and> take 2 s1 \<in> {''0x'', ''0X''});
          radix = (if hex then 16 else 10);
          s2 = (if hex then drop 2 s1 else s1);
          z = takeWhile (isDigit radix) s2
      in if z = [] then NaN
         else Number (if neg then - int (digitsValue radix 0 z) else int (digitsValue radix 0 z)))"

section \<open>Errors, effects and the external libraries\<close>

text \<open>
  Every exception that a script can raise is a value: the \<open>Error\<close>s that the scripts
  construct themselves (a missing variable, the recovery mismatch, a bad \<open>SIGN_MODE\<close>,
  the wrapped gas estimation failure), the SyntaxError of \<open>BigInt\<close>, the TypeError of a
  property read on \<open>null\<close>, and what the libraries throw.
\<close>

datatype error =
    MissingEnv string
  | RecoveryMismatch string string
  | BadSignMode
  | SyntaxError
  | TypeError
  | TimeoutError
  | GasEstimationFailed error
  | LibraryError string

record Wallet =
  privateKey :: string
  address :: string

record Signature =
  sig_r :: string
  sig_s :: string
  sig_v :: int

record AxiosResponse =
  status :: int
  data :: jsval

text \<open>
  What a run does to the outside world, in order: console output, the calls into the
  ethers library that load a key, sign or recover, the RPC queries, the HTTP request
  with its headers and its timeout in milliseconds, and the broadcast of a transaction.
\<close>

datatype event =
    Console_log "jsval list"
  | New_Wallet string
  | SignTypedData Wallet jsval jsval jsval
  | SignMessage Wallet string
  | VerifyTypedData jsval jsval jsval string
  | GetBlockNumber string
  | Post string jsval "(string \<times> string) list" nat
  | EstimateGas string jsval
  | SendTransaction Wallet jsval
  | WaitReceipt string

text \<open>
  A computation gives the events it caused and either the exception it threw or its
  value. \<open>call\<close> records a call into a library together with the call's outcome, also
  when the call throws; \<open>lift\<close> is a call that leaves no event; \<open>andThen\<close> is
  \<open>await\<close> and sequencing, and stops at the first exception.
\<close>

type_synonym 'a io = "event list \<times> (error + 'a)"

definition ret :: "'a \<Rightarrow> 'a io" where
  "ret x = ([], Inr x)"

definition throw :: "error \<Rightarrow> 'a io" where
  "throw e = ([], Inl e)"

definition lift :: "error + 'a \<Rightarrow> 'a io" where
  "lift r = ([], r)"

definition call :: "event \<Rightarrow> error + 'a \<Rightarrow> 'a io" where
  "call ev r = ([ev], r)"

definition log :: "jsval list \<Rightarrow> unit io" where
  "log args = ([Console_log args], Inr ())"

definition andThen :: "'a io \<Rightarrow> ('a \<Rightarrow> 'b io) \<Rightarrow> 'b io" where
  "andThen m f =
     (case m of
        (t, Inl e) \<Rightarrow> (t, Inl e)
      | (t, Inr x) \<Rightarrow> (case f x of (t', r) \<Rightarrow> (t @ t', r)))"

definition seq :: "unit io \<Rightarrow> 'a io \<Rightarrow> 'a io" where
  "seq m k = andThen m (\<lambda>_. k)"

text \<open>
  The ethers library is a parameter: key loading (\<open>new ethers.Wallet\<close>), EIP-712 and
  personal signing, signature parsing, recovery, and the provider's block number query.
  Each may throw.
\<close>

record ethers =
  Wallet_new :: "string \<Rightarrow> error + Wallet"
  signTypedData :: "Wallet \<Rightarrow> jsval \<Rightarrow> jsval \<Rightarrow> jsval \<Rightarrow> error + string"
  signMessage :: "Wallet \<Rightarrow> string \<Rightarrow> error + string"
  Signature_from :: "string \<Rightarrow> error + Signature"
  verifyTypedData :: "jsval \<Rightarrow> jsval \<Rightarrow> jsval \<Rightarrow> string \<Rightarrow> error + string"
  getBlockNumber :: "string \<Rightarrow> error + nat"

text \<open>\<open>axios.post(url, payload, {headers, timeout})\<close>: the remote side is a parameter.\<close>

type_synonym axios = "string \<Rightarrow> jsval \<Rightarrow> (string \<times> string) list \<Rightarrow> nat \<Rightarrow> error + AxiosResponse"

text \<open>
  What the process reads from its surroundings: the environment (after dotenv), the
  clock, once as \<open>new Date().toISOString()\<close> and once as \<open>Date.now()\<close>, and
  \<open>JSON.parse\<close>.
\<close>

record runtime =
  env :: "string \<rightharpoonup> string"
  Date_toISOString :: string
  Date_now :: int
  JSON_parse :: "string \<Rightarrow> error + jsval"

section \<open>The linking script (index.ts)\<close>

definition getenvStrict :: "runtime \<Rightarrow> string \<Rightarrow> error + string" where
  "getenvStrict rt name =
     (case env rt name of
        None \<Rightarrow> Inl (MissingEnv name)
      | Some v \<Rightarrow> if v = [] \<or> trim v = [] then Inl (MissingEnv name) else Inr v)"

record LinkAction =
  hyperliquidChain :: string
  isFinalize :: bool
  nonce :: int
  signatureChainId :: string
  type :: string
  user :: string

text \<open>
  The object literals \<open>domain\<close>, \<open>types\<close> and \<open>value\<close> of \<open>signLinkAction\<close>, with
  their keys in the order of the source. The chain id is \<open>parseInt\<close> of
  \<open>action.signatureChainId\<close>; the \<open>testnet\<close> argument is not used.
\<close>

definition link_domain :: "LinkAction \<Rightarrow> jsval" where
  "link_domain action =
     Obj [(''name'', Str ''HyperliquidSignTransaction''),
          (''version'', Str ''1''),
          (''chainId'', Num (parseInt (signatureChainId action))),
          (''verifyingContract'', Str ''0x0000000000000000000000000000000000000000'')]"

definition link_types :: jsval where
  "link_types =
     Obj [(''HyperliquidTransaction:LinkStakingUser'',
           Arr [Obj [(''name'', Str ''hyperliquidChain''), (''type'', Str ''string'')],
                Obj [(''name'', Str ''user''), (''type'', Str ''address'')],
                Obj [(''name'', Str ''isFinalize''), (''type'', Str ''bool'')],
                Obj [(''name'', Str ''nonce''), (''type'', Str ''uint64'')]])]"

definition link_value :: "LinkAction \<Rightarrow> jsval" where
  "link_value action =
     Obj [(''hyperliquidChain'', Str (hyperliquidChain action)),
          (''user'', Str (toLowerCase (user action))),
          (''isFinalize'', Bool (isFinalize action)),
          (''nonce'', BigInt (nonce action))]"

text \<open>The object literal \<open>{ r: sig.r, s: sig.s, v: sig.v }\<close> that \<open>signLinkAction\<close> returns.\<close>

definition sigObj :: "Signature \<Rightarrow> jsval" where
  "sigObj sg = Obj [(''r'', Str (sig_r sg)), (''s'', Str (sig_s sg)), (''v'', Num (Fin (sig_v sg)))]"

definition signLinkAction :: "ethers \<Rightarrow> LinkAction \<Rightarrow> Wallet \<Rightarrow> bool \<Rightarrow> jsval io" where
  "signLinkAction lib action wallet testnet =
     (let domain = link_domain action;
          types = link_types;
          val = link_value action
      in andThen (call (SignTypedData wallet domain types val)
                    (signTypedData lib wallet domain types val)) (\<lambda>signature.
         andThen (lift (Signature_from lib signature)) (\<lambda>sg.
         andThen (call (VerifyTypedData domain types val signature)
                    (verifyTypedData lib domain types val signature)) (\<lambda>recovered.
         let expected = address wallet in
         if toLowerCase recovered \<noteq> toLowerCase expected
         then throw (RecoveryMismatch recovered expected)
         else ret (sigObj sg)))))"

definition baseUrl :: "bool \<Rightarrow> string" where
  "baseUrl testnet =
     (if testnet then ''https://api-ui.hyperliquid-testnet.xyz''
      else ''https://api-ui.hyperliquid.xyz'')"

definition link_headers :: "bool \<Rightarrow> (string \<times> string) list" where
  "link_headers testnet =
     [(''Accept'', ''*/*''),
      (''Accept-Language'', ''en-GB,en;q=0.6''),
      (''Connection'', ''keep-alive''),
      (''Content-Type'', ''application/json''),
      (''Origin'', if testnet then ''https://app.hyperliquid-testnet.xyz''
                   else ''https://app.hyperliquid.xyz''),
      (''Referer'', if testnet then ''https://app.hyperliquid-testnet.xyz/''
                    else ''https://app.hyperliquid.xyz/''),
      (''Sec-Fetch-Dest'', ''empty''),
      (''Sec-Fetch-Mode'', ''cors''),
      (''Sec-Fetch-Site'', ''same-site''),
      (''Sec-GPC'', ''1''),
      (''User-Agent'',
       ''Mozilla/5.0 (Macintosh; Intel Mac OS X 10_15_7) AppleWebKit/537.36 (KHTML, like Gecko) Chrome/141.0.0.0 Safari/537.36''),
      (''sec-ch-ua'',
       [CHR 0x22] @ ''Brave'' @ [CHR 0x22] @ '';v='' @ [CHR 0x22] @ ''141'' @ [CHR 0x22]
       @ '', '' @ [CHR 0x22] @ ''Not?A_Brand'' @ [CHR 0x22] @ '';v='' @ [CHR 0x22] @ ''8'' @ [CHR 0x22]
       @ '', '' @ [CHR 0x22] @ ''Chromium'' @ [CHR 0x22] @ '';v='' @ [CHR 0x22] @ ''141'' @ [CHR 0x22]),
      (''sec-ch-ua-mobile'', ''?0''),
      (''sec-ch-ua-platform'', [CHR 0x22] @ ''macOS'' @ [CHR 0x22])]"

definition submitLinkAction :: "axios \<Rightarrow> jsval \<Rightarrow> bool \<Rightarrow> AxiosResponse io" where
  "submitLinkAction post payload testnet =
     (let url = baseUrl testnet @ ''/exchange'';
          headers = link_headers testnet
      in call (Post url payload headers 30000) (post url payload headers 30000))"

text \<open>
  The object literal \<open>action\<close>, written the same way in \<open>signAndSubmitLink\<close> and in
  the finalizer's script (which fixes \<open>isFinalize: true\<close>).
\<close>

definition linkAction :: "bool \<Rightarrow> bool \<Rightarrow> int \<Rightarrow> string \<Rightarrow> LinkAction" where
  "linkAction testnet isFinalizeArg finalNonce userAddress =
     (let signatureChainIdHex = (if testnet then ''0x3e6'' else ''0x1'')
      in \<lparr> hyperliquidChain = (if testnet then ''Testnet'' else ''Mainnet''),
           isFinalize = isFinalizeArg,
           nonce = finalNonce,
           signatureChainId = signatureChainIdHex,
           type = ''linkStakingUser'',
           user = userAddress \<rparr>)"

text \<open>The object literal \<open>serializablePayload\<close>.\<close>

definition serializablePayload :: "LinkAction \<Rightarrow> int \<Rightarrow> jsval \<Rightarrow> jsval" where
  "serializablePayload action finalNonce sig =
     Obj [(''action'',
           Obj [(''hyperliquidChain'', Str (hyperliquidChain action)),
                (''isFinalize'', Bool (isFinalize action)),
                (''nonce'', Num (Number (nonce action))),
                (''signatureChainId'', Str (signatureChainId action)),
                (''type'', Str (type action)),
                (''user'', Str (user action))]),
          (''expiresAfter'', Null),
          (''isFrontend'', Bool True),
          (''nonce'', Num (Number finalNonce)),
          (''signature'', sig),
          (''vaultAddress'', Null)]"

text \<open>
  \<open>nonce || BigInt(Date.now())\<close>: an absent nonce and the nonce \<open>0n\<close> are both falsy.
\<close>

definition nonceOrNow :: "runtime \<Rightarrow> int option \<Rightarrow> int" where
  "nonceOrNow rt nonceOpt =
     (case nonceOpt of
        None \<Rightarrow> Date_now rt
      | Some n \<Rightarrow> if n = 0 then Date_now rt else n)"

definition signAndSubmitLink ::
  "runtime \<Rightarrow> ethers \<Rightarrow> axios \<Rightarrow> string \<Rightarrow> string \<Rightarrow> bool \<Rightarrow> bool \<Rightarrow> int option \<Rightarrow> unit io" where
  "signAndSubmitLink rt lib post key userAddress isFinalizeArg testnet nonceOpt =
     andThen (call (New_Wallet key) (Wallet_new lib key)) (\<lambda>wallet.
     let finalNonce = nonceOrNow rt nonceOpt in
     seq (log [Str (''Signing with account: '' @ address wallet)])
    (seq (log [Str (''User: '' @ userAddress)])
    (seq (log [Str (''isFinalize: '' @ bool_toString isFinalizeArg)])
    (seq (log [Str (''Nonce: '' @ bigint_toString finalNonce)])
    (let action = linkAction testnet isFinalizeArg finalNonce userAddress
     in andThen (signLinkAction lib action wallet testnet) (\<lambda>sig.
        seq (log [Str ''Signature:'', sig])
       (seq (log [Str ''Submitting to Hyperliquid...''])
       (andThen (submitLinkAction post (serializablePayload action finalNonce sig) testnet)
          (\<lambda>response.
        seq (log [Str ''Response status:'', Num (Fin (status response))])
            (log [Str ''Response data:'', data response]))))))))))"

text \<open>\<open>nonceArg ? BigInt(nonceArg) : undefined\<close>: unset and empty are both falsy.\<close>

definition parseNonceArg :: "string option \<Rightarrow> int option io" where
  "parseNonceArg nonceArg =
     (case nonceArg of
        None \<Rightarrow> ret None
      | Some a \<Rightarrow>
          if a = [] then ret None
          else (case StringToBigInt a of
                  None \<Rightarrow> throw SyntaxError
                | Some n \<Rightarrow> ret (Some n)))"

definition main :: "runtime \<Rightarrow> ethers \<Rightarrow> axios \<Rightarrow> unit io" where
  "main rt lib post =
     seq (log [Str (''Timestamp: '' @ Date_toISOString rt)])
    (let isFinalizeEnv = (env rt ''IS_FINALIZE'' = Some ''true'');
         testnet = (env rt ''HYPERLIQUID_TESTNET'' \<noteq> Some ''false'');
         nonceArg = env rt ''NONCE''
     in andThen (parseNonceArg nonceArg) (\<lambda>nonceOpt.
        if isFinalizeEnv then
          andThen (lift (getenvStrict rt ''STAKING_PRIVATE_KEY'')) (\<lambda>stakingKey.
          andThen (lift (getenvStrict rt ''STAKING_USER_ADDRESS'')) (\<lambda>a.
          let tradingAddress = toLowerCase a in
          signAndSubmitLink rt lib post stakingKey tradingAddress True testnet nonceOpt))
        else
          andThen (lift (getenvStrict rt ''TRADING_PRIVATE_KEY'')) (\<lambda>tradingKey.
          andThen (lift (getenvStrict rt ''TRADING_USER_ADDRESS'')) (\<lambda>a.
          let stakingAddress = toLowerCase a in
          signAndSubmitLink rt lib post tradingKey stakingAddress False testnet nonceOpt))))"

section \<open>The finalizer's own script\<close>

text \<open>
  The staking account's script has the same \<open>signLinkAction\<close> and \<open>submitLinkAction\<close>;
  its \<open>main\<close> always finalizes.
\<close>

definition main_finalize :: "runtime \<Rightarrow> ethers \<Rightarrow> axios \<Rightarrow> unit io" where
  "main_finalize rt lib post =
     seq (log [Str (''Timestamp: '' @ Date_toISOString rt)])
    (seq (log [Str (''=== STAKING ACCOUNT - Finalizing Link ==='' @ [CHR 0x0A])])
    (andThen (lift (getenvStrict rt ''STAKING_PRIVATE_KEY'')) (\<lambda>stakingKey.
     andThen (lift (getenvStrict rt ''STAKING_USER_ADDRESS'')) (\<lambda>a.
     let tradingAddress = toLowerCase a;
         testnet = (env rt ''HYPERLIQUID_TESTNET'' \<noteq> Some ''false'');
         nonceArg = env rt ''NONCE''
     in andThen (call (New_Wallet stakingKey) (Wallet_new lib stakingKey)) (\<lambda>wallet.
        andThen (andThen (parseNonceArg nonceArg)
                   (\<lambda>n. ret (case n of None \<Rightarrow> Date_now rt | Some k \<Rightarrow> k))) (\<lambda>finalNonce.
        seq (log [Str (''Signing with staking account: '' @ address wallet)])
       (seq (log [Str (''Finalizing link to trading account: '' @ tradingAddress)])
       (seq (log [Str (''Nonce: '' @ bigint_toString finalNonce)])
       (let action = linkAction testnet True finalNonce tradingAddress
        in andThen (signLinkAction lib action wallet testnet) (\<lambda>sig.
           seq (log [Str ''Signature:'', sig])
          (seq (log [Str (CHR 0x0A # ''Submitting to Hyperliquid...'')])
          (andThen (submitLinkAction post (serializablePayload action finalNonce sig) testnet)
             (\<lambda>response.
           seq (log [Str ''Response status:'', Num (Fin (status response))])
               (log [Str ''Response data:'', data response]))))))))))))))"

section \<open>The generic sign-and-call script (sign_message_and_call_api.ts)\<close>

text \<open>\<open>process.env.X || d\<close>: an unset and an empty variable both give the default.\<close>

definition orDefault :: "string option \<Rightarrow> string \<Rightarrow> string" where
  "orDefault v d = (case v of None \<Rightarrow> d | Some s \<Rightarrow> if s = [] then d else s)"

text \<open>
  Reading a property for a destructuring pattern: \<open>null\<close> and \<open>undefined\<close> throw a
  TypeError, a missing property is \<open>undefined\<close>.
\<close>

fun getProp :: "jsval \<Rightarrow> string \<Rightarrow> error + jsval" where
  "getProp Undefined k = Inl TypeError"
| "getProp Null k = Inl TypeError"
| "getProp (Obj kvs) k = Inr (case map_of kvs k of None \<Rightarrow> Undefined | Some v \<Rightarrow> v)"
| "getProp other k = Inr Undefined"

definition signPersonal :: "ethers \<Rightarrow> string \<Rightarrow> Wallet \<Rightarrow> (string \<times> string) io" where
  "signPersonal lib message wallet =
     andThen (call (SignMessage wallet message) (signMessage lib wallet message)) (\<lambda>signature.
     ret (signature, address wallet))"

definition signTyped :: "ethers \<Rightarrow> jsval \<Rightarrow> Wallet \<Rightarrow> (string \<times> string) io" where
  "signTyped lib typedData wallet =
     andThen (lift (getProp typedData ''domain'')) (\<lambda>domain.
     andThen (lift (getProp typedData ''types'')) (\<lambda>types.
     andThen (lift (getProp typedData ''message'')) (\<lambda>message.
     andThen (call (SignTypedData wallet domain types message)
                (signTypedData lib wallet domain types message)) (\<lambda>signature.
     ret (signature, address wallet)))))"

definition callApi :: "axios \<Rightarrow> string \<Rightarrow> string \<Rightarrow> string \<Rightarrow> jsval \<Rightarrow> AxiosResponse io" where
  "callApi post url signature addr payload0 =
     (let payload = (if payload0 = Undefined then Obj [] else payload0);
          headers = [(''X-Eth-Address'', addr),
                     (''X-Eth-Signature'', signature),
                     (''Content-Type'', ''application/json'')]
      in call (Post url payload headers 30000) (post url payload headers 30000))"

text \<open>
  The \<open>if\<close> / \<open>else if\<close> / \<open>else\<close> of \<open>main\<close> that computes \<open>result\<close> from
  \<open>SIGN_MODE\<close>.
\<close>

definition signByMode :: "runtime \<Rightarrow> ethers \<Rightarrow> Wallet \<Rightarrow> (string \<times> string) io" where
  "signByMode rt lib wallet =
     (let mode = toLowerCase (orDefault (env rt ''SIGN_MODE'') ''personal'') in
      if mode = ''personal'' then
        (let message = orDefault (env rt ''MESSAGE'') ''Hello from Node signer''
         in signPersonal lib message wallet)
      else if mode = ''typed'' then
        andThen (lift (getenvStrict rt ''TYPED_DATA_JSON'')) (\<lambda>raw.
        andThen (lift (JSON_parse rt raw)) (\<lambda>parsed.
        signTyped lib parsed wallet))
      else throw BadSignMode)"

definition main_sign :: "runtime \<Rightarrow> ethers \<Rightarrow> axios \<Rightarrow> unit io" where
  "main_sign rt lib post =
     seq (log [Str (''Timestamp: '' @ Date_toISOString rt)])
    (andThen (lift (getenvStrict rt ''ETH_RPC_URL'')) (\<lambda>rpcUrl.
     andThen (lift (getenvStrict rt ''PRIVATE_KEY'')) (\<lambda>key.
     andThen (lift (getenvStrict rt ''TARGET_API_URL'')) (\<lambda>apiUrl.
     andThen (call (GetBlockNumber rpcUrl) (getBlockNumber lib rpcUrl)) (\<lambda>_.
     andThen (call (New_Wallet key) (Wallet_new lib key)) (\<lambda>wallet.
     andThen (signByMode rt lib wallet) (\<lambda>result.
     seq (log [Str (''Signed by: '' @ snd result)])
    (seq (log [Str (''Signature: '' @ fst result)])
    (let payloadRaw = orDefault (env rt ''API_PAYLOAD_JSON'') ''{}'' in
     andThen (lift (JSON_parse rt payloadRaw)) (\<lambda>payload.
     andThen (callApi post apiUrl (fst result) (snd result) payload) (\<lambda>response.
     seq (log [Str (''API status: '' @ bigint_toString (status response))])
         (log [data response]))))))))))))"

section \<open>The transaction script\<close>

text \<open>
  The script that sends an EIP-1559 transaction stands in the same source file as the
  sign-and-call script. Unit parsing, gas estimation, broadcast and the wait for the
  receipt are the library's and the chain's, and are parameters.
\<close>

record Receipt =
  receipt_status :: "int option"
  blockNumber :: int

record ethers_tx =
  parseEther :: "string \<Rightarrow> error + int"
  parseUnits :: "string \<Rightarrow> string \<Rightarrow> error + int"
  estimateGas :: "string \<Rightarrow> jsval \<Rightarrow> error + int"
  sendTransaction :: "Wallet \<Rightarrow> jsval \<Rightarrow> error + string"
  wait :: "string \<Rightarrow> error + Receipt option"

text \<open>\<open>process.env.X ?? d\<close>: only an unset variable gives the default.\<close>

definition orNullish :: "string option \<Rightarrow> string \<Rightarrow> string" where
  "orNullish v d = (case v of None \<Rightarrow> d | Some s \<Rightarrow> s)"

text \<open>Division of \<open>bigint\<close>s truncates towards zero.\<close>

definition bigint_div :: "int \<Rightarrow> int \<Rightarrow> int" where
  "bigint_div a b =
     (if (a < 0) = (b < 0) then \<bar>a\<bar> div \<bar>b\<bar> else - (\<bar>a\<bar> div \<bar>b\<bar>))"

definition toWeiEth :: "ethers_tx \<Rightarrow> string \<Rightarrow> error + int" where
  "toWeiEth txlib amount = parseEther txlib amount"

definition main_tx :: "runtime \<Rightarrow> ethers \<Rightarrow> ethers_tx \<Rightarrow> unit io" where
  "main_tx rt lib txlib =
     seq (log [Str (''Timestamp: '' @ Date_toISOString rt)])
    (andThen (lift (getenvStrict rt ''ETH_RPC_URL'')) (\<lambda>rpcUrl.
     andThen (lift (getenvStrict rt ''CHAIN_ID'')) (\<lambda>c.
     andThen (case StringToBigInt c of None \<Rightarrow> throw SyntaxError | Some n \<Rightarrow> ret n) (\<lambda>chainId.
     andThen (lift (getenvStrict rt ''PRIVATE_KEY'')) (\<lambda>key.
     andThen (lift (getenvStrict rt ''TO_ADDRESS'')) (\<lambda>to.
     andThen (lift (getenvStrict rt ''AMOUNT_ETH'')) (\<lambda>amountEth.
     andThen (call (GetBlockNumber rpcUrl) (getBlockNumber lib rpcUrl)) (\<lambda>_.
     andThen (call (New_Wallet key) (Wallet_new lib key)) (\<lambda>wallet.
     let maxPriorityFeeGwei = orNullish (env rt ''MAX_PRIORITY_FEE_GWEI'') ''2'';
         maxFeeGwei = orNullish (env rt ''MAX_FEE_GWEI'') ''60''
     in
     andThen (lift (parseUnits txlib maxPriorityFeeGwei ''gwei'')) (\<lambda>maxPriorityFeePerGas.
     andThen (lift (parseUnits txlib maxFeeGwei ''gwei'')) (\<lambda>maxFeePerGas.
     andThen (lift (toWeiEth txlib amountEth)) (\<lambda>val.
     let txRequest = [(''chainId'', Num (Number chainId)),
                      (''to'', Str to),
                      (''value'', BigInt val),
                      (''type'', Num (Fin 2)),
                      (''maxPriorityFeePerGas'', BigInt maxPriorityFeePerGas),
                      (''maxFeePerGas'', BigInt maxFeePerGas)];
         query = Obj [(''from'', Str (address wallet)), (''to'', Str to), (''value'', BigInt val)]
     in
     andThen (call (EstimateGas rpcUrl query)
                (case estimateGas txlib rpcUrl query of
                   Inl e \<Rightarrow> Inl (GasEstimationFailed e)
                 | Inr g \<Rightarrow> Inr g)) (\<lambda>estimate.
     let gasLimit = bigint_div (estimate * 11) 10;
         request = Obj (txRequest @ [(''gasLimit'', BigInt gasLimit)])
     in
     andThen (call (SendTransaction wallet request) (sendTransaction txlib wallet request)) (\<lambda>hash.
     seq (log [Str (''Transaction sent: '' @ hash)])
    (let waitFor = toLowerCase (orNullish (env rt ''WAIT_FOR_RECEIPT'') ''true'') in
     if waitFor \<in> set [''1'', ''true'', ''yes''] then
       andThen (call (WaitReceipt hash) (wait txlib hash)) (\<lambda>receipt.
       case receipt of
         None \<Rightarrow> throw TypeError
       | Some r \<Rightarrow>
           log [Str (''Receipt status: ''
                     @ (case receipt_status r of None \<Rightarrow> ''null'' | Some st \<Rightarrow> bigint_toString st)
                     @ '' | Block: '' @ bigint_toString (blockNumber r))])
     else ret ())))))))))))))))"

section \<open>Observations on a run\<close>

fun isConsole :: "event \<Rightarrow> bool" where
  "isConsole (Console_log args) = True"
| "isConsole ev = False"

fun isPost :: "event \<Rightarrow> bool" where
  "isPost (Post url payload headers timeout) = True"
| "isPost ev = False"

text \<open>The values whose signature was requested, in order.\<close>

fun signedValues :: "event list \<Rightarrow> jsval list" where
  "signedValues [] = []"
| "signedValues (SignTypedData w d t v # evs) = v # signedValues evs"
| "signedValues (ev # evs) = signedValues evs"

text \<open>The HTTP requests: URL, body and timeout in milliseconds, in order.\<close>

fun posted :: "event list \<Rightarrow> (string \<times> jsval \<times> nat) list" where
  "posted [] = []"
| "posted (Post url payload headers timeout # evs) = (url, payload, timeout) # posted evs"
| "posted (ev # evs) = posted evs"

text \<open>The domain and the type schema of every signing and every recovery, in order.\<close>

fun domainsAndTypes :: "event list \<Rightarrow> (jsval \<times> jsval) list" where
  "domainsAndTypes [] = []"
| "domainsAndTypes (SignTypedData w d t v # evs) = (d, t) # domainsAndTypes evs"
| "domainsAndTypes (VerifyTypedData d t v s # evs) = (d, t) # domainsAndTypes evs"
| "domainsAndTypes (ev # evs) = domainsAndTypes evs"

text \<open>What a run did before its first HTTP request.\<close>

definition beforePost :: "event list \<Rightarrow> event list" where
  "beforePost evs = takeWhile (\<lambda>ev. \<not> isPost ev) evs"

text \<open>A required variable is missing or blank: unset, empty or white space only.\<close>

definition missingOrBlank :: "runtime \<Rightarrow> string \<Rightarrow> bool" where
  "missingOrBlank rt name = (case env rt name of None \<Rightarrow> True | Some v \<Rightarrow> list_all isWhiteSpace v)"

section \<open>Sample surroundings\<close>

text \<open>
  Stand-ins for the library and the remote side, used to run the scripts on concrete
  inputs: a library that accepts every key, gives every wallet the address
  \<open>sample_address\<close>, returns a fixed signature and recovers the address it is given; a
  remote side that answers 200; and one that times out.
\<close>

definition sample_address :: string where
  "sample_address = ''0xf39Fd6e51aad88F6F4ce6aB8827279cffFb92266''"

definition sample_ethers :: "string \<Rightarrow> ethers" where
  "sample_ethers recovered =
     \<lparr> Wallet_new = (\<lambda>k. Inr \<lparr> privateKey = k, address = sample_address \<rparr>),
       signTypedData = (\<lambda>w d t v. Inr ''0xsignature''),
       signMessage = (\<lambda>w m. Inr ''0xsignature''),
       Signature_from = (\<lambda>s. Inr \<lparr> sig_r = ''0xr'', sig_s = ''0xs'', sig_v = 27 \<rparr>),
       verifyTypedData = (\<lambda>d t v s. Inr recovered),
       getBlockNumber = (\<lambda>u. Inr 1) \<rparr>"

definition sample_axios :: axios where
  "sample_axios = (\<lambda>url payload headers timeout. Inr \<lparr> status = 200, data = Obj [(''status'', Str ''ok'')] \<rparr>)"

definition timeout_axios :: axios where
  "timeout_axios = (\<lambda>url payload headers timeout. Inl TimeoutError)"

definition sample_runtime :: "(string \<times> string) list \<Rightarrow> runtime" where
  "sample_runtime vars =
     \<lparr> env = map_of vars,
       Date_toISOString = ''2025-11-01T11:11:51.000Z'',
       Date_now = 1761995511314,
       JSON_parse = (\<lambda>s. Inr (Obj [])) \<rparr>"

text \<open>The finalizer's environment with no \<open>NONCE\<close>.\<close>

definition finalizer_vars :: "(string \<times> string) list" where
  "finalizer_vars =
     [(''IS_FINALIZE'', ''true''),
      (''STAKING_PRIVATE_KEY'', ''0xac0974bec39a17e36ba4a6b4d238ff944bacb478cbed5efcae784d7bf4f2ff80''),
      (''STAKING_USER_ADDRESS'', ''0x70997970C51812dc3A010C7d01b50e0d17dc79C8'')]"

text \<open>The initiator's environment with no \<open>NONCE\<close>.\<close>

definition initiator_vars :: "(string \<times> string) list" where
  "initiator_vars =
     [(''TRADING_PRIVATE_KEY'', ''0xac0974bec39a17e36ba4a6b4d238ff944bacb478cbed5efcae784d7bf4f2ff80''),
      (''TRADING_USER_ADDRESS'', ''0x70997970C51812dc3A010C7d01b50e0d17dc79C8'')]"

text \<open>The generic script in typed mode with no \<open>TYPED_DATA_JSON\<close>.\<close>

definition typed_vars :: "(string \<times> string) list" where
  "typed_vars =
     [(''ETH_RPC_URL'', ''http://localhost:8545''),
      (''PRIVATE_KEY'', ''0xac0974bec39a17e36ba4a6b4d238ff944bacb478cbed5efcae784d7bf4f2ff80''),
      (''TARGET_API_URL'', ''http://localhost:3000/auth''),
      (''SIGN_MODE'', ''typed'')]"

section \<open>Facts about the JavaScript primitives\<close>

lemma toLowerChar_idem: "toLowerChar (toLowerChar c) = toLowerChar c"
  by (cases "isUpper c") (auto simp: toLowerChar_def isUpper_def)

lemma toLowerCase_idem: "toLowerCase (toLowerCase s) = toLowerCase s"
  by (simp add: toLowerCase_def toLowerChar_idem)

lemma bitlen_le: "n < 2 ^ k \<Longrightarrow> bitlen n \<le> k"
proof (induction k arbitrary: n)
  case 0
  then show ?case by (simp add: bitlen.simps)
next
  case (Suc k)
  have "n div 2 < 2 ^ k" using Suc.prems by simp
  then have "bitlen (n div 2) \<le> k" by (rule Suc.IH)
  then show ?case by (subst bitlen.simps) simp
qed

lemma bitlen_gt: "2 ^ k \<le> n \<Longrightarrow> k < bitlen n"
proof (induction k arbitrary: n)
  case 0
  then show ?case by (subst bitlen.simps) simp
next
  case (Suc k)
  have "2 ^ k \<le> n div 2" using Suc.prems by simp
  then have "k < bitlen (n div 2)" by (rule Suc.IH)
  moreover have "(0::nat) < 2 ^ Suc k" by simp
  then have "n \<noteq> 0" using Suc.prems by linarith
  ultimately show ?case by (subst bitlen.simps) simp
qed

lemma round53_small: "n < 2 ^ 53 \<Longrightarrow> round53 n = n"
proof -
  assume "n < 2 ^ 53"
  then have "bitlen n \<le> 53" by (rule bitlen_le)
  then have e: "bitlen n - 53 = 0" by simp
  show ?thesis unfolding round53_def e Let_def by simp
qed

lemma Number_exact:
  assumes "0 \<le> n" and "n < 2 ^ 53"
  shows "Number n = Fin n"
proof -
  have a: "\<bar>n\<bar> = n" using assms(1) by simp
  have lt: "nat n < 2 ^ 53" using assms by (simp add: nat_less_iff)
  have r: "round53 (nat n) = nat n" using lt by (rule round53_small)
  have "(2::nat) ^ 53 < 2 ^ 1024" by simp
  with lt have small: "\<not> (2::nat) ^ 1024 \<le> nat n" by linarith
  show ?thesis
    unfolding Number_def a Let_def r using small assms(1) by simp
qed

lemma bitlen_54: "bitlen (2 ^ 53 + 1) = 54"
proof -
  have "(2 ^ 53 + 1 :: nat) < 2 ^ 54" by simp
  then have "bitlen (2 ^ 53 + 1) \<le> 54" by (rule bitlen_le)
  moreover have "(2::nat) ^ 53 \<le> 2 ^ 53 + 1" by simp
  then have "53 < bitlen (2 ^ 53 + 1)" by (rule bitlen_gt)
  ultimately show ?thesis by simp
qed

lemma Number_inexact: "Number (2 ^ 53 + 1) = Fin (2 ^ 53)"
proof -
  have n: "nat \<bar>2 ^ 53 + 1 :: int\<bar> = 2 ^ 53 + 1" by simp
  have r: "round53 (2 ^ 53 + 1) = 2 ^ 53"
    unfolding round53_def bitlen_54 Let_def by simp
  show ?thesis unfolding Number_def n r Let_def by simp
qed

section \<open>The scripts, step by step\<close>

lemma andThen_call:
  "andThen (call ev r) f = (case r of Inl e \<Rightarrow> ([ev], Inl e) | Inr x \<Rightarrow> (ev # fst (f x), snd (f x)))"
  by (simp add: andThen_def call_def split: sum.splits prod.splits)

lemma andThen_lift:
  "andThen (lift r) f = (case r of Inl e \<Rightarrow> ([], Inl e) | Inr x \<Rightarrow> f x)"
  by (simp add: andThen_def lift_def split: sum.splits prod.splits)

lemma andThen_ret: "andThen (ret x) f = f x"
  by (simp add: andThen_def ret_def split: prod.splits)

lemma andThen_throw: "andThen (throw e) f = ([], Inl e)"
  by (simp add: andThen_def throw_def)

lemma seq_log: "seq (log a) k = (Console_log a # fst k, snd k)"
  by (simp add: seq_def andThen_def log_def split: prod.splits)

lemma andThen_pair:
  "andThen (t, r) f = (case r of Inl e \<Rightarrow> (t, Inl e) | Inr x \<Rightarrow> (t @ fst (f x), snd (f x)))"
  by (simp add: andThen_def split: sum.splits prod.splits)

lemma fst_log: "fst (log a) = [Console_log a]" and snd_log: "snd (log a) = Inr ()"
  by (simp_all add: log_def)

lemmas io_simps =
  andThen_call andThen_lift andThen_ret andThen_throw seq_log andThen_pair fst_log snd_log

lemma signedValues_append: "signedValues (xs @ ys) = signedValues xs @ signedValues ys"
  by (induction xs rule: signedValues.induct) simp_all

lemma posted_append: "posted (xs @ ys) = posted xs @ posted ys"
  by (induction xs rule: posted.induct) simp_all

lemma signLinkAction_eq:
  "signLinkAction lib action w tn =
     (case signTypedData lib w (link_domain action) link_types (link_value action) of
        Inl e \<Rightarrow> ([SignTypedData w (link_domain action) link_types (link_value action)], Inl e)
      | Inr s \<Rightarrow>
          (case Signature_from lib s of
             Inl e \<Rightarrow> ([SignTypedData w (link_domain action) link_types (link_value action)], Inl e)
           | Inr sg \<Rightarrow>
               ([SignTypedData w (link_domain action) link_types (link_value action),
                 VerifyTypedData (link_domain action) link_types (link_value action) s],
                (case verifyTypedData lib (link_domain action) link_types (link_value action) s of
                   Inl e \<Rightarrow> Inl e
                 | Inr recovered \<Rightarrow>
                     if toLowerCase recovered \<noteq> toLowerCase (address w)
                     then Inl (RecoveryMismatch recovered (address w))
                     else Inr (sigObj sg)))))"
  by (simp add: signLinkAction_def io_simps Let_def throw_def ret_def split: sum.splits)

lemma submitLinkAction_eq:
  "submitLinkAction post payload tn =
     ([Post (baseUrl tn @ ''/exchange'') payload (link_headers tn) 30000],
      post (baseUrl tn @ ''/exchange'') payload (link_headers tn) 30000)"
  by (simp add: submitLinkAction_def call_def Let_def)

lemma signAndSubmitLink_eq:
  "signAndSubmitLink rt lib post key ua fin tn nopt =
     (case Wallet_new lib key of
        Inl e \<Rightarrow> ([New_Wallet key], Inl e)
      | Inr w \<Rightarrow>
         (let n = nonceOrNow rt nopt; act = linkAction tn fin n ua;
              pre = [New_Wallet key,
                     Console_log [Str (''Signing with account: '' @ address w)],
                     Console_log [Str (''User: '' @ ua)],
                     Console_log [Str (''isFinalize: '' @ bool_toString fin)],
                     Console_log [Str (''Nonce: '' @ bigint_toString n)]]
                    @ fst (signLinkAction lib act w tn)
          in case snd (signLinkAction lib act w tn) of
               Inl e \<Rightarrow> (pre, Inl e)
             | Inr sig \<Rightarrow>
                 (let url = baseUrl tn @ ''/exchange'';
                      pre2 = pre @ [Console_log [Str ''Signature:'', sig],
                                    Console_log [Str ''Submitting to Hyperliquid...''],
                                    Post url (serializablePayload act n sig) (link_headers tn) 30000]
                  in case post url (serializablePayload act n sig) (link_headers tn) 30000 of
                       Inl e \<Rightarrow> (pre2, Inl e)
                     | Inr response \<Rightarrow>
                         (pre2 @ [Console_log [Str ''Response status:'', Num (Fin (status response))],
                                  Console_log [Str ''Response data:'', data response]], Inr ()))))"
proof (cases "Wallet_new lib key")
  case (Inl e)
  then show ?thesis by (simp add: signAndSubmitLink_def io_simps)
next
  case (Inr w)
  obtain t r where sl: "signLinkAction lib (linkAction tn fin (nonceOrNow rt nopt) ua) w tn = (t, r)"
    by (cases "signLinkAction lib (linkAction tn fin (nonceOrNow rt nopt) ua) w tn")
  show ?thesis
    using Inr sl
    by (simp add: signAndSubmitLink_def io_simps Let_def submitLinkAction_eq split: sum.splits)
qed

lemma fst_parseNonceArg: "fst (parseNonceArg a) = []"
  by (simp add: parseNonceArg_def ret_def throw_def split: option.splits)

lemma main_eq:
  "main rt lib post =
     (let ts = Console_log [Str (''Timestamp: '' @ Date_toISOString rt)];
          fin = (env rt ''IS_FINALIZE'' = Some ''true'');
          tn = (env rt ''HYPERLIQUID_TESTNET'' \<noteq> Some ''false'');
          K = (if fin then ''STAKING_PRIVATE_KEY'' else ''TRADING_PRIVATE_KEY'');
          A = (if fin then ''STAKING_USER_ADDRESS'' else ''TRADING_USER_ADDRESS'')
      in case snd (parseNonceArg (env rt ''NONCE'')) of
           Inl e \<Rightarrow> ([ts], Inl e)
         | Inr nopt \<Rightarrow>
            (case getenvStrict rt K of
               Inl e \<Rightarrow> ([ts], Inl e)
             | Inr k \<Rightarrow>
                (case getenvStrict rt A of
                   Inl e \<Rightarrow> ([ts], Inl e)
                 | Inr a \<Rightarrow>
                     (ts # fst (signAndSubmitLink rt lib post k (toLowerCase a) fin tn nopt),
                      snd (signAndSubmitLink rt lib post k (toLowerCase a) fin tn nopt)))))"
proof -
  obtain r where p: "parseNonceArg (env rt ''NONCE'') = ([], r)"
    by (cases "parseNonceArg (env rt ''NONCE'')") (use fst_parseNonceArg [of "env rt ''NONCE''"] in simp)
  show ?thesis
    by (simp add: main_def io_simps Let_def p split: sum.splits)
qed

lemma main_finalize_eq:
  "main_finalize rt lib post =
     (let ts = Console_log [Str (''Timestamp: '' @ Date_toISOString rt)];
          banner = Console_log [Str (''=== STAKING ACCOUNT - Finalizing Link ==='' @ [CHR 0x0A])];
          tn = (env rt ''HYPERLIQUID_TESTNET'' \<noteq> Some ''false'')
      in case getenvStrict rt ''STAKING_PRIVATE_KEY'' of
           Inl e \<Rightarrow> ([ts, banner], Inl e)
         | Inr k \<Rightarrow>
      (case getenvStrict rt ''STAKING_USER_ADDRESS'' of
           Inl e \<Rightarrow> ([ts, banner], Inl e)
         | Inr a \<Rightarrow>
      (case Wallet_new lib k of
           Inl e \<Rightarrow> ([ts, banner, New_Wallet k], Inl e)
         | Inr w \<Rightarrow>
      (case snd (parseNonceArg (env rt ''NONCE'')) of
           Inl e \<Rightarrow> ([ts, banner, New_Wallet k], Inl e)
         | Inr nopt \<Rightarrow>
          (let n = (case nopt of None \<Rightarrow> Date_now rt | Some m \<Rightarrow> m);
               act = linkAction tn True n (toLowerCase a);
               pre = [ts, banner, New_Wallet k,
                      Console_log [Str (''Signing with staking account: '' @ address w)],
                      Console_log [Str (''Finalizing link to trading account: '' @ toLowerCase a)],
                      Console_log [Str (''Nonce: '' @ bigint_toString n)]]
                     @ fst (signLinkAction lib act w tn)
           in case snd (signLinkAction lib act w tn) of
                Inl e \<Rightarrow> (pre, Inl e)
              | Inr sig \<Rightarrow>
                  (let url = baseUrl tn @ ''/exchange'';
                       pre2 = pre @ [Console_log [Str ''Signature:'', sig],
                                     Console_log [Str (CHR 0x0A # ''Submitting to Hyperliquid...'')],
                                     Post url (serializablePayload act n sig) (link_headers tn) 30000]
                   in case post url (serializablePayload act n sig) (link_headers tn) 30000 of
                        Inl e \<Rightarrow> (pre2, Inl e)
                      | Inr response \<Rightarrow>
                          (pre2 @ [Console_log [Str ''Response status:'', Num (Fin (status response))],
                                   Console_log [Str ''Response data:'', data response]], Inr ())))))))"
proof (cases "getenvStrict rt ''STAKING_PRIVATE_KEY''")
  case (Inl e)
  then show ?thesis by (simp add: main_finalize_def io_simps)
next
  case k: (Inr k)
  show ?thesis
  proof (cases "getenvStrict rt ''STAKING_USER_ADDRESS''")
    case (Inl e)
    then show ?thesis using k by (simp add: main_finalize_def io_simps)
  next
    case a: (Inr a)
    show ?thesis
    proof (cases "Wallet_new lib k")
      case (Inl e)
      then show ?thesis using k a by (simp add: main_finalize_def io_simps Let_def)
    next
      case w: (Inr w)
      obtain r where p: "parseNonceArg (env rt ''NONCE'') = ([], r)"
        by (cases "parseNonceArg (env rt ''NONCE'')")
          (use fst_parseNonceArg [of "env rt ''NONCE''"] in simp)
      show ?thesis
      proof (cases r)
        case (Inl e)
        then show ?thesis using k a w p by (simp add: main_finalize_def io_simps Let_def)
      next
        case (Inr nopt)
        obtain t res where sl:
          "signLinkAction lib (linkAction (env rt ''HYPERLIQUID_TESTNET'' \<noteq> Some ''false'') True
              (case nopt of None \<Rightarrow> Date_now rt | Some m \<Rightarrow> m) (toLowerCase a)) w
              (env rt ''HYPERLIQUID_TESTNET'' \<noteq> Some ''false'') = (t, res)"
          by (cases "signLinkAction lib (linkAction (env rt ''HYPERLIQUID_TESTNET'' \<noteq> Some ''false'') True
              (case nopt of None \<Rightarrow> Date_now rt | Some m \<Rightarrow> m) (toLowerCase a)) w
              (env rt ''HYPERLIQUID_TESTNET'' \<noteq> Some ''false'')")
        show ?thesis
          using k a w p Inr sl
          by (simp add: main_finalize_def io_simps Let_def submitLinkAction_eq split: sum.splits)
      qed
    qed
  qed
qed

lemma fst_signByMode_cases:
  "fst (signByMode rt lib w) = [] \<or>
   (\<exists>m. fst (signByMode rt lib w) = [SignMessage w m]) \<or>
   (\<exists>d t v. fst (signByMode rt lib w) = [SignTypedData w d t v])"
  by (simp add: signByMode_def signPersonal_def signTyped_def io_simps Let_def ret_def throw_def
      split: sum.splits)

lemma callApi_eq:
  "callApi post url sg addr payload0 =
     ([Post url (if payload0 = Undefined then Obj [] else payload0)
         [(''X-Eth-Address'', addr), (''X-Eth-Signature'', sg), (''Content-Type'', ''application/json'')]
         30000],
      post url (if payload0 = Undefined then Obj [] else payload0)
         [(''X-Eth-Address'', addr), (''X-Eth-Signature'', sg), (''Content-Type'', ''application/json'')]
         30000)"
  by (simp add: callApi_def call_def Let_def)

lemma main_sign_eq:
  "main_sign rt lib post =
     (let ts = Console_log [Str (''Timestamp: '' @ Date_toISOString rt)]
      in case getenvStrict rt ''ETH_RPC_URL'' of
           Inl e \<Rightarrow> ([ts], Inl e)
         | Inr rpcUrl \<Rightarrow>
      (case getenvStrict rt ''PRIVATE_KEY'' of
           Inl e \<Rightarrow> ([ts], Inl e)
         | Inr key \<Rightarrow>
      (case getenvStrict rt ''TARGET_API_URL'' of
           Inl e \<Rightarrow> ([ts], Inl e)
         | Inr apiUrl \<Rightarrow>
      (case getBlockNumber lib rpcUrl of
           Inl e \<Rightarrow> ([ts, GetBlockNumber rpcUrl], Inl e)
         | Inr b \<Rightarrow>
      (case Wallet_new lib key of
           Inl e \<Rightarrow> ([ts, GetBlockNumber rpcUrl, New_Wallet key], Inl e)
         | Inr w \<Rightarrow>
      (case snd (signByMode rt lib w) of
           Inl e \<Rightarrow> ([ts, GetBlockNumber rpcUrl, New_Wallet key] @ fst (signByMode rt lib w), Inl e)
         | Inr result \<Rightarrow>
          (let pre = [ts, GetBlockNumber rpcUrl, New_Wallet key] @ fst (signByMode rt lib w)
                     @ [Console_log [Str (''Signed by: '' @ snd result)],
                        Console_log [Str (''Signature: '' @ fst result)]]
           in case JSON_parse rt (orDefault (env rt ''API_PAYLOAD_JSON'') ''{}'') of
                Inl e \<Rightarrow> (pre, Inl e)
              | Inr payload \<Rightarrow>
                 (case snd (callApi post apiUrl (fst result) (snd result) payload) of
                    Inl e \<Rightarrow> (pre @ fst (callApi post apiUrl (fst result) (snd result) payload), Inl e)
                  | Inr response \<Rightarrow>
                      (pre @ fst (callApi post apiUrl (fst result) (snd result) payload)
                         @ [Console_log [Str (''API status: '' @ bigint_toString (status response))],
                            Console_log [data response]], Inr ())))))))))"
proof (cases "getenvStrict rt ''ETH_RPC_URL''")
  case (Inl e)
  then show ?thesis by (simp add: main_sign_def io_simps)
next
  case u: (Inr rpcUrl)
  show ?thesis
  proof (cases "getenvStrict rt ''PRIVATE_KEY''")
    case (Inl e)
    then show ?thesis using u by (simp add: main_sign_def io_simps)
  next
    case k: (Inr key)
    show ?thesis
    proof (cases "getenvStrict rt ''TARGET_API_URL''")
      case (Inl e)
      then show ?thesis using u k by (simp add: main_sign_def io_simps)
    next
      case a: (Inr apiUrl)
      show ?thesis
      proof (cases "getBlockNumber lib rpcUrl")
        case (Inl e)
        then show ?thesis using u k a by (simp add: main_sign_def io_simps)
      next
        case b: (Inr b)
        show ?thesis
        proof (cases "Wallet_new lib key")
          case (Inl e)
          then show ?thesis using u k a b by (simp add: main_sign_def io_simps)
        next
          case w: (Inr w)
          obtain t res where sm: "signByMode rt lib w = (t, res)"
            by (cases "signByMode rt lib w")
          show ?thesis
            using u k a b w sm
            by (simp add: main_sign_def io_simps Let_def callApi_eq split: sum.splits)
        qed
      qed
    qed
  qed
qed


lemma signedValues_signLinkAction:
  "signedValues (fst (signLinkAction lib act w tn)) = [link_value act]"
  by (simp add: signLinkAction_eq split: sum.splits)

lemma posted_signLinkAction: "posted (fst (signLinkAction lib act w tn)) = []"
  by (simp add: signLinkAction_eq split: sum.splits)

lemma signedValues_sasl:
  "signedValues (fst (signAndSubmitLink rt lib post key ua fin tn nopt)) =
     (case Wallet_new lib key of
        Inl e \<Rightarrow> []
      | Inr w \<Rightarrow> [link_value (linkAction tn fin (nonceOrNow rt nopt) ua)])"
  by (simp add: signAndSubmitLink_eq Let_def signedValues_append signedValues_signLinkAction
      split: sum.splits)

lemma posted_sasl:
  "posted (fst (signAndSubmitLink rt lib post key ua fin tn nopt)) =
     (case Wallet_new lib key of
        Inl e \<Rightarrow> []
      | Inr w \<Rightarrow>
          (case snd (signLinkAction lib (linkAction tn fin (nonceOrNow rt nopt) ua) w tn) of
             Inl e \<Rightarrow> []
           | Inr sig \<Rightarrow>
               [(baseUrl tn @ ''/exchange'',
                 serializablePayload (linkAction tn fin (nonceOrNow rt nopt) ua) (nonceOrNow rt nopt) sig,
                 30000)]))"
  by (simp add: signAndSubmitLink_eq Let_def posted_append posted_signLinkAction
      split: sum.splits)

lemma link_value_written:
  "link_value (linkAction tn fin n ua) =
     Obj [(''hyperliquidChain'', Str (if tn then ''Testnet'' else ''Mainnet'')),
          (''user'', Str (toLowerCase ua)),
          (''isFinalize'', Bool fin),
          (''nonce'', BigInt n)]"
  by (simp add: link_value_def linkAction_def)

lemma payload_nonce:
  "getProp (serializablePayload act n sig) ''nonce'' = Inr (Num (Number n))"
  by (simp add: serializablePayload_def)

lemma payload_action_nonce:
  "getProp (serializablePayload act n sig) ''action'' =
     Inr (Obj [(''hyperliquidChain'', Str (hyperliquidChain act)),
               (''isFinalize'', Bool (isFinalize act)),
               (''nonce'', Num (Number (nonce act))),
               (''signatureChainId'', Str (signatureChainId act)),
               (''type'', Str (type act)),
               (''user'', Str (user act))])"
  by (simp add: serializablePayload_def)

lemma signedValues_main_finalize:
  "signedValues (fst (main_finalize rt lib post)) =
     (case getenvStrict rt ''STAKING_PRIVATE_KEY'' of Inl e \<Rightarrow> [] | Inr k \<Rightarrow>
      (case getenvStrict rt ''STAKING_USER_ADDRESS'' of Inl e \<Rightarrow> [] | Inr a \<Rightarrow>
      (case Wallet_new lib k of Inl e \<Rightarrow> [] | Inr w \<Rightarrow>
      (case snd (parseNonceArg (env rt ''NONCE'')) of Inl e \<Rightarrow> [] | Inr nopt \<Rightarrow>
         [link_value (linkAction (env rt ''HYPERLIQUID_TESTNET'' \<noteq> Some ''false'') True
            (case nopt of None \<Rightarrow> Date_now rt | Some m \<Rightarrow> m) (toLowerCase a))]))))"
  by (simp add: main_finalize_eq Let_def signedValues_append signedValues_signLinkAction
      split: sum.splits)

lemma posted_main_finalize:
  "posted (fst (main_finalize rt lib post)) =
     (case getenvStrict rt ''STAKING_PRIVATE_KEY'' of Inl e \<Rightarrow> [] | Inr k \<Rightarrow>
      (case getenvStrict rt ''STAKING_USER_ADDRESS'' of Inl e \<Rightarrow> [] | Inr a \<Rightarrow>
      (case Wallet_new lib k of Inl e \<Rightarrow> [] | Inr w \<Rightarrow>
      (case snd (parseNonceArg (env rt ''NONCE'')) of Inl e \<Rightarrow> [] | Inr nopt \<Rightarrow>
        (let tn = (env rt ''HYPERLIQUID_TESTNET'' \<noteq> Some ''false'');
             n = (case nopt of None \<Rightarrow> Date_now rt | Some m \<Rightarrow> m);
             act = linkAction tn True n (toLowerCase a)
         in case snd (signLinkAction lib act w tn) of
              Inl e \<Rightarrow> []
            | Inr sig \<Rightarrow> [(baseUrl tn @ ''/exchange'', serializablePayload act n sig, 30000)])))))"
  by (simp add: main_finalize_eq Let_def posted_append posted_signLinkAction
      split: sum.splits)

lemma signedValues_main:
  "signedValues (fst (main rt lib post)) =
     (let fin = (env rt ''IS_FINALIZE'' = Some ''true'') in
      case snd (parseNonceArg (env rt ''NONCE'')) of Inl e \<Rightarrow> [] | Inr nopt \<Rightarrow>
      (case getenvStrict rt (if fin then ''STAKING_PRIVATE_KEY'' else ''TRADING_PRIVATE_KEY'') of
         Inl e \<Rightarrow> [] | Inr k \<Rightarrow>
      (case getenvStrict rt (if fin then ''STAKING_USER_ADDRESS'' else ''TRADING_USER_ADDRESS'') of
         Inl e \<Rightarrow> [] | Inr a \<Rightarrow>
      (case Wallet_new lib k of Inl e \<Rightarrow> [] | Inr w \<Rightarrow>
         [link_value (linkAction (env rt ''HYPERLIQUID_TESTNET'' \<noteq> Some ''false'') fin
            (nonceOrNow rt nopt) (toLowerCase a))]))))"
  by (simp add: main_eq Let_def signedValues_sasl split: sum.splits)

lemma posted_main:
  "posted (fst (main rt lib post)) =
     (let fin = (env rt ''IS_FINALIZE'' = Some ''true'');
          tn = (env rt ''HYPERLIQUID_TESTNET'' \<noteq> Some ''false'') in
      case snd (parseNonceArg (env rt ''NONCE'')) of Inl e \<Rightarrow> [] | Inr nopt \<Rightarrow>
      (case getenvStrict rt (if fin then ''STAKING_PRIVATE_KEY'' else ''TRADING_PRIVATE_KEY'') of
         Inl e \<Rightarrow> [] | Inr k \<Rightarrow>
      (case getenvStrict rt (if fin then ''STAKING_USER_ADDRESS'' else ''TRADING_USER_ADDRESS'') of
         Inl e \<Rightarrow> [] | Inr a \<Rightarrow>
      (case Wallet_new lib k of Inl e \<Rightarrow> [] | Inr w \<Rightarrow>
        (let act = linkAction tn fin (nonceOrNow rt nopt) (toLowerCase a)
         in case snd (signLinkAction lib act w tn) of
              Inl e \<Rightarrow> []
            | Inr sig \<Rightarrow> [(baseUrl tn @ ''/exchange'',
                            serializablePayload act (nonceOrNow rt nopt) sig, 30000)])))))"
  by (simp add: main_eq Let_def posted_sasl split: sum.splits)


lemma linkAction_sel:
  "hyperliquidChain (linkAction tn fin n ua) = (if tn then ''Testnet'' else ''Mainnet'')"
  "isFinalize (linkAction tn fin n ua) = fin"
  "nonce (linkAction tn fin n ua) = n"
  "signatureChainId (linkAction tn fin n ua) = (if tn then ''0x3e6'' else ''0x1'')"
  "type (linkAction tn fin n ua) = ''linkStakingUser''"
  "user (linkAction tn fin n ua) = ua"
  by (simp_all add: linkAction_def)

lemma posted_sasl_mem:
  assumes "(u, p, tm) \<in> set (posted (fst (signAndSubmitLink rt lib post key ua fin tn nopt)))"
  shows "\<exists>w sig. Wallet_new lib key = Inr w
           \<and> snd (signLinkAction lib (linkAction tn fin (nonceOrNow rt nopt) ua) w tn) = Inr sig
           \<and> u = baseUrl tn @ ''/exchange''
           \<and> p = serializablePayload (linkAction tn fin (nonceOrNow rt nopt) ua) (nonceOrNow rt nopt) sig
           \<and> tm = 30000"
proof (cases "Wallet_new lib key")
  case (Inl e)
  then show ?thesis using assms by (simp add: posted_sasl)
next
  case (Inr w)
  then show ?thesis using assms
    by (cases "snd (signLinkAction lib (linkAction tn fin (nonceOrNow rt nopt) ua) w tn)")
      (simp_all add: posted_sasl)
qed

lemma posted_main_finalize_mem:
  assumes "(u, p, tm) \<in> set (posted (fst (main_finalize rt lib post)))"
  shows "\<exists>k a w nopt sig.
           getenvStrict rt ''STAKING_PRIVATE_KEY'' = Inr k
         \<and> getenvStrict rt ''STAKING_USER_ADDRESS'' = Inr a
         \<and> Wallet_new lib k = Inr w
         \<and> snd (parseNonceArg (env rt ''NONCE'')) = Inr nopt
         \<and> snd (signLinkAction lib
                 (linkAction (env rt ''HYPERLIQUID_TESTNET'' \<noteq> Some ''false'') True
                    (case nopt of None \<Rightarrow> Date_now rt | Some m \<Rightarrow> m) (toLowerCase a))
                 w (env rt ''HYPERLIQUID_TESTNET'' \<noteq> Some ''false'')) = Inr sig
         \<and> u = baseUrl (env rt ''HYPERLIQUID_TESTNET'' \<noteq> Some ''false'') @ ''/exchange''
         \<and> p = serializablePayload
                 (linkAction (env rt ''HYPERLIQUID_TESTNET'' \<noteq> Some ''false'') True
                    (case nopt of None \<Rightarrow> Date_now rt | Some m \<Rightarrow> m) (toLowerCase a))
                 (case nopt of None \<Rightarrow> Date_now rt | Some m \<Rightarrow> m) sig
         \<and> tm = 30000"
proof (cases "getenvStrict rt ''STAKING_PRIVATE_KEY''")
  case (Inl e)
  then show ?thesis using assms by (simp add: posted_main_finalize)
next
  case k: (Inr k)
  show ?thesis
  proof (cases "getenvStrict rt ''STAKING_USER_ADDRESS''")
    case (Inl e)
    then show ?thesis using assms k by (simp add: posted_main_finalize)
  next
    case a: (Inr a)
    show ?thesis
    proof (cases "Wallet_new lib k")
      case (Inl e)
      then show ?thesis using assms k a by (simp add: posted_main_finalize)
    next
      case w: (Inr w)
      show ?thesis
      proof (cases "snd (parseNonceArg (env rt ''NONCE''))")
        case (Inl e)
        then show ?thesis using assms k a w by (simp add: posted_main_finalize)
      next
        case n: (Inr nopt)
        show ?thesis
          using assms k a w n
          by (cases "snd (signLinkAction lib
                 (linkAction (env rt ''HYPERLIQUID_TESTNET'' \<noteq> Some ''false'') True
                    (case nopt of None \<Rightarrow> Date_now rt | Some m \<Rightarrow> m) (toLowerCase a))
                 w (env rt ''HYPERLIQUID_TESTNET'' \<noteq> Some ''false''))")
            (simp_all add: posted_main_finalize Let_def)
      qed
    qed
  qed
qed

lemma sample_nonce_exact: "Number 1761995511314 = Fin 1761995511314"
  by (rule Number_exact) simp_all

lemma sample_signs:
  "signLinkAction (sample_ethers sample_address) act \<lparr> privateKey = k, address = sample_address \<rparr> tn =
     ([SignTypedData \<lparr> privateKey = k, address = sample_address \<rparr> (link_domain act) link_types (link_value act),
       VerifyTypedData (link_domain act) link_types (link_value act) ''0xsignature''],
      Inr (Obj [(''r'', Str ''0xr''), (''s'', Str ''0xs''), (''v'', Num (Fin 27))]))"
  by (simp add: signLinkAction_eq sample_ethers_def sigObj_def)

lemma trim_Nil_iff: "trim v = [] \<longleftrightarrow> list_all isWhiteSpace v"
proof
  assume "trim v = []"
  then have "dropWhile isWhiteSpace (rev (dropWhile isWhiteSpace v)) = []"
    by (simp add: trim_def)
  then have "\<forall>x\<in>set (rev (dropWhile isWhiteSpace v)). isWhiteSpace x"
    by (rule dropWhile_eq_Nil_conv [THEN iffD1])
  then have all: "\<forall>x\<in>set (dropWhile isWhiteSpace v). isWhiteSpace x"
    by simp
  have "dropWhile isWhiteSpace v = []"
  proof (rule ccontr)
    assume ne: "dropWhile isWhiteSpace v \<noteq> []"
    then have "\<not> isWhiteSpace (hd (dropWhile isWhiteSpace v))" by (rule hd_dropWhile)
    moreover have "hd (dropWhile isWhiteSpace v) \<in> set (dropWhile isWhiteSpace v)"
      using ne by (rule hd_in_set)
    ultimately show False using all by blast
  qed
  then have "\<forall>x\<in>set v. isWhiteSpace x"
    by (rule dropWhile_eq_Nil_conv [THEN iffD1])
  then show "list_all isWhiteSpace v"
    by (rule list_all_iff [THEN iffD2])
next
  assume "list_all isWhiteSpace v"
  then have "\<forall>x\<in>set v. isWhiteSpace x"
    by (rule list_all_iff [THEN iffD1])
  then have d: "dropWhile isWhiteSpace v = []"
    by (rule dropWhile_eq_Nil_conv [THEN iffD2])
  show "trim v = []" unfolding trim_def d by simp
qed

lemma getenvStrict_Inl_iff:
  "getenvStrict rt name = Inl e \<longleftrightarrow> missingOrBlank rt name \<and> e = MissingEnv name"
  by (auto simp: getenvStrict_def missingOrBlank_def trim_Nil_iff split: option.splits)

lemma getenvStrict_Inr_iff:
  "getenvStrict rt name = Inr v \<longleftrightarrow> env rt name = Some v \<and> \<not> list_all isWhiteSpace v"
  by (auto simp: getenvStrict_def trim_Nil_iff split: option.splits)

lemma sample_env: "env (sample_runtime vars) = map_of vars"
  by (simp add: sample_runtime_def)

lemma sample_key_ok:
  "\<not> list_all isWhiteSpace ''0xac0974bec39a17e36ba4a6b4d238ff944bacb478cbed5efcae784d7bf4f2ff80''"
  by (simp add: isWhiteSpace_def)

lemma sample_user_ok:
  "\<not> list_all isWhiteSpace ''0x70997970C51812dc3A010C7d01b50e0d17dc79C8''"
  by (simp add: isWhiteSpace_def)

lemma sample_user_lower:
  "toLowerCase ''0x70997970C51812dc3A010C7d01b50e0d17dc79C8'' = ''0x70997970c51812dc3a010c7d01b50e0d17dc79c8''"
  by code_simp

lemma getenvStrict_Inr:
  "env rt name = Some v \<Longrightarrow> \<not> list_all isWhiteSpace v \<Longrightarrow> getenvStrict rt name = Inr v"
  by (simp add: getenvStrict_Inr_iff)

lemma finalizer_env:
  "env (sample_runtime finalizer_vars) ''IS_FINALIZE'' = Some ''true''"
  "env (sample_runtime finalizer_vars) ''NONCE'' = None"
  "env (sample_runtime finalizer_vars) ''HYPERLIQUID_TESTNET'' = None"
  by (simp_all add: sample_env finalizer_vars_def)

lemma finalizer_key:
  "getenvStrict (sample_runtime finalizer_vars) ''STAKING_PRIVATE_KEY''
     = Inr ''0xac0974bec39a17e36ba4a6b4d238ff944bacb478cbed5efcae784d7bf4f2ff80''"
  by (rule getenvStrict_Inr) (simp add: sample_env finalizer_vars_def, rule sample_key_ok)

lemma finalizer_user:
  "getenvStrict (sample_runtime finalizer_vars) ''STAKING_USER_ADDRESS''
     = Inr ''0x70997970C51812dc3A010C7d01b50e0d17dc79C8''"
  by (rule getenvStrict_Inr) (simp add: sample_env finalizer_vars_def, rule sample_user_ok)

lemma parseNonceArg_absent:
  "a = None \<or> a = Some [] \<Longrightarrow> parseNonceArg a = ([], Inr None)"
  by (auto simp: parseNonceArg_def ret_def)

lemma sample_wallet:
  "Wallet_new (sample_ethers r) k = Inr \<lparr> privateKey = k, address = sample_address \<rparr>"
  by (simp add: sample_ethers_def)

lemma sample_post:
  "sample_axios u p h tm = Inr \<lparr> status = 200, data = Obj [(''status'', Str ''ok'')] \<rparr>"
  by (simp add: sample_axios_def)

lemma sample_now: "Date_now (sample_runtime vars) = 1761995511314"
  by (simp add: sample_runtime_def)

lemma sample_payload:
  "serializablePayload (linkAction True fin 1761995511314 ua) 1761995511314 sig =
     Obj [(''action'',
           Obj [(''hyperliquidChain'', Str ''Testnet''),
                (''isFinalize'', Bool fin),
                (''nonce'', Num (Fin 1761995511314)),
                (''signatureChainId'', Str ''0x3e6''),
                (''type'', Str ''linkStakingUser''),
                (''user'', Str ua)]),
          (''expiresAfter'', Null),
          (''isFrontend'', Bool True),
          (''nonce'', Num (Fin 1761995511314)),
          (''signature'', sig),
          (''vaultAddress'', Null)]"
  by (simp add: serializablePayload_def linkAction_sel sample_nonce_exact)

lemma sample_user_lower_idem:
  "toLowerCase ''0x70997970c51812dc3a010c7d01b50e0d17dc79c8'' = ''0x70997970c51812dc3a010c7d01b50e0d17dc79c8''"
  using toLowerCase_idem [of "''0x70997970C51812dc3A010C7d01b50e0d17dc79C8''"]
  unfolding sample_user_lower .

lemma posted_main_mem:
  assumes "(u, p, tm) \<in> set (posted (fst (main rt lib post)))"
  shows "\<exists>k a w nopt sig.
           snd (parseNonceArg (env rt ''NONCE'')) = Inr nopt
         \<and> getenvStrict rt (if env rt ''IS_FINALIZE'' = Some ''true''
                            then ''STAKING_PRIVATE_KEY'' else ''TRADING_PRIVATE_KEY'') = Inr k
         \<and> getenvStrict rt (if env rt ''IS_FINALIZE'' = Some ''true''
                            then ''STAKING_USER_ADDRESS'' else ''TRADING_USER_ADDRESS'') = Inr a
         \<and> Wallet_new lib k = Inr w
         \<and> snd (signLinkAction lib
                 (linkAction (env rt ''HYPERLIQUID_TESTNET'' \<noteq> Some ''false'')
                    (env rt ''IS_FINALIZE'' = Some ''true'') (nonceOrNow rt nopt) (toLowerCase a))
                 w (env rt ''HYPERLIQUID_TESTNET'' \<noteq> Some ''false'')) = Inr sig
         \<and> u = baseUrl (env rt ''HYPERLIQUID_TESTNET'' \<noteq> Some ''false'') @ ''/exchange''
         \<and> p = serializablePayload
                 (linkAction (env rt ''HYPERLIQUID_TESTNET'' \<noteq> Some ''false'')
                    (env rt ''IS_FINALIZE'' = Some ''true'') (nonceOrNow rt nopt) (toLowerCase a))
                 (nonceOrNow rt nopt) sig
         \<and> tm = 30000"
proof (cases "snd (parseNonceArg (env rt ''NONCE''))")
  case (Inl e)
  then show ?thesis using assms by (simp add: posted_main)
next
  case n: (Inr nopt)
  show ?thesis
  proof (cases "getenvStrict rt (if env rt ''IS_FINALIZE'' = Some ''true''
                            then ''STAKING_PRIVATE_KEY'' else ''TRADING_PRIVATE_KEY'')")
    case (Inl e)
    then show ?thesis using assms n by (simp add: posted_main Let_def)
  next
    case k: (Inr k)
    show ?thesis
    proof (cases "getenvStrict rt (if env rt ''IS_FINALIZE'' = Some ''true''
                            then ''STAKING_USER_ADDRESS'' else ''TRADING_USER_ADDRESS'')")
      case (Inl e)
      then show ?thesis using assms n k by (simp add: posted_main Let_def)
    next
      case a: (Inr a)
      show ?thesis
      proof (cases "Wallet_new lib k")
        case (Inl e)
        then show ?thesis using assms n k a by (simp add: posted_main Let_def)
      next
        case w: (Inr w)
        show ?thesis
          using assms n k a w
          by (cases "snd (signLinkAction lib
                 (linkAction (env rt ''HYPERLIQUID_TESTNET'' \<noteq> Some ''false'')
                    (env rt ''IS_FINALIZE'' = Some ''true'') (nonceOrNow rt nopt) (toLowerCase a))
                 w (env rt ''HYPERLIQUID_TESTNET'' \<noteq> Some ''false''))")
            (simp_all add: posted_main Let_def)
      qed
    qed
  qed
qed

lemma parseInt_testnet: "parseInt ''0x3e6'' = Fin 998"
proof -
  have "parseInt ''0x3e6'' = Number 998"
    by (simp add: parseInt_def trimStart_def isWhiteSpace_def isDigit_def digitVal_def Let_def)
  also have "\<dots> = Fin 998" by (rule Number_exact) simp_all
  finally show ?thesis .
qed

lemma parseInt_mainnet: "parseInt ''0x1'' = Fin 1"
proof -
  have "parseInt ''0x1'' = Number 1"
    by (simp add: parseInt_def trimStart_def isWhiteSpace_def isDigit_def digitVal_def Let_def)
  also have "\<dots> = Fin 1" by (rule Number_exact) simp_all
  finally show ?thesis .
qed

lemma link_domain_written:
  "link_domain (linkAction tn fin n ua) =
     Obj [(''name'', Str ''HyperliquidSignTransaction''),
          (''version'', Str ''1''),
          (''chainId'', Num (Fin (if tn then 998 else 1))),
          (''verifyingContract'', Str ''0x0000000000000000000000000000000000000000'')]"
  by (simp add: link_domain_def linkAction_sel parseInt_testnet parseInt_mainnet)

lemma domainsAndTypes_append:
  "domainsAndTypes (xs @ ys) = domainsAndTypes xs @ domainsAndTypes ys"
  by (induction xs rule: domainsAndTypes.induct) simp_all

lemma domainsAndTypes_signLinkAction:
  "set (domainsAndTypes (fst (signLinkAction lib act w tn))) = {(link_domain act, link_types)}"
  by (simp add: signLinkAction_eq split: sum.splits)

lemma domainsAndTypes_sasl:
  "set (domainsAndTypes (fst (signAndSubmitLink rt lib post key ua fin tn nopt)))
     \<subseteq> {(link_domain (linkAction tn fin (nonceOrNow rt nopt) ua), link_types)}"
  by (simp add: signAndSubmitLink_eq Let_def domainsAndTypes_append domainsAndTypes_signLinkAction
      split: sum.splits)

lemma domainsAndTypes_main:
  "set (domainsAndTypes (fst (main rt lib post)))
     \<subseteq> {(Obj [(''name'', Str ''HyperliquidSignTransaction''),
               (''version'', Str ''1''),
               (''chainId'', Num (Fin (if env rt ''HYPERLIQUID_TESTNET'' \<noteq> Some ''false'' then 998 else 1))),
               (''verifyingContract'', Str ''0x0000000000000000000000000000000000000000'')],
          link_types)}"
proof -
  note S = domainsAndTypes_sasl [unfolded link_domain_written]
  note S1 = S [where tn = True, simplified] and S2 = S [where tn = False, simplified]
  show ?thesis
    by (simp add: main_eq Let_def S1 S2 split: sum.splits)
qed

lemma domainsAndTypes_main_finalize:
  "set (domainsAndTypes (fst (main_finalize rt lib post)))
     \<subseteq> {(Obj [(''name'', Str ''HyperliquidSignTransaction''),
               (''version'', Str ''1''),
               (''chainId'', Num (Fin (if env rt ''HYPERLIQUID_TESTNET'' \<noteq> Some ''false'' then 998 else 1))),
               (''verifyingContract'', Str ''0x0000000000000000000000000000000000000000'')],
          link_types)}"
  by (simp add: main_finalize_eq Let_def domainsAndTypes_append domainsAndTypes_signLinkAction
      link_domain_written split: sum.splits)

lemma link_types_written:
  "link_types =
     Obj [(''HyperliquidTransaction:LinkStakingUser'',
           Arr [Obj [(''name'', Str ''hyperliquidChain''), (''type'', Str ''string'')],
                Obj [(''name'', Str ''user''), (''type'', Str ''address'')],
                Obj [(''name'', Str ''isFinalize''), (''type'', Str ''bool'')],
                Obj [(''name'', Str ''nonce''), (''type'', Str ''uint64'')]])]"
  by (simp add: link_types_def)

lemma domainsAndTypes_main_finalize_sample:
  "domainsAndTypes (fst (main_finalize (sample_runtime finalizer_vars) (sample_ethers sample_address) sample_axios))
     = [(link_domain (linkAction True True 1761995511314 ''0x70997970c51812dc3a010c7d01b50e0d17dc79c8''), link_types),
        (link_domain (linkAction True True 1761995511314 ''0x70997970c51812dc3a010c7d01b50e0d17dc79c8''), link_types)]"
  by (simp add: main_finalize_eq finalizer_env parseNonceArg_absent finalizer_key finalizer_user
      sample_wallet sample_signs sample_post Let_def sample_now sample_user_lower)

lemma signLinkAction_first:
  "\<exists>rest. fst (signLinkAction lib act w tn)
     = SignTypedData w (link_domain act) link_types (link_value act) # rest"
  by (simp add: signLinkAction_eq split: sum.splits)

lemma initiator_key_env:
  "getenvStrict (sample_runtime initiator_vars) ''TRADING_PRIVATE_KEY''
     = Inr ''0xac0974bec39a17e36ba4a6b4d238ff944bacb478cbed5efcae784d7bf4f2ff80''"
  by (rule getenvStrict_Inr) (simp add: sample_env initiator_vars_def, rule sample_key_ok)

lemma initiator_user_env:
  "getenvStrict (sample_runtime initiator_vars) ''TRADING_USER_ADDRESS''
     = Inr ''0x70997970C51812dc3A010C7d01b50e0d17dc79C8''"
  by (rule getenvStrict_Inr) (simp add: sample_env initiator_vars_def, rule sample_user_ok)

lemma initiator_env:
  "env (sample_runtime initiator_vars) ''IS_FINALIZE'' = None"
  "env (sample_runtime initiator_vars) ''NONCE'' = None"
  "env (sample_runtime initiator_vars) ''HYPERLIQUID_TESTNET'' = None"
  by (simp_all add: sample_env initiator_vars_def)

lemma sample_nonce_decimal: "bigint_toString 1761995511314 = ''1761995511314''"
proof -
  have d: "char_of (49::nat) = CHR ''1''" "char_of (51::nat) = CHR ''3''"
    "char_of (52::nat) = CHR ''4''" "char_of (53::nat) = CHR ''5''"
    "char_of (54::nat) = CHR ''6''" "char_of (55::nat) = CHR ''7''"
    "char_of (57::nat) = CHR ''9''"
    by code_simp+
  show ?thesis
    by (simp add: bigint_toString_def decimal_nat.simps d)
qed


lemma sample_iso: "Date_toISOString (sample_runtime vars) = ''2025-11-01T11:11:51.000Z''"
  by (simp add: sample_runtime_def)

lemma no_post_signLinkAction: "Post u p h tm \<notin> set (fst (signLinkAction lib act w tn))"
  by (simp add: signLinkAction_eq split: sum.splits)

lemma post_event_sasl:
  assumes "Post u p h tm \<in> set (fst (signAndSubmitLink rt lib post key ua fin tn nopt))"
  shows "snd (signAndSubmitLink rt lib post key ua fin tn nopt)
           = (case post u p h tm of Inl e \<Rightarrow> Inl e | Inr r \<Rightarrow> Inr ())"
proof (cases "Wallet_new lib key")
  case (Inl e)
  then show ?thesis using assms by (simp add: signAndSubmitLink_eq)
next
  case w: (Inr w)
  let ?act = "linkAction tn fin (nonceOrNow rt nopt) ua"
  show ?thesis
  proof (cases "snd (signLinkAction lib ?act w tn)")
    case (Inl e)
    then show ?thesis using assms w
      by (simp add: signAndSubmitLink_eq Let_def no_post_signLinkAction)
  next
    case s: (Inr sig)
    show ?thesis
      using assms w s
      by (cases "post (baseUrl tn @ ''/exchange'') (serializablePayload ?act (nonceOrNow rt nopt) sig)
                   (link_headers tn) 30000")
        (auto simp: signAndSubmitLink_eq Let_def no_post_signLinkAction)
  qed
qed

lemma post_event_main:
  assumes "Post u p h tm \<in> set (fst (main rt lib post))"
  shows "snd (main rt lib post) = (case post u p h tm of Inl e \<Rightarrow> Inl e | Inr r \<Rightarrow> Inr ())"
proof (cases "snd (parseNonceArg (env rt ''NONCE''))")
  case (Inl e)
  then show ?thesis using assms by (simp add: main_eq)
next
  case n: (Inr nopt)
  show ?thesis
  proof (cases "getenvStrict rt (if env rt ''IS_FINALIZE'' = Some ''true''
                            then ''STAKING_PRIVATE_KEY'' else ''TRADING_PRIVATE_KEY'')")
    case (Inl e)
    then show ?thesis using assms n by (simp add: main_eq Let_def)
  next
    case k: (Inr k)
    show ?thesis
    proof (cases "getenvStrict rt (if env rt ''IS_FINALIZE'' = Some ''true''
                            then ''STAKING_USER_ADDRESS'' else ''TRADING_USER_ADDRESS'')")
      case (Inl e)
      then show ?thesis using assms n k by (simp add: main_eq Let_def)
    next
      case a: (Inr a)
      let ?S = "signAndSubmitLink rt lib post k (toLowerCase a) (env rt ''IS_FINALIZE'' = Some ''true'')
                  (env rt ''HYPERLIQUID_TESTNET'' \<noteq> Some ''false'') nopt"
      have m: "main rt lib post
                 = (Console_log [Str (''Timestamp: '' @ Date_toISOString rt)] # fst ?S, snd ?S)"
        using n k a by (simp add: main_eq Let_def)
      have "Post u p h tm \<in> set (fst ?S)" using assms unfolding m by simp
      then have "snd ?S = (case post u p h tm of Inl e \<Rightarrow> Inl e | Inr r \<Rightarrow> Inr ())"
        by (rule post_event_sasl)
      then show ?thesis unfolding m by simp
    qed
  qed
qed

lemma post_event_main_finalize:
  assumes "Post u p h tm \<in> set (fst (main_finalize rt lib post))"
  shows "snd (main_finalize rt lib post) = (case post u p h tm of Inl e \<Rightarrow> Inl e | Inr r \<Rightarrow> Inr ())"
proof (cases "getenvStrict rt ''STAKING_PRIVATE_KEY''")
  case (Inl e)
  then show ?thesis using assms by (simp add: main_finalize_eq)
next
  case k: (Inr k)
  show ?thesis
  proof (cases "getenvStrict rt ''STAKING_USER_ADDRESS''")
    case (Inl e)
    then show ?thesis using assms k by (simp add: main_finalize_eq)
  next
    case a: (Inr a)
    show ?thesis
    proof (cases "Wallet_new lib k")
      case (Inl e)
      then show ?thesis using assms k a by (simp add: main_finalize_eq)
    next
      case w: (Inr w)
      show ?thesis
      proof (cases "snd (parseNonceArg (env rt ''NONCE''))")
        case (Inl e)
        then show ?thesis using assms k a w by (simp add: main_finalize_eq)
      next
        case n: (Inr nopt)
        let ?tn = "env rt ''HYPERLIQUID_TESTNET'' \<noteq> Some ''false''"
        let ?n = "case nopt of None \<Rightarrow> Date_now rt | Some m \<Rightarrow> m"
        let ?act = "linkAction ?tn True ?n (toLowerCase a)"
        show ?thesis
        proof (cases "snd (signLinkAction lib ?act w ?tn)")
          case (Inl e)
          then show ?thesis using assms k a w n
            by (simp add: main_finalize_eq Let_def no_post_signLinkAction)
        next
          case s: (Inr sig)
          show ?thesis
            using assms k a w n s
            by (cases "post (baseUrl ?tn @ ''/exchange'') (serializablePayload ?act ?n sig)
                         (link_headers ?tn) 30000")
              (auto simp: main_finalize_eq Let_def no_post_signLinkAction)
        qed
      qed
    qed
  qed
qed

lemma no_post_signByMode: "Post u p h tm \<notin> set (fst (signByMode rt lib w))"
  using fst_signByMode_cases [of rt lib w] by auto

lemma posted_signByMode: "posted (fst (signByMode rt lib w)) = []"
  using fst_signByMode_cases [of rt lib w] by auto

lemma post_event_main_sign:
  assumes "Post u p h tm \<in> set (fst (main_sign rt lib post))"
  shows "snd (main_sign rt lib post) = (case post u p h tm of Inl e \<Rightarrow> Inl e | Inr r \<Rightarrow> Inr ())"
proof (cases "getenvStrict rt ''ETH_RPC_URL''")
  case (Inl e)
  then show ?thesis using assms by (simp add: main_sign_eq)
next
  case u: (Inr rpcUrl)
  show ?thesis
  proof (cases "getenvStrict rt ''PRIVATE_KEY''")
    case (Inl e)
    then show ?thesis using assms u by (simp add: main_sign_eq)
  next
    case k: (Inr key)
    show ?thesis
    proof (cases "getenvStrict rt ''TARGET_API_URL''")
      case (Inl e)
      then show ?thesis using assms u k by (simp add: main_sign_eq)
    next
      case a: (Inr apiUrl)
      show ?thesis
      proof (cases "getBlockNumber lib rpcUrl")
        case (Inl e)
        then show ?thesis using assms u k a by (simp add: main_sign_eq)
      next
        case b: (Inr b)
        show ?thesis
        proof (cases "Wallet_new lib key")
          case (Inl e)
          then show ?thesis using assms u k a b by (simp add: main_sign_eq)
        next
          case w: (Inr w)
          show ?thesis
          proof (cases "snd (signByMode rt lib w)")
            case (Inl e)
            then show ?thesis using assms u k a b w
              by (simp add: main_sign_eq no_post_signByMode)
          next
            case r: (Inr result)
            show ?thesis
            proof (cases "JSON_parse rt (orDefault (env rt ''API_PAYLOAD_JSON'') ''{}'')")
              case (Inl e)
              then show ?thesis using assms u k a b w r
                by (simp add: main_sign_eq no_post_signByMode Let_def)
            next
              case j: (Inr payload)
              show ?thesis
                using assms u k a b w r j
                by (cases "post apiUrl (if payload = Undefined then Obj [] else payload)
                             [(''X-Eth-Address'', snd result), (''X-Eth-Signature'', fst result),
                              (''Content-Type'', ''application/json'')] 30000")
                  (auto simp: main_sign_eq no_post_signByMode Let_def callApi_eq)
            qed
          qed
        qed
      qed
    qed
  qed
qed

lemma posted_main_sign:
  "length (posted (fst (main_sign rt lib post))) \<le> 1
   \<and> (\<forall>u p tm. (u, p, tm) \<in> set (posted (fst (main_sign rt lib post))) \<longrightarrow> tm = 30000)"
  by (simp add: main_sign_eq Let_def posted_append posted_signByMode callApi_eq split: sum.splits)

lemma posted_main_bound:
  "length (posted (fst (main rt lib post))) \<le> 1
   \<and> (\<forall>u p tm. (u, p, tm) \<in> set (posted (fst (main rt lib post))) \<longrightarrow> tm = 30000)"
  by (simp add: posted_main Let_def split: sum.splits)

lemma posted_main_finalize_bound:
  "length (posted (fst (main_finalize rt lib post))) \<le> 1
   \<and> (\<forall>u p tm. (u, p, tm) \<in> set (posted (fst (main_finalize rt lib post))) \<longrightarrow> tm = 30000)"
  by (simp add: posted_main_finalize Let_def split: sum.splits)

lemma main_finalizer_timeout_trace:
  "Post ''https://api-ui.hyperliquid-testnet.xyz/exchange''
     (serializablePayload (linkAction True True 1761995511314 ''0x70997970c51812dc3a010c7d01b50e0d17dc79c8'')
        1761995511314 (Obj [(''r'', Str ''0xr''), (''s'', Str ''0xs''), (''v'', Num (Fin 27))]))
     (link_headers True) 30000
   \<in> set (fst (main (sample_runtime finalizer_vars) (sample_ethers sample_address) timeout_axios))"
  by (simp add: main_eq finalizer_env parseNonceArg_absent finalizer_key finalizer_user
      signAndSubmitLink_eq sample_wallet sample_signs Let_def nonceOrNow_def sample_now
      sample_user_lower baseUrl_def timeout_axios_def)

lemma signLinkAction_Inr:
  "snd (signLinkAction lib act w tn) = Inr sig \<longleftrightarrow>
     (\<exists>s sg recovered.
        signTypedData lib w (link_domain act) link_types (link_value act) = Inr s
      \<and> Signature_from lib s = Inr sg
      \<and> verifyTypedData lib (link_domain act) link_types (link_value act) s = Inr recovered
      \<and> toLowerCase recovered = toLowerCase (address w)
      \<and> sig = sigObj sg)"
proof (cases "signTypedData lib w (link_domain act) link_types (link_value act)")
  case (Inl e)
  then show ?thesis by (simp add: signLinkAction_eq)
next
  case s: (Inr s)
  show ?thesis
  proof (cases "Signature_from lib s")
    case (Inl e)
    then show ?thesis using s by (simp add: signLinkAction_eq)
  next
    case sg: (Inr sg)
    show ?thesis
      using s sg
      by (cases "verifyTypedData lib (link_domain act) link_types (link_value act) s")
        (auto simp: signLinkAction_eq)
  qed
qed

lemma serializablePayload_written:
  "serializablePayload (linkAction tn fin n ua) n (sigObj sg) =
     Obj [(''action'',
           Obj [(''hyperliquidChain'', Str (if tn then ''Testnet'' else ''Mainnet'')),
                (''isFinalize'', Bool fin),
                (''nonce'', Num (Number n)),
                (''signatureChainId'', Str (if tn then ''0x3e6'' else ''0x1'')),
                (''type'', Str ''linkStakingUser''),
                (''user'', Str ua)]),
          (''expiresAfter'', Null),
          (''isFrontend'', Bool True),
          (''nonce'', Num (Number n)),
          (''signature'', Obj [(''r'', Str (sig_r sg)), (''s'', Str (sig_s sg)), (''v'', Num (Fin (sig_v sg)))]),
          (''vaultAddress'', Null)]"
  by (simp add: serializablePayload_def linkAction_sel sigObj_def)

lemma baseUrl_written:
  "baseUrl tn @ ''/exchange'' =
     (if tn then ''https://api-ui.hyperliquid-testnet.xyz/exchange''
      else ''https://api-ui.hyperliquid.xyz/exchange'')"
  by (simp add: baseUrl_def)

lemma toLowerChar_not_upper: "\<not> isUpper (toLowerChar c)"
proof (cases "isUpper c")
  case True
  then have "65 \<le> (of_char c :: nat)" and "(of_char c :: nat) \<le> 90"
    by (simp_all add: isUpper_def)
  then have "(of_char (char_of ((of_char c :: nat) + 32)) :: nat) = of_char c + 32"
    by simp
  then show ?thesis using True by (simp add: toLowerChar_def isUpper_def)
next
  case False
  then show ?thesis by (simp add: toLowerChar_def)
qed

lemma toLowerCase_lower: "list_all (\<lambda>c. \<not> isUpper c) (toLowerCase a)"
  by (simp add: toLowerCase_def list_all_iff toLowerChar_not_upper)

lemma posted_main_finalizer_sample:
  "posted (fst (main (sample_runtime finalizer_vars) (sample_ethers sample_address) sample_axios)) =
        [(''https://api-ui.hyperliquid-testnet.xyz/exchange'',
          serializablePayload (linkAction True True 1761995511314 ''0x70997970c51812dc3a010c7d01b50e0d17dc79c8'')
            1761995511314 (Obj [(''r'', Str ''0xr''), (''s'', Str ''0xs''), (''v'', Num (Fin 27))]),
          30000)]"
  by (simp add: posted_main finalizer_env parseNonceArg_absent finalizer_key finalizer_user sample_wallet
        Let_def nonceOrNow_def sample_now sample_signs sample_user_lower baseUrl_def)

lemma beforePost_Cons:
  "beforePost (ev # evs) = (if isPost ev then [] else ev # beforePost evs)"
  by (simp add: beforePost_def)

lemma beforePost_Nil: "beforePost [] = []"
  by (simp add: beforePost_def)

lemma guard_sasl_mismatch:
  assumes nw: "New_Wallet k \<in> set (fst (signAndSubmitLink rt lib post key ua fin tn nopt))"
      and w': "Wallet_new lib k = Inr w'"
      and ver: "VerifyTypedData d t v s \<in> set (fst (signAndSubmitLink rt lib post key ua fin tn nopt))"
      and rec: "verifyTypedData lib d t v s = Inr recovered"
      and ne: "toLowerCase recovered \<noteq> toLowerCase (address w')"
  shows "snd (signAndSubmitLink rt lib post key ua fin tn nopt) = Inl (RecoveryMismatch recovered (address w'))
       \<and> posted (fst (signAndSubmitLink rt lib post key ua fin tn nopt)) = []"
proof (cases "Wallet_new lib key")
  case (Inl e)
  then show ?thesis using ver by (simp add: signAndSubmitLink_eq)
next
  case w: (Inr w)
  let ?act = "linkAction tn fin (nonceOrNow rt nopt) ua"
  let ?d = "link_domain ?act" and ?v = "link_value ?act"
  show ?thesis
  proof (cases "signTypedData lib w ?d link_types ?v")
    case (Inl e)
    then show ?thesis using ver w by (simp add: signAndSubmitLink_eq signLinkAction_eq Let_def)
  next
    case sg: (Inr s0)
    show ?thesis
    proof (cases "Signature_from lib s0")
      case (Inl e)
      then show ?thesis using ver w sg by (simp add: signAndSubmitLink_eq signLinkAction_eq Let_def)
    next
      case sf: (Inr sg0)
      show ?thesis
      proof (cases "verifyTypedData lib ?d link_types ?v s0")
        case (Inl e)
        then show ?thesis using ver w sg sf rec
          by (auto simp: signAndSubmitLink_eq signLinkAction_eq Let_def)
      next
        case vr: (Inr recovered0)
        show ?thesis
        proof (cases "toLowerCase recovered0 = toLowerCase (address w)")
          case False
          then show ?thesis using nw w' ver w sg sf vr rec
            by (auto simp: signAndSubmitLink_eq signLinkAction_eq Let_def)
        next
          case True
          then show ?thesis using nw w' ver w sg sf vr rec ne
            by (cases "post (baseUrl tn @ ''/exchange'')
                         (serializablePayload ?act (nonceOrNow rt nopt) (sigObj sg0))
                         (link_headers tn) 30000")
              (auto simp: signAndSubmitLink_eq signLinkAction_eq Let_def)
        qed
      qed
    qed
  qed
qed

lemma guard_sasl_post:
  assumes "posted (fst (signAndSubmitLink rt lib post key ua fin tn nopt)) \<noteq> []"
  shows "\<exists>w d t v s recovered.
           New_Wallet key \<in> set (beforePost (fst (signAndSubmitLink rt lib post key ua fin tn nopt)))
         \<and> Wallet_new lib key = Inr w
         \<and> SignTypedData w d t v \<in> set (beforePost (fst (signAndSubmitLink rt lib post key ua fin tn nopt)))
         \<and> signTypedData lib w d t v = Inr s
         \<and> VerifyTypedData d t v s \<in> set (beforePost (fst (signAndSubmitLink rt lib post key ua fin tn nopt)))
         \<and> verifyTypedData lib d t v s = Inr recovered
         \<and> toLowerCase recovered = toLowerCase (address w)"
proof (cases "Wallet_new lib key")
  case (Inl e)
  then show ?thesis using assms by (simp add: posted_sasl)
next
  case w: (Inr w)
  let ?act = "linkAction tn fin (nonceOrNow rt nopt) ua"
  let ?d = "link_domain ?act" and ?v = "link_value ?act"
  show ?thesis
  proof (cases "snd (signLinkAction lib ?act w tn)")
    case (Inl e)
    then show ?thesis using assms w by (simp add: posted_sasl)
  next
    case sl: (Inr sig)
    then obtain s sg recovered where
        s: "signTypedData lib w ?d link_types ?v = Inr s"
      and sf: "Signature_from lib s = Inr sg"
      and vr: "verifyTypedData lib ?d link_types ?v s = Inr recovered"
      and eq: "toLowerCase recovered = toLowerCase (address w)"
      unfolding signLinkAction_Inr by blast
    have "New_Wallet key \<in> set (beforePost (fst (signAndSubmitLink rt lib post key ua fin tn nopt)))
        \<and> SignTypedData w ?d link_types ?v
            \<in> set (beforePost (fst (signAndSubmitLink rt lib post key ua fin tn nopt)))
        \<and> VerifyTypedData ?d link_types ?v s
            \<in> set (beforePost (fst (signAndSubmitLink rt lib post key ua fin tn nopt)))"
      using w s sf vr eq
      by (cases "post (baseUrl tn @ ''/exchange'')
                   (serializablePayload ?act (nonceOrNow rt nopt) (sigObj sg)) (link_headers tn) 30000")
        (simp_all add: signAndSubmitLink_eq signLinkAction_eq Let_def beforePost_Cons)
    then show ?thesis using w s vr eq by blast
  qed
qed

lemma main_shape:
  "(\<exists>e. main rt lib post = ([Console_log [Str (''Timestamp: '' @ Date_toISOString rt)]], Inl e))
   \<or> (\<exists>k ua fin tn nopt.
        main rt lib post =
          (Console_log [Str (''Timestamp: '' @ Date_toISOString rt)]
             # fst (signAndSubmitLink rt lib post k ua fin tn nopt),
           snd (signAndSubmitLink rt lib post k ua fin tn nopt)))"
proof (cases "snd (parseNonceArg (env rt ''NONCE''))")
  case (Inl e)
  then show ?thesis by (simp add: main_eq)
next
  case n: (Inr nopt)
  show ?thesis
  proof (cases "getenvStrict rt (if env rt ''IS_FINALIZE'' = Some ''true''
                            then ''STAKING_PRIVATE_KEY'' else ''TRADING_PRIVATE_KEY'')")
    case (Inl e)
    then show ?thesis using n by (simp add: main_eq Let_def)
  next
    case k: (Inr k)
    show ?thesis
    proof (cases "getenvStrict rt (if env rt ''IS_FINALIZE'' = Some ''true''
                            then ''STAKING_USER_ADDRESS'' else ''TRADING_USER_ADDRESS'')")
      case (Inl e)
      then show ?thesis using n k by (simp add: main_eq Let_def)
    next
      case a: (Inr a)
      have "main rt lib post =
          (Console_log [Str (''Timestamp: '' @ Date_toISOString rt)]
             # fst (signAndSubmitLink rt lib post k (toLowerCase a) (env rt ''IS_FINALIZE'' = Some ''true'')
                      (env rt ''HYPERLIQUID_TESTNET'' \<noteq> Some ''false'') nopt),
           snd (signAndSubmitLink rt lib post k (toLowerCase a) (env rt ''IS_FINALIZE'' = Some ''true'')
                      (env rt ''HYPERLIQUID_TESTNET'' \<noteq> Some ''false'') nopt))"
        using n k a by (simp add: main_eq Let_def)
      then show ?thesis by blast
    qed
  qed
qed

lemma guard_main_mismatch:
  assumes nw: "New_Wallet k \<in> set (fst (main rt lib post))"
      and w': "Wallet_new lib k = Inr w'"
      and ver: "VerifyTypedData d t v s \<in> set (fst (main rt lib post))"
      and rec: "verifyTypedData lib d t v s = Inr recovered"
      and ne: "toLowerCase recovered \<noteq> toLowerCase (address w')"
  shows "snd (main rt lib post) = Inl (RecoveryMismatch recovered (address w'))
       \<and> posted (fst (main rt lib post)) = []"
proof -
  from main_shape [of rt lib post] show ?thesis
  proof
    assume "\<exists>e. main rt lib post = ([Console_log [Str (''Timestamp: '' @ Date_toISOString rt)]], Inl e)"
    then show ?thesis using nw by auto
  next
    assume "\<exists>k ua fin tn nopt.
        main rt lib post =
          (Console_log [Str (''Timestamp: '' @ Date_toISOString rt)]
             # fst (signAndSubmitLink rt lib post k ua fin tn nopt),
           snd (signAndSubmitLink rt lib post k ua fin tn nopt))"
    then obtain k0 ua fin tn nopt where m: "main rt lib post =
          (Console_log [Str (''Timestamp: '' @ Date_toISOString rt)]
             # fst (signAndSubmitLink rt lib post k0 ua fin tn nopt),
           snd (signAndSubmitLink rt lib post k0 ua fin tn nopt))"
      by blast
    have 1: "New_Wallet k \<in> set (fst (signAndSubmitLink rt lib post k0 ua fin tn nopt))"
      using nw unfolding m by simp
    have 2: "VerifyTypedData d t v s \<in> set (fst (signAndSubmitLink rt lib post k0 ua fin tn nopt))"
      using ver unfolding m by simp
    show ?thesis
      using guard_sasl_mismatch [OF 1 w' 2 rec ne] unfolding m by simp
  qed
qed

lemma guard_main_post:
  assumes "posted (fst (main rt lib post)) \<noteq> []"
  shows "\<exists>k w d t v s recovered.
           New_Wallet k \<in> set (beforePost (fst (main rt lib post)))
         \<and> Wallet_new lib k = Inr w
         \<and> SignTypedData w d t v \<in> set (beforePost (fst (main rt lib post)))
         \<and> signTypedData lib w d t v = Inr s
         \<and> VerifyTypedData d t v s \<in> set (beforePost (fst (main rt lib post)))
         \<and> verifyTypedData lib d t v s = Inr recovered
         \<and> toLowerCase recovered = toLowerCase (address w)"
proof -
  from main_shape [of rt lib post] show ?thesis
  proof
    assume "\<exists>e. main rt lib post = ([Console_log [Str (''Timestamp: '' @ Date_toISOString rt)]], Inl e)"
    then show ?thesis using assms by auto
  next
    assume "\<exists>k ua fin tn nopt.
        main rt lib post =
          (Console_log [Str (''Timestamp: '' @ Date_toISOString rt)]
             # fst (signAndSubmitLink rt lib post k ua fin tn nopt),
           snd (signAndSubmitLink rt lib post k ua fin tn nopt))"
    then obtain k0 ua fin tn nopt where m: "main rt lib post =
          (Console_log [Str (''Timestamp: '' @ Date_toISOString rt)]
             # fst (signAndSubmitLink rt lib post k0 ua fin tn nopt),
           snd (signAndSubmitLink rt lib post k0 ua fin tn nopt))"
      by blast
    have "posted (fst (signAndSubmitLink rt lib post k0 ua fin tn nopt)) \<noteq> []"
      using assms unfolding m by simp
    from guard_sasl_post [OF this] show ?thesis
      unfolding m by (simp add: beforePost_Cons) blast
  qed
qed

lemma guard_main_finalize_mismatch:
  assumes nw: "New_Wallet k \<in> set (fst (main_finalize rt lib post))"
      and w': "Wallet_new lib k = Inr w'"
      and ver: "VerifyTypedData d t v s \<in> set (fst (main_finalize rt lib post))"
      and rec: "verifyTypedData lib d t v s = Inr recovered"
      and ne: "toLowerCase recovered \<noteq> toLowerCase (address w')"
  shows "snd (main_finalize rt lib post) = Inl (RecoveryMismatch recovered (address w'))
       \<and> posted (fst (main_finalize rt lib post)) = []"
proof (cases "getenvStrict rt ''STAKING_PRIVATE_KEY''")
  case (Inl e)
  then show ?thesis using ver by (simp add: main_finalize_eq)
next
  case k: (Inr k0)
  show ?thesis
  proof (cases "getenvStrict rt ''STAKING_USER_ADDRESS''")
    case (Inl e)
    then show ?thesis using ver k by (simp add: main_finalize_eq)
  next
    case a: (Inr a)
    show ?thesis
    proof (cases "Wallet_new lib k0")
      case (Inl e)
      then show ?thesis using ver k a by (simp add: main_finalize_eq)
    next
      case w: (Inr w)
      show ?thesis
      proof (cases "snd (parseNonceArg (env rt ''NONCE''))")
        case (Inl e)
        then show ?thesis using ver k a w by (simp add: main_finalize_eq)
      next
        case n: (Inr nopt)
        let ?tn = "env rt ''HYPERLIQUID_TESTNET'' \<noteq> Some ''false''"
        let ?n = "case nopt of None \<Rightarrow> Date_now rt | Some m \<Rightarrow> m"
        let ?act = "linkAction ?tn True ?n (toLowerCase a)"
        let ?d = "link_domain ?act" and ?v = "link_value ?act"
        show ?thesis
        proof (cases "signTypedData lib w ?d link_types ?v")
          case (Inl e)
          then show ?thesis using ver k a w n
            by (simp add: main_finalize_eq signLinkAction_eq Let_def)
        next
          case sg: (Inr s0)
          show ?thesis
          proof (cases "Signature_from lib s0")
            case (Inl e)
            then show ?thesis using ver k a w n sg
              by (simp add: main_finalize_eq signLinkAction_eq Let_def)
          next
            case sf: (Inr sg0)
            show ?thesis
            proof (cases "verifyTypedData lib ?d link_types ?v s0")
              case (Inl e)
              then show ?thesis using ver k a w n sg sf rec
                by (auto simp: main_finalize_eq signLinkAction_eq Let_def)
            next
              case vr: (Inr recovered0)
              show ?thesis
              proof (cases "toLowerCase recovered0 = toLowerCase (address w)")
                case False
                then show ?thesis using nw w' ver k a w n sg sf vr rec
                  by (auto simp: main_finalize_eq signLinkAction_eq Let_def)
              next
                case True
                then show ?thesis using nw w' ver k a w n sg sf vr rec ne
                  by (cases "post (baseUrl ?tn @ ''/exchange'')
                               (serializablePayload ?act ?n (sigObj sg0)) (link_headers ?tn) 30000")
                    (auto simp: main_finalize_eq signLinkAction_eq Let_def)
              qed
            qed
          qed
        qed
      qed
    qed
  qed
qed

lemma guard_main_finalize_post:
  assumes "posted (fst (main_finalize rt lib post)) \<noteq> []"
  shows "\<exists>k w d t v s recovered.
           New_Wallet k \<in> set (beforePost (fst (main_finalize rt lib post)))
         \<and> Wallet_new lib k = Inr w
         \<and> SignTypedData w d t v \<in> set (beforePost (fst (main_finalize rt lib post)))
         \<and> signTypedData lib w d t v = Inr s
         \<and> VerifyTypedData d t v s \<in> set (beforePost (fst (main_finalize rt lib post)))
         \<and> verifyTypedData lib d t v s = Inr recovered
         \<and> toLowerCase recovered = toLowerCase (address w)"
proof -
  from assms obtain u p tm where "(u, p, tm) \<in> set (posted (fst (main_finalize rt lib post)))"
    by (cases "posted (fst (main_finalize rt lib post))") auto
  from posted_main_finalize_mem [OF this]
  obtain k a w nopt sig where k: "getenvStrict rt ''STAKING_PRIVATE_KEY'' = Inr k"
    and a: "getenvStrict rt ''STAKING_USER_ADDRESS'' = Inr a"
    and w: "Wallet_new lib k = Inr w"
    and n: "snd (parseNonceArg (env rt ''NONCE'')) = Inr nopt"
    and sl: "snd (signLinkAction lib
                 (linkAction (env rt ''HYPERLIQUID_TESTNET'' \<noteq> Some ''false'') True
                    (case nopt of None \<Rightarrow> Date_now rt | Some m \<Rightarrow> m) (toLowerCase a))
                 w (env rt ''HYPERLIQUID_TESTNET'' \<noteq> Some ''false'')) = Inr sig"
    by blast
  let ?tn = "env rt ''HYPERLIQUID_TESTNET'' \<noteq> Some ''false''"
  let ?n = "case nopt of None \<Rightarrow> Date_now rt | Some m \<Rightarrow> m"
  let ?act = "linkAction ?tn True ?n (toLowerCase a)"
  let ?d = "link_domain ?act" and ?v = "link_value ?act"
  from sl obtain s sg recovered where
      s: "signTypedData lib w ?d link_types ?v = Inr s"
    and sf: "Signature_from lib s = Inr sg"
    and vr: "verifyTypedData lib ?d link_types ?v s = Inr recovered"
    and eq: "toLowerCase recovered = toLowerCase (address w)"
    unfolding signLinkAction_Inr by blast
  have "New_Wallet k \<in> set (beforePost (fst (main_finalize rt lib post)))
      \<and> SignTypedData w ?d link_types ?v \<in> set (beforePost (fst (main_finalize rt lib post)))
      \<and> VerifyTypedData ?d link_types ?v s \<in> set (beforePost (fst (main_finalize rt lib post)))"
    using k a w n s sf vr eq
    by (cases "post (baseUrl ?tn @ ''/exchange'')
                 (serializablePayload ?act ?n (sigObj sg)) (link_headers ?tn) 30000")
      (simp_all add: main_finalize_eq signLinkAction_eq Let_def beforePost_Cons)
  then show ?thesis using w s vr eq by blast
qed

lemma sample_verify: "verifyTypedData (sample_ethers r) d t v s = Inr r"
  by (simp add: sample_ethers_def)

lemma sample_address_lower:
  "toLowerCase sample_address = ''0xf39fd6e51aad88f6f4ce6ab8827279cfffb92266''"
  unfolding sample_address_def by code_simp

lemma sample_addresses_differ:
  "toLowerCase ''0x70997970C51812dc3A010C7d01b50e0d17dc79C8'' \<noteq> toLowerCase sample_address"
  by (simp add: sample_user_lower sample_address_lower)

lemma sample_mismatch_trace:
  "New_Wallet ''0xac0974bec39a17e36ba4a6b4d238ff944bacb478cbed5efcae784d7bf4f2ff80''
     \<in> set (fst (main (sample_runtime finalizer_vars) (sample_ethers ''0x70997970C51812dc3A010C7d01b50e0d17dc79C8'') sample_axios))
   \<and> VerifyTypedData
       (link_domain (linkAction True True 1761995511314 ''0x70997970c51812dc3a010c7d01b50e0d17dc79c8''))
       link_types
       (link_value (linkAction True True 1761995511314 ''0x70997970c51812dc3a010c7d01b50e0d17dc79c8''))
       ''0xsignature''
     \<in> set (fst (main (sample_runtime finalizer_vars) (sample_ethers ''0x70997970C51812dc3A010C7d01b50e0d17dc79C8'') sample_axios))"
  by (simp add: main_eq finalizer_env parseNonceArg_absent finalizer_key finalizer_user
      signAndSubmitLink_eq signLinkAction_eq sample_wallet Let_def nonceOrNow_def sample_now
      sample_user_lower sample_address_lower sample_ethers_def)

lemma parseNonceArg_error: "snd (parseNonceArg x) = Inl e \<Longrightarrow> e = SyntaxError"
  by (auto simp: parseNonceArg_def ret_def throw_def split: option.splits if_splits)

lemma getenvStrict_cases:
  "(missingOrBlank rt name \<and> getenvStrict rt name = Inl (MissingEnv name))
   \<or> (\<not> missingOrBlank rt name \<and> (\<exists>v. getenvStrict rt name = Inr v \<and> env rt name = Some v))"
  by (cases "getenvStrict rt name")
    (auto simp: getenvStrict_Inl_iff getenvStrict_Inr_iff missingOrBlank_def)

lemma config_main:
  assumes "missingOrBlank rt (if env rt ''IS_FINALIZE'' = Some ''true''
                              then ''STAKING_PRIVATE_KEY'' else ''TRADING_PRIVATE_KEY'')
         \<or> missingOrBlank rt (if env rt ''IS_FINALIZE'' = Some ''true''
                              then ''STAKING_USER_ADDRESS'' else ''TRADING_USER_ADDRESS'')"
  shows "list_all isConsole (fst (main rt lib post))
       \<and> (snd (main rt lib post) = Inl SyntaxError
          \<or> (\<exists>name. snd (main rt lib post) = Inl (MissingEnv name) \<and> missingOrBlank rt name))"
proof (cases "snd (parseNonceArg (env rt ''NONCE''))")
  case (Inl e)
  then have "e = SyntaxError" by (rule parseNonceArg_error)
  then show ?thesis using Inl by (simp add: main_eq)
next
  case n: (Inr nopt)
  let ?K = "if env rt ''IS_FINALIZE'' = Some ''true''
            then ''STAKING_PRIVATE_KEY'' else ''TRADING_PRIVATE_KEY''"
  let ?A = "if env rt ''IS_FINALIZE'' = Some ''true''
            then ''STAKING_USER_ADDRESS'' else ''TRADING_USER_ADDRESS''"
  from getenvStrict_cases [of rt ?K] show ?thesis
  proof (elim disjE conjE exE)
    assume m: "missingOrBlank rt ?K" and g: "getenvStrict rt ?K = Inl (MissingEnv ?K)"
    have "main rt lib post = ([Console_log [Str (''Timestamp: '' @ Date_toISOString rt)]], Inl (MissingEnv ?K))"
      using n g by (simp add: main_eq Let_def)
    then show ?thesis using m by auto
  next
    fix k
    assume nk: "\<not> missingOrBlank rt ?K" and g: "getenvStrict rt ?K = Inr k"
    then have m: "missingOrBlank rt ?A" using assms by blast
    then have ga: "getenvStrict rt ?A = Inl (MissingEnv ?A)"
      by (simp add: getenvStrict_Inl_iff)
    have "main rt lib post = ([Console_log [Str (''Timestamp: '' @ Date_toISOString rt)]], Inl (MissingEnv ?A))"
      using n g ga by (simp add: main_eq Let_def)
    then show ?thesis using m by auto
  qed
qed

lemma config_main_finalize:
  assumes "missingOrBlank rt ''STAKING_PRIVATE_KEY'' \<or> missingOrBlank rt ''STAKING_USER_ADDRESS''"
  shows "list_all isConsole (fst (main_finalize rt lib post))
       \<and> (\<exists>name. snd (main_finalize rt lib post) = Inl (MissingEnv name) \<and> missingOrBlank rt name)"
proof -
  from getenvStrict_cases [of rt "''STAKING_PRIVATE_KEY''"] show ?thesis
  proof (elim disjE conjE exE)
    assume m: "missingOrBlank rt ''STAKING_PRIVATE_KEY''"
      and g: "getenvStrict rt ''STAKING_PRIVATE_KEY'' = Inl (MissingEnv ''STAKING_PRIVATE_KEY'')"
    show ?thesis using m g by (auto simp: main_finalize_eq)
  next
    fix k
    assume nk: "\<not> missingOrBlank rt ''STAKING_PRIVATE_KEY''"
      and g: "getenvStrict rt ''STAKING_PRIVATE_KEY'' = Inr k"
    then have m: "missingOrBlank rt ''STAKING_USER_ADDRESS''" using assms by blast
    then have ga: "getenvStrict rt ''STAKING_USER_ADDRESS'' = Inl (MissingEnv ''STAKING_USER_ADDRESS'')"
      by (simp add: getenvStrict_Inl_iff)
    show ?thesis using m g ga by (auto simp: main_finalize_eq)
  qed
qed

lemma config_main_sign:
  assumes "missingOrBlank rt ''ETH_RPC_URL'' \<or> missingOrBlank rt ''PRIVATE_KEY''
         \<or> missingOrBlank rt ''TARGET_API_URL''"
  shows "list_all isConsole (fst (main_sign rt lib post))
       \<and> (\<exists>name. snd (main_sign rt lib post) = Inl (MissingEnv name) \<and> missingOrBlank rt name)"
proof -
  from getenvStrict_cases [of rt "''ETH_RPC_URL''"] show ?thesis
  proof (elim disjE conjE exE)
    assume m: "missingOrBlank rt ''ETH_RPC_URL''"
      and g: "getenvStrict rt ''ETH_RPC_URL'' = Inl (MissingEnv ''ETH_RPC_URL'')"
    show ?thesis using m g by (auto simp: main_sign_eq)
  next
    fix u
    assume nu: "\<not> missingOrBlank rt ''ETH_RPC_URL''"
      and gu: "getenvStrict rt ''ETH_RPC_URL'' = Inr u"
    from getenvStrict_cases [of rt "''PRIVATE_KEY''"] show ?thesis
    proof (elim disjE conjE exE)
      assume m: "missingOrBlank rt ''PRIVATE_KEY''"
        and g: "getenvStrict rt ''PRIVATE_KEY'' = Inl (MissingEnv ''PRIVATE_KEY'')"
      show ?thesis using m g gu by (auto simp: main_sign_eq)
    next
      fix k
      assume nk: "\<not> missingOrBlank rt ''PRIVATE_KEY''"
        and gk: "getenvStrict rt ''PRIVATE_KEY'' = Inr k"
      have m: "missingOrBlank rt ''TARGET_API_URL''" using assms nu nk by blast
      then have ga: "getenvStrict rt ''TARGET_API_URL'' = Inl (MissingEnv ''TARGET_API_URL'')"
        by (simp add: getenvStrict_Inl_iff)
      show ?thesis using m gu gk ga by (auto simp: main_sign_eq)
    qed
  qed
qed

lemma signByMode_typed_missing:
  assumes "toLowerCase (orDefault (env rt ''SIGN_MODE'') ''personal'') = ''typed''"
      and "missingOrBlank rt ''TYPED_DATA_JSON''"
  shows "signByMode rt lib w = ([], Inl (MissingEnv ''TYPED_DATA_JSON''))"
proof -
  have g: "getenvStrict rt ''TYPED_DATA_JSON'' = Inl (MissingEnv ''TYPED_DATA_JSON'')"
    using assms(2) by (simp add: getenvStrict_Inl_iff)
  show ?thesis
    by (simp add: signByMode_def assms(1) g io_simps)
qed

lemma config_main_sign_typed:
  assumes u: "getenvStrict rt ''ETH_RPC_URL'' = Inr rpcUrl"
      and k: "getenvStrict rt ''PRIVATE_KEY'' = Inr key"
      and a: "getenvStrict rt ''TARGET_API_URL'' = Inr apiUrl"
      and mode: "toLowerCase (orDefault (env rt ''SIGN_MODE'') ''personal'') = ''typed''"
      and missing: "missingOrBlank rt ''TYPED_DATA_JSON''"
  shows "list_all (\<lambda>ev. isConsole ev \<or> ev = GetBlockNumber rpcUrl \<or> ev = New_Wallet key)
           (fst (main_sign rt lib post))
       \<and> GetBlockNumber rpcUrl \<in> set (fst (main_sign rt lib post))
       \<and> (\<exists>e. snd (main_sign rt lib post) = Inl e)
       \<and> (\<forall>b w. getBlockNumber lib rpcUrl = Inr b \<and> Wallet_new lib key = Inr w \<longrightarrow>
             main_sign rt lib post =
               ([Console_log [Str (''Timestamp: '' @ Date_toISOString rt)],
                 GetBlockNumber rpcUrl, New_Wallet key],
                Inl (MissingEnv ''TYPED_DATA_JSON'')))"
proof (cases "getBlockNumber lib rpcUrl")
  case (Inl e)
  then show ?thesis using u k a by (simp add: main_sign_eq)
next
  case b: (Inr b)
  show ?thesis
  proof (cases "Wallet_new lib key")
    case (Inl e)
    then show ?thesis using u k a b by (simp add: main_sign_eq)
  next
    case (Inr w)
    then show ?thesis using u k a b
      by (simp add: main_sign_eq signByMode_typed_missing [OF mode missing])
  qed
qed

lemma config_main_tx:
  assumes "missingOrBlank rt ''ETH_RPC_URL'' \<or> missingOrBlank rt ''CHAIN_ID''
         \<or> missingOrBlank rt ''PRIVATE_KEY'' \<or> missingOrBlank rt ''TO_ADDRESS''
         \<or> missingOrBlank rt ''AMOUNT_ETH''"
  shows "list_all isConsole (fst (main_tx rt lib txlib))
       \<and> (snd (main_tx rt lib txlib) = Inl SyntaxError
          \<or> (\<exists>name. snd (main_tx rt lib txlib) = Inl (MissingEnv name) \<and> missingOrBlank rt name))"
proof -
  from getenvStrict_cases [of rt "''ETH_RPC_URL''"] show ?thesis
  proof (elim disjE conjE exE)
    assume m: "missingOrBlank rt ''ETH_RPC_URL''"
      and g: "getenvStrict rt ''ETH_RPC_URL'' = Inl (MissingEnv ''ETH_RPC_URL'')"
    show ?thesis using m g by (auto simp: main_tx_def io_simps)
  next
    fix u
    assume nu: "\<not> missingOrBlank rt ''ETH_RPC_URL''"
      and gu: "getenvStrict rt ''ETH_RPC_URL'' = Inr u"
    from getenvStrict_cases [of rt "''CHAIN_ID''"] show ?thesis
    proof (elim disjE conjE exE)
      assume m: "missingOrBlank rt ''CHAIN_ID''"
        and g: "getenvStrict rt ''CHAIN_ID'' = Inl (MissingEnv ''CHAIN_ID'')"
      show ?thesis using m g gu by (auto simp: main_tx_def io_simps)
    next
      fix c
      assume nc: "\<not> missingOrBlank rt ''CHAIN_ID''"
        and gc: "getenvStrict rt ''CHAIN_ID'' = Inr c"
      show ?thesis
      proof (cases "StringToBigInt c")
        case None
        then show ?thesis using gu gc by (simp add: main_tx_def io_simps)
      next
        case ch: (Some chainId)
        from getenvStrict_cases [of rt "''PRIVATE_KEY''"] show ?thesis
        proof (elim disjE conjE exE)
          assume m: "missingOrBlank rt ''PRIVATE_KEY''"
            and g: "getenvStrict rt ''PRIVATE_KEY'' = Inl (MissingEnv ''PRIVATE_KEY'')"
          show ?thesis using m g gu gc ch by (auto simp: main_tx_def io_simps)
        next
          fix k
          assume nk: "\<not> missingOrBlank rt ''PRIVATE_KEY''"
            and gk: "getenvStrict rt ''PRIVATE_KEY'' = Inr k"
          from getenvStrict_cases [of rt "''TO_ADDRESS''"] show ?thesis
          proof (elim disjE conjE exE)
            assume m: "missingOrBlank rt ''TO_ADDRESS''"
              and g: "getenvStrict rt ''TO_ADDRESS'' = Inl (MissingEnv ''TO_ADDRESS'')"
            show ?thesis using m g gu gc ch gk by (auto simp: main_tx_def io_simps)
          next
            fix t
            assume nt: "\<not> missingOrBlank rt ''TO_ADDRESS''"
              and gt: "getenvStrict rt ''TO_ADDRESS'' = Inr t"
            have m: "missingOrBlank rt ''AMOUNT_ETH''" using assms nu nc nk nt by blast
            then have g: "getenvStrict rt ''AMOUNT_ETH'' = Inl (MissingEnv ''AMOUNT_ETH'')"
              by (simp add: getenvStrict_Inl_iff)
            show ?thesis using m g gu gc ch gk gt by (auto simp: main_tx_def io_simps)
          qed
        qed
      qed
    qed
  qed
qed

lemma typed_env:
  "getenvStrict (sample_runtime typed_vars) ''ETH_RPC_URL'' = Inr ''http://localhost:8545''"
  "getenvStrict (sample_runtime typed_vars) ''PRIVATE_KEY''
     = Inr ''0xac0974bec39a17e36ba4a6b4d238ff944bacb478cbed5efcae784d7bf4f2ff80''"
  "getenvStrict (sample_runtime typed_vars) ''TARGET_API_URL'' = Inr ''http://localhost:3000/auth''"
  "toLowerCase (orDefault (env (sample_runtime typed_vars) ''SIGN_MODE'') ''personal'') = ''typed''"
  "missingOrBlank (sample_runtime typed_vars) ''TYPED_DATA_JSON''"
proof -
  show "getenvStrict (sample_runtime typed_vars) ''ETH_RPC_URL'' = Inr ''http://localhost:8545''"
    by (rule getenvStrict_Inr) (simp_all add: sample_env typed_vars_def isWhiteSpace_def)
  show "getenvStrict (sample_runtime typed_vars) ''PRIVATE_KEY''
     = Inr ''0xac0974bec39a17e36ba4a6b4d238ff944bacb478cbed5efcae784d7bf4f2ff80''"
    by (rule getenvStrict_Inr) (simp add: sample_env typed_vars_def, rule sample_key_ok)
  show "getenvStrict (sample_runtime typed_vars) ''TARGET_API_URL'' = Inr ''http://localhost:3000/auth''"
    by (rule getenvStrict_Inr) (simp_all add: sample_env typed_vars_def isWhiteSpace_def)
  have "toLowerCase ''typed'' = ''typed''" by code_simp
  then show "toLowerCase (orDefault (env (sample_runtime typed_vars) ''SIGN_MODE'') ''personal'') = ''typed''"
    by (simp add: sample_env typed_vars_def orDefault_def)
  show "missingOrBlank (sample_runtime typed_vars) ''TYPED_DATA_JSON''"
    by (simp add: missingOrBlank_def sample_env typed_vars_def)
qed

lemma sample_block: "getBlockNumber (sample_ethers r) u = Inr 1"
  by (simp add: sample_ethers_def)


lemma empty_env_main:
  "main (sample_runtime []) lib post =
     ([Console_log [Str ''Timestamp: 2025-11-01T11:11:51.000Z'']], Inl (MissingEnv ''TRADING_PRIVATE_KEY''))"
proof -
  have g: "getenvStrict (sample_runtime []) ''TRADING_PRIVATE_KEY'' = Inl (MissingEnv ''TRADING_PRIVATE_KEY'')"
    by (simp add: getenvStrict_Inl_iff missingOrBlank_def sample_env)
  show ?thesis
    by (simp add: main_eq sample_env parseNonceArg_absent g sample_iso)
qed

section \<open>The claims\<close>

text \<open>
  C5. The nonce that is signed stays a \<open>bigint\<close>; the nonce in the submitted payload,
  at the top level and inside \<open>action\<close>, is \<open>Number\<close> of that same \<open>bigint\<close>. For a
  nonce from 0 up to but excluding \<open>2^53\<close> the conversion is exact, and some nonce from
  \<open>2^53\<close> up to but excluding \<open>2^64\<close> is changed by it. This holds for every
  submission of \<open>signAndSubmitLink\<close> and of the finalizer's script.
\<close>

theorem nonce_signed_as_bigint_submitted_as_double:
  "(\<forall>u p tm. (u, p, tm) \<in> set (posted (fst (signAndSubmitLink rt lib post key ua fin tn nopt))) \<longrightarrow>
      signedValues (fst (signAndSubmitLink rt lib post key ua fin tn nopt)) =
        [Obj [(''hyperliquidChain'', Str (if tn then ''Testnet'' else ''Mainnet'')),
              (''user'', Str (toLowerCase ua)),
              (''isFinalize'', Bool fin),
              (''nonce'', BigInt (nonceOrNow rt nopt))]]
      \<and> getProp p ''nonce'' = Inr (Num (Number (nonceOrNow rt nopt)))
      \<and> (\<exists>a. getProp p ''action'' = Inr a
             \<and> getProp a ''nonce'' = Inr (Num (Number (nonceOrNow rt nopt)))))
   \<and> (\<forall>u p tm. (u, p, tm) \<in> set (posted (fst (main_finalize rt lib post))) \<longrightarrow>
        (\<exists>n a ua'. signedValues (fst (main_finalize rt lib post)) =
                 [Obj [(''hyperliquidChain'',
                        Str (if env rt ''HYPERLIQUID_TESTNET'' \<noteq> Some ''false''
                             then ''Testnet'' else ''Mainnet'')),
                       (''user'', Str ua'),
                       (''isFinalize'', Bool True),
                       (''nonce'', BigInt n)]]
             \<and> getProp p ''nonce'' = Inr (Num (Number n))
             \<and> getProp p ''action'' = Inr a
             \<and> getProp a ''nonce'' = Inr (Num (Number n))))
   \<and> (\<forall>n. 0 \<le> n \<and> n < 2 ^ 53 \<longrightarrow> Number n = Fin n)
   \<and> (\<exists>n. 2 ^ 53 \<le> n \<and> n < 2 ^ 64 \<and> Number n \<noteq> Fin n)"
proof (intro conjI allI impI)
  fix u p tm
  assume "(u, p, tm) \<in> set (posted (fst (signAndSubmitLink rt lib post key ua fin tn nopt)))"
  then obtain w sig where w: "Wallet_new lib key = Inr w"
    and p: "p = serializablePayload (linkAction tn fin (nonceOrNow rt nopt) ua) (nonceOrNow rt nopt) sig"
    using posted_sasl_mem by blast
  show "signedValues (fst (signAndSubmitLink rt lib post key ua fin tn nopt)) =
        [Obj [(''hyperliquidChain'', Str (if tn then ''Testnet'' else ''Mainnet'')),
              (''user'', Str (toLowerCase ua)),
              (''isFinalize'', Bool fin),
              (''nonce'', BigInt (nonceOrNow rt nopt))]]"
    by (simp add: signedValues_sasl w link_value_written)
  show "getProp p ''nonce'' = Inr (Num (Number (nonceOrNow rt nopt)))"
    by (simp add: p payload_nonce)
  show "\<exists>a. getProp p ''action'' = Inr a
           \<and> getProp a ''nonce'' = Inr (Num (Number (nonceOrNow rt nopt)))"
    by (simp add: p payload_action_nonce linkAction_sel)
next
  fix u p tm
  assume "(u, p, tm) \<in> set (posted (fst (main_finalize rt lib post)))"
  then obtain k a w nopt sig where k: "getenvStrict rt ''STAKING_PRIVATE_KEY'' = Inr k"
    and a: "getenvStrict rt ''STAKING_USER_ADDRESS'' = Inr a"
    and w: "Wallet_new lib k = Inr w"
    and n: "snd (parseNonceArg (env rt ''NONCE'')) = Inr nopt"
    and p: "p = serializablePayload
                  (linkAction (env rt ''HYPERLIQUID_TESTNET'' \<noteq> Some ''false'') True
                     (case nopt of None \<Rightarrow> Date_now rt | Some m \<Rightarrow> m) (toLowerCase a))
                  (case nopt of None \<Rightarrow> Date_now rt | Some m \<Rightarrow> m) sig"
    using posted_main_finalize_mem by blast
  show "\<exists>n a ua'. signedValues (fst (main_finalize rt lib post)) =
                 [Obj [(''hyperliquidChain'',
                        Str (if env rt ''HYPERLIQUID_TESTNET'' \<noteq> Some ''false''
                             then ''Testnet'' else ''Mainnet'')),
                       (''user'', Str ua'),
                       (''isFinalize'', Bool True),
                       (''nonce'', BigInt n)]]
             \<and> getProp p ''nonce'' = Inr (Num (Number n))
             \<and> getProp p ''action'' = Inr a
             \<and> getProp a ''nonce'' = Inr (Num (Number n))"
    apply (rule exI [of _ "case nopt of None \<Rightarrow> Date_now rt | Some m \<Rightarrow> m"])
    apply (rule exI [of _ "Obj [(''hyperliquidChain'',
                        Str (if env rt ''HYPERLIQUID_TESTNET'' \<noteq> Some ''false''
                             then ''Testnet'' else ''Mainnet'')),
                       (''isFinalize'', Bool True),
                       (''nonce'', Num (Number (case nopt of None \<Rightarrow> Date_now rt | Some m \<Rightarrow> m))),
                       (''signatureChainId'',
                        Str (if env rt ''HYPERLIQUID_TESTNET'' \<noteq> Some ''false''
                             then ''0x3e6'' else ''0x1'')),
                       (''type'', Str ''linkStakingUser''),
                       (''user'', Str (toLowerCase a))]"])
    apply (rule exI [of _ "toLowerCase (toLowerCase a)"])
    apply (simp add: signedValues_main_finalize k a w n link_value_written p payload_nonce
        payload_action_nonce linkAction_sel)
    done
next
  fix n :: int
  assume "0 \<le> n \<and> n < 2 ^ 53"
  then show "Number n = Fin n" by (simp add: Number_exact)
next
  have "(2::int) ^ 53 \<le> 2 ^ 53 + 1" by simp
  moreover have "(2::int) ^ 53 + 1 < 2 ^ 64" by simp
  moreover have "Number (2 ^ 53 + 1) \<noteq> Fin (2 ^ 53 + 1)" unfolding Number_inexact by simp
  ultimately show "\<exists>n. 2 ^ 53 \<le> n \<and> n < 2 ^ 64 \<and> Number n \<noteq> Fin n" by blast
qed


text \<open>
  The theorem on a run of the initiator with the clock as nonce: the payload is posted,
  the signed value carries the \<open>bigint\<close> and the payload the same number.
\<close>

theorem nonce_signed_as_bigint_submitted_as_double_witness:
  "posted (fst (signAndSubmitLink (sample_runtime initiator_vars) (sample_ethers sample_address)
             sample_axios ''0x01'' ''0xab'' False True None)) =
     [(''https://api-ui.hyperliquid-testnet.xyz/exchange'',
       serializablePayload (linkAction True False 1761995511314 ''0xab'') 1761995511314
         (Obj [(''r'', Str ''0xr''), (''s'', Str ''0xs''), (''v'', Num (Fin 27))]),
       30000)]
   \<and> signedValues (fst (signAndSubmitLink (sample_runtime initiator_vars) (sample_ethers sample_address)
             sample_axios ''0x01'' ''0xab'' False True None)) =
        [Obj [(''hyperliquidChain'', Str ''Testnet''),
              (''user'', Str ''0xab''),
              (''isFinalize'', Bool False),
              (''nonce'', BigInt 1761995511314)]]
   \<and> getProp (serializablePayload (linkAction True False 1761995511314 ''0xab'') 1761995511314
         (Obj [(''r'', Str ''0xr''), (''s'', Str ''0xs''), (''v'', Num (Fin 27))])) ''nonce''
       = Inr (Num (Fin 1761995511314))"
proof -
  have n: "nonceOrNow (sample_runtime initiator_vars) None = 1761995511314"
    by (simp add: nonceOrNow_def sample_runtime_def)
  have w: "Wallet_new (sample_ethers sample_address) ''0x01''
             = Inr \<lparr> privateKey = ''0x01'', address = sample_address \<rparr>"
    by (simp add: sample_ethers_def)
  have p: "posted (fst (signAndSubmitLink (sample_runtime initiator_vars) (sample_ethers sample_address)
             sample_axios ''0x01'' ''0xab'' False True None)) =
     [(''https://api-ui.hyperliquid-testnet.xyz/exchange'',
       serializablePayload (linkAction True False 1761995511314 ''0xab'') 1761995511314
         (Obj [(''r'', Str ''0xr''), (''s'', Str ''0xs''), (''v'', Num (Fin 27))]),
       30000)]"
    by (simp add: posted_sasl w n sample_signs baseUrl_def)
  have t: "toLowerCase ''0xab'' = ''0xab''"
    by (simp add: toLowerCase_def toLowerChar_def isUpper_def)
  from p nonce_signed_as_bigint_submitted_as_double
    [of "sample_runtime initiator_vars" "sample_ethers sample_address" sample_axios
        "''0x01''" "''0xab''" False True None]
  show ?thesis
    by (simp add: n t sample_nonce_exact)
qed

text \<open>
  C1. The claim as stated fails. The finalizer runs with \<open>IS_FINALIZE=true\<close>, a key, an
  address and no \<open>NONCE\<close>; the clock reads 1761995511314. Both the shared script and the
  finalizer's own script end without an error, having asked for a signature over a value
  with \<open>isFinalize = true\<close> and the clock reading as nonce, and having posted a payload
  that carries that nonce.
\<close>

theorem finalizer_without_nonce_counterexample:
  "env (sample_runtime finalizer_vars) ''IS_FINALIZE'' = Some ''true''
   \<and> env (sample_runtime finalizer_vars) ''NONCE'' = None
   \<and> Date_now (sample_runtime finalizer_vars) = 1761995511314
   \<and> snd (main (sample_runtime finalizer_vars) (sample_ethers sample_address) sample_axios) = Inr ()
   \<and> signedValues (fst (main (sample_runtime finalizer_vars) (sample_ethers sample_address) sample_axios)) =
        [Obj [(''hyperliquidChain'', Str ''Testnet''),
              (''user'', Str ''0x70997970c51812dc3a010c7d01b50e0d17dc79c8''),
              (''isFinalize'', Bool True),
              (''nonce'', BigInt 1761995511314)]]
   \<and> posted (fst (main (sample_runtime finalizer_vars) (sample_ethers sample_address) sample_axios)) =
        [(''https://api-ui.hyperliquid-testnet.xyz/exchange'',
          Obj [(''action'',
                Obj [(''hyperliquidChain'', Str ''Testnet''),
                     (''isFinalize'', Bool True),
                     (''nonce'', Num (Fin 1761995511314)),
                     (''signatureChainId'', Str ''0x3e6''),
                     (''type'', Str ''linkStakingUser''),
                     (''user'', Str ''0x70997970c51812dc3a010c7d01b50e0d17dc79c8'')]),
               (''expiresAfter'', Null),
               (''isFrontend'', Bool True),
               (''nonce'', Num (Fin 1761995511314)),
               (''signature'', Obj [(''r'', Str ''0xr''), (''s'', Str ''0xs''), (''v'', Num (Fin 27))]),
               (''vaultAddress'', Null)],
          30000)]
   \<and> snd (main_finalize (sample_runtime finalizer_vars) (sample_ethers sample_address) sample_axios) = Inr ()
   \<and> signedValues (fst (main_finalize (sample_runtime finalizer_vars) (sample_ethers sample_address) sample_axios)) =
        [Obj [(''hyperliquidChain'', Str ''Testnet''),
              (''user'', Str ''0x70997970c51812dc3a010c7d01b50e0d17dc79c8''),
              (''isFinalize'', Bool True),
              (''nonce'', BigInt 1761995511314)]]
   \<and> posted (fst (main_finalize (sample_runtime finalizer_vars) (sample_ethers sample_address) sample_axios)) =
        [(''https://api-ui.hyperliquid-testnet.xyz/exchange'',
          Obj [(''action'',
                Obj [(''hyperliquidChain'', Str ''Testnet''),
                     (''isFinalize'', Bool True),
                     (''nonce'', Num (Fin 1761995511314)),
                     (''signatureChainId'', Str ''0x3e6''),
                     (''type'', Str ''linkStakingUser''),
                     (''user'', Str ''0x70997970c51812dc3a010c7d01b50e0d17dc79c8'')]),
               (''expiresAfter'', Null),
               (''isFrontend'', Bool True),
               (''nonce'', Num (Fin 1761995511314)),
               (''signature'', Obj [(''r'', Str ''0xr''), (''s'', Str ''0xs''), (''v'', Num (Fin 27))]),
               (''vaultAddress'', Null)],
          30000)]"
proof -
  let ?rt = "sample_runtime finalizer_vars"
  let ?lib = "sample_ethers sample_address"
  have p: "parseNonceArg None = ([], Inr None)"
    by (simp add: parseNonceArg_absent)
  have n: "nonceOrNow ?rt None = 1761995511314"
    by (simp add: nonceOrNow_def sample_now)
  have r1: "snd (main ?rt ?lib sample_axios) = Inr ()"
    by (simp add: main_eq finalizer_env p finalizer_key finalizer_user signAndSubmitLink_eq
        sample_wallet sample_signs sample_post Let_def)
  have s1: "signedValues (fst (main ?rt ?lib sample_axios)) =
        [Obj [(''hyperliquidChain'', Str ''Testnet''),
              (''user'', Str ''0x70997970c51812dc3a010c7d01b50e0d17dc79c8''),
              (''isFinalize'', Bool True),
              (''nonce'', BigInt 1761995511314)]]"
    by (simp add: signedValues_main finalizer_env p finalizer_key finalizer_user sample_wallet
        Let_def n link_value_written sample_user_lower sample_user_lower_idem)
  have p1: "posted (fst (main ?rt ?lib sample_axios)) =
        [(''https://api-ui.hyperliquid-testnet.xyz/exchange'',
          serializablePayload (linkAction True True 1761995511314 ''0x70997970c51812dc3a010c7d01b50e0d17dc79c8'')
            1761995511314 (Obj [(''r'', Str ''0xr''), (''s'', Str ''0xs''), (''v'', Num (Fin 27))]),
          30000)]"
    by (simp add: posted_main finalizer_env p finalizer_key finalizer_user sample_wallet
        Let_def n sample_signs sample_user_lower baseUrl_def)
  have r2: "snd (main_finalize ?rt ?lib sample_axios) = Inr ()"
    by (simp add: main_finalize_eq finalizer_env p finalizer_key finalizer_user
        sample_wallet sample_signs sample_post Let_def)
  have s2: "signedValues (fst (main_finalize ?rt ?lib sample_axios)) =
        [Obj [(''hyperliquidChain'', Str ''Testnet''),
              (''user'', Str ''0x70997970c51812dc3a010c7d01b50e0d17dc79c8''),
              (''isFinalize'', Bool True),
              (''nonce'', BigInt 1761995511314)]]"
    by (simp add: signedValues_main_finalize finalizer_env p finalizer_key finalizer_user sample_wallet
        sample_now link_value_written sample_user_lower sample_user_lower_idem)
  have p2: "posted (fst (main_finalize ?rt ?lib sample_axios)) =
        [(''https://api-ui.hyperliquid-testnet.xyz/exchange'',
          serializablePayload (linkAction True True 1761995511314 ''0x70997970c51812dc3a010c7d01b50e0d17dc79c8'')
            1761995511314 (Obj [(''r'', Str ''0xr''), (''s'', Str ''0xs''), (''v'', Num (Fin 27))]),
          30000)]"
    by (simp add: posted_main_finalize finalizer_env p finalizer_key finalizer_user sample_wallet
        Let_def sample_now sample_signs sample_user_lower baseUrl_def)
  show ?thesis
    unfolding r1 s1 p1 r2 s2 p2 sample_payload
    by (simp add: finalizer_env sample_now)
qed

text \<open>
  C1, amended. A finalizer run with no \<open>NONCE\<close> (unset or empty) does not stop for lack
  of a nonce. Once the key and the address are configured and the key loads, the run asks
  for the signature of the value with \<open>isFinalize = true\<close> whose nonce is the clock's
  current time in milliseconds, and every payload it posts carries that time as nonce.
  This holds for the shared script with \<open>IS_FINALIZE=true\<close> and for the finalizer's own
  script.
\<close>

theorem finalizer_without_nonce_uses_clock:
  assumes nonce_absent: "env rt ''NONCE'' = None \<or> env rt ''NONCE'' = Some []"
      and key: "getenvStrict rt ''STAKING_PRIVATE_KEY'' = Inr k"
      and addr: "getenvStrict rt ''STAKING_USER_ADDRESS'' = Inr a"
      and wallet: "Wallet_new lib k = Inr w"
  shows "(env rt ''IS_FINALIZE'' = Some ''true'' \<longrightarrow>
            signedValues (fst (main rt lib post)) =
              [Obj [(''hyperliquidChain'',
                     Str (if env rt ''HYPERLIQUID_TESTNET'' \<noteq> Some ''false''
                          then ''Testnet'' else ''Mainnet'')),
                    (''user'', Str (toLowerCase a)),
                    (''isFinalize'', Bool True),
                    (''nonce'', BigInt (Date_now rt))]]
          \<and> (\<forall>u p tm. (u, p, tm) \<in> set (posted (fst (main rt lib post))) \<longrightarrow>
                 getProp p ''nonce'' = Inr (Num (Number (Date_now rt)))))
       \<and> signedValues (fst (main_finalize rt lib post)) =
              [Obj [(''hyperliquidChain'',
                     Str (if env rt ''HYPERLIQUID_TESTNET'' \<noteq> Some ''false''
                          then ''Testnet'' else ''Mainnet'')),
                    (''user'', Str (toLowerCase a)),
                    (''isFinalize'', Bool True),
                    (''nonce'', BigInt (Date_now rt))]]
       \<and> (\<forall>u p tm. (u, p, tm) \<in> set (posted (fst (main_finalize rt lib post))) \<longrightarrow>
              getProp p ''nonce'' = Inr (Num (Number (Date_now rt))))"
proof -
  have p: "parseNonceArg (env rt ''NONCE'') = ([], Inr None)"
    using nonce_absent by (rule parseNonceArg_absent)
  have n: "nonceOrNow rt None = Date_now rt"
    by (simp add: nonceOrNow_def)
  have m1: "signedValues (fst (main rt lib post)) =
              [Obj [(''hyperliquidChain'',
                     Str (if env rt ''HYPERLIQUID_TESTNET'' \<noteq> Some ''false''
                          then ''Testnet'' else ''Mainnet'')),
                    (''user'', Str (toLowerCase a)),
                    (''isFinalize'', Bool True),
                    (''nonce'', BigInt (Date_now rt))]]"
    if fin: "env rt ''IS_FINALIZE'' = Some ''true''"
    by (simp add: signedValues_main fin p key addr wallet n link_value_written toLowerCase_idem)
  have m2: "getProp q ''nonce'' = Inr (Num (Number (Date_now rt)))"
    if "(u, q, tm) \<in> set (posted (fst (main rt lib post)))" for u q tm
    using posted_main_mem [OF that] by (auto simp: p n payload_nonce)
  have f1: "signedValues (fst (main_finalize rt lib post)) =
              [Obj [(''hyperliquidChain'',
                     Str (if env rt ''HYPERLIQUID_TESTNET'' \<noteq> Some ''false''
                          then ''Testnet'' else ''Mainnet'')),
                    (''user'', Str (toLowerCase a)),
                    (''isFinalize'', Bool True),
                    (''nonce'', BigInt (Date_now rt))]]"
    by (simp add: signedValues_main_finalize p key addr wallet link_value_written toLowerCase_idem)
  have f2: "getProp q ''nonce'' = Inr (Num (Number (Date_now rt)))"
    if "(u, q, tm) \<in> set (posted (fst (main_finalize rt lib post)))" for u q tm
    using posted_main_finalize_mem [OF that] by (auto simp: p payload_nonce)
  show ?thesis
    using m1 m2 f1 f2 by blast
qed

text \<open>The theorem on the finalizer's environment with no \<open>NONCE\<close>.\<close>

theorem finalizer_without_nonce_uses_clock_witness:
  "signedValues (fst (main (sample_runtime finalizer_vars) (sample_ethers sample_address) timeout_axios)) =
     [Obj [(''hyperliquidChain'', Str ''Testnet''),
           (''user'', Str ''0x70997970c51812dc3a010c7d01b50e0d17dc79c8''),
           (''isFinalize'', Bool True),
           (''nonce'', BigInt 1761995511314)]]
   \<and> signedValues (fst (main_finalize (sample_runtime finalizer_vars) (sample_ethers sample_address) timeout_axios)) =
     [Obj [(''hyperliquidChain'', Str ''Testnet''),
           (''user'', Str ''0x70997970c51812dc3a010c7d01b50e0d17dc79c8''),
           (''isFinalize'', Bool True),
           (''nonce'', BigInt 1761995511314)]]"
  using finalizer_without_nonce_uses_clock
    [of "sample_runtime finalizer_vars" _ _ "sample_ethers sample_address" _ timeout_axios,
     OF disjI1 [OF finalizer_env(2)] finalizer_key finalizer_user sample_wallet]
  by (simp add: finalizer_env sample_now sample_user_lower)

text \<open>
  C10. Every EIP-712 signing request and every recovery of a run uses the domain
  \<open>{name: "HyperliquidSignTransaction", version: "1", chainId, verifyingContract: 0x00..00}\<close>
  with \<open>chainId\<close> 998 on testnet and 1 on mainnet, and the schema with the single type
  \<open>HyperliquidTransaction:LinkStakingUser\<close> whose fields are \<open>hyperliquidChain: string\<close>,
  \<open>user: address\<close>, \<open>isFinalize: bool\<close>, \<open>nonce: uint64\<close>, in this order. This holds
  for \<open>signAndSubmitLink\<close> with any role and arguments, for \<open>main\<close> of the shared script
  and for the finalizer's own script.
\<close>

theorem fixed_domain_and_schema:
  "set (domainsAndTypes (fst (signAndSubmitLink rt lib post key ua fin tn nopt)))
     \<subseteq> {(Obj [(''name'', Str ''HyperliquidSignTransaction''),
               (''version'', Str ''1''),
               (''chainId'', Num (Fin (if tn then 998 else 1))),
               (''verifyingContract'', Str ''0x0000000000000000000000000000000000000000'')],
          Obj [(''HyperliquidTransaction:LinkStakingUser'',
                Arr [Obj [(''name'', Str ''hyperliquidChain''), (''type'', Str ''string'')],
                     Obj [(''name'', Str ''user''), (''type'', Str ''address'')],
                     Obj [(''name'', Str ''isFinalize''), (''type'', Str ''bool'')],
                     Obj [(''name'', Str ''nonce''), (''type'', Str ''uint64'')]])])}
   \<and> set (domainsAndTypes (fst (main rt lib post)))
     \<subseteq> {(Obj [(''name'', Str ''HyperliquidSignTransaction''),
               (''version'', Str ''1''),
               (''chainId'', Num (Fin (if env rt ''HYPERLIQUID_TESTNET'' \<noteq> Some ''false'' then 998 else 1))),
               (''verifyingContract'', Str ''0x0000000000000000000000000000000000000000'')],
          Obj [(''HyperliquidTransaction:LinkStakingUser'',
                Arr [Obj [(''name'', Str ''hyperliquidChain''), (''type'', Str ''string'')],
                     Obj [(''name'', Str ''user''), (''type'', Str ''address'')],
                     Obj [(''name'', Str ''isFinalize''), (''type'', Str ''bool'')],
                     Obj [(''name'', Str ''nonce''), (''type'', Str ''uint64'')]])])}
   \<and> set (domainsAndTypes (fst (main_finalize rt lib post)))
     \<subseteq> {(Obj [(''name'', Str ''HyperliquidSignTransaction''),
               (''version'', Str ''1''),
               (''chainId'', Num (Fin (if env rt ''HYPERLIQUID_TESTNET'' \<noteq> Some ''false'' then 998 else 1))),
               (''verifyingContract'', Str ''0x0000000000000000000000000000000000000000'')],
          Obj [(''HyperliquidTransaction:LinkStakingUser'',
                Arr [Obj [(''name'', Str ''hyperliquidChain''), (''type'', Str ''string'')],
                     Obj [(''name'', Str ''user''), (''type'', Str ''address'')],
                     Obj [(''name'', Str ''isFinalize''), (''type'', Str ''bool'')],
                     Obj [(''name'', Str ''nonce''), (''type'', Str ''uint64'')]])])}"
  using domainsAndTypes_sasl [of rt lib post key ua fin tn nopt]
    domainsAndTypes_main [of rt lib post] domainsAndTypes_main_finalize [of rt lib post]
  unfolding link_domain_written link_types_written
  by (intro conjI)

text \<open>The theorem on the finalizer's run on testnet: one signing and one recovery.\<close>

theorem fixed_domain_and_schema_witness:
  "length (domainsAndTypes (fst (main_finalize (sample_runtime finalizer_vars)
       (sample_ethers sample_address) sample_axios))) = 2
   \<and> set (domainsAndTypes (fst (main_finalize (sample_runtime finalizer_vars)
       (sample_ethers sample_address) sample_axios)))
     \<subseteq> {(Obj [(''name'', Str ''HyperliquidSignTransaction''),
               (''version'', Str ''1''),
               (''chainId'', Num (Fin 998)),
               (''verifyingContract'', Str ''0x0000000000000000000000000000000000000000'')],
          Obj [(''HyperliquidTransaction:LinkStakingUser'',
                Arr [Obj [(''name'', Str ''hyperliquidChain''), (''type'', Str ''string'')],
                     Obj [(''name'', Str ''user''), (''type'', Str ''address'')],
                     Obj [(''name'', Str ''isFinalize''), (''type'', Str ''bool'')],
                     Obj [(''name'', Str ''nonce''), (''type'', Str ''uint64'')]])])}"
proof -
  have t: "(if env (sample_runtime finalizer_vars) ''HYPERLIQUID_TESTNET'' \<noteq> Some ''false''
            then 998 else 1) = (998::int)"
    by (simp add: finalizer_env)
  have "length (domainsAndTypes (fst (main_finalize (sample_runtime finalizer_vars)
       (sample_ethers sample_address) sample_axios))) = 2"
    by (simp add: domainsAndTypes_main_finalize_sample)
  then show ?thesis
    using fixed_domain_and_schema
      [of "sample_runtime finalizer_vars" "sample_ethers sample_address" sample_axios
          "''k''" "''u''" True True None]
    unfolding t by blast
qed

text \<open>
  C7. An initiator run (\<open>IS_FINALIZE\<close> is not \<open>true\<close>) with no \<open>NONCE\<close> (unset or
  empty), with its key and address configured and a key that loads, starts as follows:
  after the time stamp it loads the key, prints the signer, the user, \<open>isFinalize: false\<close>
  and the line \<open>Nonce:\<close> with the clock's time in milliseconds, and then asks for the
  signature of the value with \<open>isFinalize = false\<close>, that time as nonce, and the
  lower-cased \<open>TRADING_USER_ADDRESS\<close> (the finalizer's address) as user. Every payload it
  posts carries the action with these three fields.
\<close>

theorem initiator_fresh_nonce:
  assumes initiator: "env rt ''IS_FINALIZE'' \<noteq> Some ''true''"
      and nonce_absent: "env rt ''NONCE'' = None \<or> env rt ''NONCE'' = Some []"
      and key: "getenvStrict rt ''TRADING_PRIVATE_KEY'' = Inr k"
      and addr: "getenvStrict rt ''TRADING_USER_ADDRESS'' = Inr a"
      and wallet: "Wallet_new lib k = Inr w"
  shows "take 7 (fst (main rt lib post)) =
           [Console_log [Str (''Timestamp: '' @ Date_toISOString rt)],
            New_Wallet k,
            Console_log [Str (''Signing with account: '' @ address w)],
            Console_log [Str (''User: '' @ toLowerCase a)],
            Console_log [Str ''isFinalize: false''],
            Console_log [Str (''Nonce: '' @ bigint_toString (Date_now rt))],
            SignTypedData w
              (Obj [(''name'', Str ''HyperliquidSignTransaction''),
                    (''version'', Str ''1''),
                    (''chainId'', Num (Fin (if env rt ''HYPERLIQUID_TESTNET'' \<noteq> Some ''false''
                                            then 998 else 1))),
                    (''verifyingContract'', Str ''0x0000000000000000000000000000000000000000'')])
              link_types
              (Obj [(''hyperliquidChain'',
                     Str (if env rt ''HYPERLIQUID_TESTNET'' \<noteq> Some ''false''
                          then ''Testnet'' else ''Mainnet'')),
                    (''user'', Str (toLowerCase a)),
                    (''isFinalize'', Bool False),
                    (''nonce'', BigInt (Date_now rt))])]
       \<and> (\<forall>u p tm. (u, p, tm) \<in> set (posted (fst (main rt lib post))) \<longrightarrow>
             getProp p ''action'' =
               Inr (Obj [(''hyperliquidChain'',
                          Str (if env rt ''HYPERLIQUID_TESTNET'' \<noteq> Some ''false''
                               then ''Testnet'' else ''Mainnet'')),
                         (''isFinalize'', Bool False),
                         (''nonce'', Num (Number (Date_now rt))),
                         (''signatureChainId'',
                          Str (if env rt ''HYPERLIQUID_TESTNET'' \<noteq> Some ''false''
                               then ''0x3e6'' else ''0x1'')),
                         (''type'', Str ''linkStakingUser''),
                         (''user'', Str (toLowerCase a))]))"
proof -
  let ?tn = "env rt ''HYPERLIQUID_TESTNET'' \<noteq> Some ''false''"
  let ?act = "linkAction ?tn False (Date_now rt) (toLowerCase a)"
  have p: "parseNonceArg (env rt ''NONCE'') = ([], Inr None)"
    using nonce_absent by (rule parseNonceArg_absent)
  have n: "nonceOrNow rt None = Date_now rt"
    by (simp add: nonceOrNow_def)
  obtain rest where first: "fst (signLinkAction lib ?act w ?tn)
      = SignTypedData w (link_domain ?act) link_types (link_value ?act) # rest"
    using signLinkAction_first by blast
  have "take 7 (fst (main rt lib post)) =
           [Console_log [Str (''Timestamp: '' @ Date_toISOString rt)],
            New_Wallet k,
            Console_log [Str (''Signing with account: '' @ address w)],
            Console_log [Str (''User: '' @ toLowerCase a)],
            Console_log [Str ''isFinalize: false''],
            Console_log [Str (''Nonce: '' @ bigint_toString (Date_now rt))],
            SignTypedData w (link_domain ?act) link_types (link_value ?act)]"
    using initiator
    by (simp add: main_eq p key addr signAndSubmitLink_eq wallet n Let_def first bool_toString_def
        split: sum.splits)
  then have A: "take 7 (fst (main rt lib post)) =
           [Console_log [Str (''Timestamp: '' @ Date_toISOString rt)],
            New_Wallet k,
            Console_log [Str (''Signing with account: '' @ address w)],
            Console_log [Str (''User: '' @ toLowerCase a)],
            Console_log [Str ''isFinalize: false''],
            Console_log [Str (''Nonce: '' @ bigint_toString (Date_now rt))],
            SignTypedData w
              (Obj [(''name'', Str ''HyperliquidSignTransaction''),
                    (''version'', Str ''1''),
                    (''chainId'', Num (Fin (if ?tn then 998 else 1))),
                    (''verifyingContract'', Str ''0x0000000000000000000000000000000000000000'')])
              link_types
              (Obj [(''hyperliquidChain'', Str (if ?tn then ''Testnet'' else ''Mainnet'')),
                    (''user'', Str (toLowerCase a)),
                    (''isFinalize'', Bool False),
                    (''nonce'', BigInt (Date_now rt))])]"
    unfolding link_domain_written link_value_written toLowerCase_idem .
  have B: "getProp q ''action'' =
               Inr (Obj [(''hyperliquidChain'', Str (if ?tn then ''Testnet'' else ''Mainnet'')),
                         (''isFinalize'', Bool False),
                         (''nonce'', Num (Number (Date_now rt))),
                         (''signatureChainId'', Str (if ?tn then ''0x3e6'' else ''0x1'')),
                         (''type'', Str ''linkStakingUser''),
                         (''user'', Str (toLowerCase a))])"
    if "(u, q, tm) \<in> set (posted (fst (main rt lib post)))" for u q tm
    using posted_main_mem [OF that] initiator
    by (auto simp: p n key addr payload_action_nonce linkAction_sel)
  show ?thesis
    using A B by blast
qed

text \<open>The theorem on the initiator's environment with no \<open>NONCE\<close>, on testnet.\<close>

theorem initiator_fresh_nonce_witness:
  "take 7 (fst (main (sample_runtime initiator_vars) (sample_ethers sample_address) sample_axios)) =
           [Console_log [Str ''Timestamp: 2025-11-01T11:11:51.000Z''],
            New_Wallet ''0xac0974bec39a17e36ba4a6b4d238ff944bacb478cbed5efcae784d7bf4f2ff80'',
            Console_log [Str ''Signing with account: 0xf39Fd6e51aad88F6F4ce6aB8827279cffFb92266''],
            Console_log [Str ''User: 0x70997970c51812dc3a010c7d01b50e0d17dc79c8''],
            Console_log [Str ''isFinalize: false''],
            Console_log [Str ''Nonce: 1761995511314''],
            SignTypedData
              \<lparr> privateKey = ''0xac0974bec39a17e36ba4a6b4d238ff944bacb478cbed5efcae784d7bf4f2ff80'',
                address = ''0xf39Fd6e51aad88F6F4ce6aB8827279cffFb92266'' \<rparr>
              (Obj [(''name'', Str ''HyperliquidSignTransaction''),
                    (''version'', Str ''1''),
                    (''chainId'', Num (Fin 998)),
                    (''verifyingContract'', Str ''0x0000000000000000000000000000000000000000'')])
              link_types
              (Obj [(''hyperliquidChain'', Str ''Testnet''),
                    (''user'', Str ''0x70997970c51812dc3a010c7d01b50e0d17dc79c8''),
                    (''isFinalize'', Bool False),
                    (''nonce'', BigInt 1761995511314)])]"
proof -
  have i: "env (sample_runtime initiator_vars) ''IS_FINALIZE'' \<noteq> Some ''true''"
    by (simp add: initiator_env)
  show ?thesis
    using initiator_fresh_nonce
      [of "sample_runtime initiator_vars" _ _ "sample_ethers sample_address" _ sample_axios,
       OF i disjI1 [OF initiator_env(2)] initiator_key_env initiator_user_env sample_wallet]
    by (simp add: initiator_env sample_now sample_iso sample_user_lower sample_nonce_decimal
        sample_address_def)
qed

text \<open>
  C9. Each script posts at most once in a run, and every post is made with the timeout
  30000 ms. When the post fails, with a timeout or any other error, the run ends with
  that error; since there is at most one post, no request is issued again. This holds for
  the shared linking script, the finalizer's own script and the generic sign-and-call
  script.
\<close>

theorem http_timeout_no_retry:
  "(length (posted (fst (main rt lib post))) \<le> 1
    \<and> (\<forall>u p tm. (u, p, tm) \<in> set (posted (fst (main rt lib post))) \<longrightarrow> tm = 30000)
    \<and> (\<forall>u p h tm e. Post u p h tm \<in> set (fst (main rt lib post)) \<and> post u p h tm = Inl e
          \<longrightarrow> snd (main rt lib post) = Inl e))
   \<and> (length (posted (fst (main_finalize rt lib post))) \<le> 1
    \<and> (\<forall>u p tm. (u, p, tm) \<in> set (posted (fst (main_finalize rt lib post))) \<longrightarrow> tm = 30000)
    \<and> (\<forall>u p h tm e. Post u p h tm \<in> set (fst (main_finalize rt lib post)) \<and> post u p h tm = Inl e
          \<longrightarrow> snd (main_finalize rt lib post) = Inl e))
   \<and> (length (posted (fst (main_sign rt lib post))) \<le> 1
    \<and> (\<forall>u p tm. (u, p, tm) \<in> set (posted (fst (main_sign rt lib post))) \<longrightarrow> tm = 30000)
    \<and> (\<forall>u p h tm e. Post u p h tm \<in> set (fst (main_sign rt lib post)) \<and> post u p h tm = Inl e
          \<longrightarrow> snd (main_sign rt lib post) = Inl e))"
proof -
  have a: "snd (main rt lib post) = Inl e"
    if "Post u p h tm \<in> set (fst (main rt lib post)) \<and> post u p h tm = Inl e" for u p h tm e
    using post_event_main [of u p h tm rt lib post] that by simp
  have b: "snd (main_finalize rt lib post) = Inl e"
    if "Post u p h tm \<in> set (fst (main_finalize rt lib post)) \<and> post u p h tm = Inl e" for u p h tm e
    using post_event_main_finalize [of u p h tm rt lib post] that by simp
  have c: "snd (main_sign rt lib post) = Inl e"
    if "Post u p h tm \<in> set (fst (main_sign rt lib post)) \<and> post u p h tm = Inl e" for u p h tm e
    using post_event_main_sign [of u p h tm rt lib post] that by simp
  show ?thesis
    using posted_main_bound [of rt lib post] posted_main_finalize_bound [of rt lib post]
      posted_main_sign [of rt lib post] a b c
    by blast
qed

text \<open>
  The theorem on a finalizer run whose post times out: the run ends with the timeout
  error after a single post.
\<close>

theorem http_timeout_no_retry_witness:
  "snd (main (sample_runtime finalizer_vars) (sample_ethers sample_address) timeout_axios) = Inl TimeoutError
   \<and> length (posted (fst (main (sample_runtime finalizer_vars) (sample_ethers sample_address) timeout_axios))) \<le> 1"
proof -
  let ?p = "serializablePayload (linkAction True True 1761995511314 ''0x70997970c51812dc3a010c7d01b50e0d17dc79c8'')
        1761995511314 (Obj [(''r'', Str ''0xr''), (''s'', Str ''0xs''), (''v'', Num (Fin 27))])"
  have t: "timeout_axios ''https://api-ui.hyperliquid-testnet.xyz/exchange'' ?p (link_headers True) 30000
             = Inl TimeoutError"
    by (simp add: timeout_axios_def)
  note T = http_timeout_no_retry
      [of "sample_runtime finalizer_vars" "sample_ethers sample_address" timeout_axios]
  note M = conjunct1 [OF T]
  have "snd (main (sample_runtime finalizer_vars) (sample_ethers sample_address) timeout_axios)
          = Inl TimeoutError"
    by (rule conjunct2 [OF conjunct2 [OF M], rule_format, OF conjI [OF main_finalizer_timeout_trace t]])
  then show ?thesis
    using conjunct1 [OF M] by (rule conjI)
qed

text \<open>
  C4. Every payload that the linking scripts post is the object
  \<open>{action: {hyperliquidChain, isFinalize, nonce, signatureChainId, type, user},
  expiresAfter: null, isFrontend: true, nonce, signature: {r, s, v}, vaultAddress: null}\<close>
  with these keys in this order, where both nonces are \<open>Number\<close> of one \<open>bigint\<close>, \<open>type\<close>
  is \<open>linkStakingUser\<close> and \<open>user\<close> is the lower-cased address variable of the role. It is
  posted to the testnet URL unless \<open>HYPERLIQUID_TESTNET\<close> is \<open>false\<close>, and then to the
  mainnet URL. \<open>submitLinkAction\<close> returns what the remote side answers, unchanged.
\<close>

theorem submission_payload_shape:
  "(\<forall>u p tm. (u, p, tm) \<in> set (posted (fst (main rt lib post))) \<longrightarrow>
      (\<exists>n a r s v.
          env rt (if env rt ''IS_FINALIZE'' = Some ''true''
                  then ''STAKING_USER_ADDRESS'' else ''TRADING_USER_ADDRESS'') = Some a
        \<and> p = Obj [(''action'',
                    Obj [(''hyperliquidChain'',
                          Str (if env rt ''HYPERLIQUID_TESTNET'' \<noteq> Some ''false''
                               then ''Testnet'' else ''Mainnet'')),
                         (''isFinalize'', Bool (env rt ''IS_FINALIZE'' = Some ''true'')),
                         (''nonce'', Num (Number n)),
                         (''signatureChainId'',
                          Str (if env rt ''HYPERLIQUID_TESTNET'' \<noteq> Some ''false''
                               then ''0x3e6'' else ''0x1'')),
                         (''type'', Str ''linkStakingUser''),
                         (''user'', Str (toLowerCase a))]),
                   (''expiresAfter'', Null),
                   (''isFrontend'', Bool True),
                   (''nonce'', Num (Number n)),
                   (''signature'', Obj [(''r'', Str r), (''s'', Str s), (''v'', Num (Fin v))]),
                   (''vaultAddress'', Null)]
        \<and> u = (if env rt ''HYPERLIQUID_TESTNET'' \<noteq> Some ''false''
               then ''https://api-ui.hyperliquid-testnet.xyz/exchange''
               else ''https://api-ui.hyperliquid.xyz/exchange'')))
   \<and> (\<forall>u p tm. (u, p, tm) \<in> set (posted (fst (main_finalize rt lib post))) \<longrightarrow>
      (\<exists>n a r s v.
          env rt ''STAKING_USER_ADDRESS'' = Some a
        \<and> p = Obj [(''action'',
                    Obj [(''hyperliquidChain'',
                          Str (if env rt ''HYPERLIQUID_TESTNET'' \<noteq> Some ''false''
                               then ''Testnet'' else ''Mainnet'')),
                         (''isFinalize'', Bool True),
                         (''nonce'', Num (Number n)),
                         (''signatureChainId'',
                          Str (if env rt ''HYPERLIQUID_TESTNET'' \<noteq> Some ''false''
                               then ''0x3e6'' else ''0x1'')),
                         (''type'', Str ''linkStakingUser''),
                         (''user'', Str (toLowerCase a))]),
                   (''expiresAfter'', Null),
                   (''isFrontend'', Bool True),
                   (''nonce'', Num (Number n)),
                   (''signature'', Obj [(''r'', Str r), (''s'', Str s), (''v'', Num (Fin v))]),
                   (''vaultAddress'', Null)]
        \<and> u = (if env rt ''HYPERLIQUID_TESTNET'' \<noteq> Some ''false''
               then ''https://api-ui.hyperliquid-testnet.xyz/exchange''
               else ''https://api-ui.hyperliquid.xyz/exchange'')))
   \<and> (\<forall>payload testnet.
        snd (submitLinkAction post payload testnet) =
          post (if testnet then ''https://api-ui.hyperliquid-testnet.xyz/exchange''
                else ''https://api-ui.hyperliquid.xyz/exchange'')
               payload (link_headers testnet) 30000)
   \<and> (\<forall>a. list_all (\<lambda>c. \<not> isUpper c) (toLowerCase a))"
proof (intro conjI allI impI)
  fix u p tm
  assume "(u, p, tm) \<in> set (posted (fst (main rt lib post)))"
  from posted_main_mem [OF this]
  obtain k a w nopt sig where
      a: "getenvStrict rt (if env rt ''IS_FINALIZE'' = Some ''true''
                            then ''STAKING_USER_ADDRESS'' else ''TRADING_USER_ADDRESS'') = Inr a"
    and s: "snd (signLinkAction lib
                 (linkAction (env rt ''HYPERLIQUID_TESTNET'' \<noteq> Some ''false'')
                    (env rt ''IS_FINALIZE'' = Some ''true'') (nonceOrNow rt nopt) (toLowerCase a))
                 w (env rt ''HYPERLIQUID_TESTNET'' \<noteq> Some ''false'')) = Inr sig"
    and u: "u = baseUrl (env rt ''HYPERLIQUID_TESTNET'' \<noteq> Some ''false'') @ ''/exchange''"
    and p: "p = serializablePayload
                 (linkAction (env rt ''HYPERLIQUID_TESTNET'' \<noteq> Some ''false'')
                    (env rt ''IS_FINALIZE'' = Some ''true'') (nonceOrNow rt nopt) (toLowerCase a))
                 (nonceOrNow rt nopt) sig"
    by blast
  from s obtain sg where sg: "sig = sigObj sg"
    unfolding signLinkAction_Inr by blast
  have e: "env rt (if env rt ''IS_FINALIZE'' = Some ''true''
                  then ''STAKING_USER_ADDRESS'' else ''TRADING_USER_ADDRESS'') = Some a"
    using a unfolding getenvStrict_Inr_iff by blast
  show "\<exists>n a r s v.
          env rt (if env rt ''IS_FINALIZE'' = Some ''true''
                  then ''STAKING_USER_ADDRESS'' else ''TRADING_USER_ADDRESS'') = Some a
        \<and> p = Obj [(''action'',
                    Obj [(''hyperliquidChain'',
                          Str (if env rt ''HYPERLIQUID_TESTNET'' \<noteq> Some ''false''
                               then ''Testnet'' else ''Mainnet'')),
                         (''isFinalize'', Bool (env rt ''IS_FINALIZE'' = Some ''true'')),
                         (''nonce'', Num (Number n)),
                         (''signatureChainId'',
                          Str (if env rt ''HYPERLIQUID_TESTNET'' \<noteq> Some ''false''
                               then ''0x3e6'' else ''0x1'')),
                         (''type'', Str ''linkStakingUser''),
                         (''user'', Str (toLowerCase a))]),
                   (''expiresAfter'', Null),
                   (''isFrontend'', Bool True),
                   (''nonce'', Num (Number n)),
                   (''signature'', Obj [(''r'', Str r), (''s'', Str s), (''v'', Num (Fin v))]),
                   (''vaultAddress'', Null)]
        \<and> u = (if env rt ''HYPERLIQUID_TESTNET'' \<noteq> Some ''false''
               then ''https://api-ui.hyperliquid-testnet.xyz/exchange''
               else ''https://api-ui.hyperliquid.xyz/exchange'')"
    apply (rule exI [of _ "nonceOrNow rt nopt"])
    apply (rule exI [of _ a])
    apply (rule exI [of _ "sig_r sg"])
    apply (rule exI [of _ "sig_s sg"])
    apply (rule exI [of _ "sig_v sg"])
    unfolding p sg u serializablePayload_written baseUrl_written
    using e apply simp
    done
next
  fix u p tm
  assume "(u, p, tm) \<in> set (posted (fst (main_finalize rt lib post)))"
  from posted_main_finalize_mem [OF this]
  obtain k a w nopt sig where
      a: "getenvStrict rt ''STAKING_USER_ADDRESS'' = Inr a"
    and s: "snd (signLinkAction lib
                 (linkAction (env rt ''HYPERLIQUID_TESTNET'' \<noteq> Some ''false'') True
                    (case nopt of None \<Rightarrow> Date_now rt | Some m \<Rightarrow> m) (toLowerCase a))
                 w (env rt ''HYPERLIQUID_TESTNET'' \<noteq> Some ''false'')) = Inr sig"
    and u: "u = baseUrl (env rt ''HYPERLIQUID_TESTNET'' \<noteq> Some ''false'') @ ''/exchange''"
    and p: "p = serializablePayload
                 (linkAction (env rt ''HYPERLIQUID_TESTNET'' \<noteq> Some ''false'') True
                    (case nopt of None \<Rightarrow> Date_now rt | Some m \<Rightarrow> m) (toLowerCase a))
                 (case nopt of None \<Rightarrow> Date_now rt | Some m \<Rightarrow> m) sig"
    by blast
  from s obtain sg where sg: "sig = sigObj sg"
    unfolding signLinkAction_Inr by blast
  have e: "env rt ''STAKING_USER_ADDRESS'' = Some a"
    using a unfolding getenvStrict_Inr_iff by blast
  show "\<exists>n a r s v.
          env rt ''STAKING_USER_ADDRESS'' = Some a
        \<and> p = Obj [(''action'',
                    Obj [(''hyperliquidChain'',
                          Str (if env rt ''HYPERLIQUID_TESTNET'' \<noteq> Some ''false''
                               then ''Testnet'' else ''Mainnet'')),
                         (''isFinalize'', Bool True),
                         (''nonce'', Num (Number n)),
                         (''signatureChainId'',
                          Str (if env rt ''HYPERLIQUID_TESTNET'' \<noteq> Some ''false''
                               then ''0x3e6'' else ''0x1'')),
                         (''type'', Str ''linkStakingUser''),
                         (''user'', Str (toLowerCase a))]),
                   (''expiresAfter'', Null),
                   (''isFrontend'', Bool True),
                   (''nonce'', Num (Number n)),
                   (''signature'', Obj [(''r'', Str r), (''s'', Str s), (''v'', Num (Fin v))]),
                   (''vaultAddress'', Null)]
        \<and> u = (if env rt ''HYPERLIQUID_TESTNET'' \<noteq> Some ''false''
               then ''https://api-ui.hyperliquid-testnet.xyz/exchange''
               else ''https://api-ui.hyperliquid.xyz/exchange'')"
    apply (rule exI [of _ "case nopt of None \<Rightarrow> Date_now rt | Some m \<Rightarrow> m"])
    apply (rule exI [of _ a])
    apply (rule exI [of _ "sig_r sg"])
    apply (rule exI [of _ "sig_s sg"])
    apply (rule exI [of _ "sig_v sg"])
    unfolding p sg u serializablePayload_written baseUrl_written
    using e apply simp
    done
next
  fix payload testnet
  show "snd (submitLinkAction post payload testnet) =
          post (if testnet then ''https://api-ui.hyperliquid-testnet.xyz/exchange''
                else ''https://api-ui.hyperliquid.xyz/exchange'')
               payload (link_headers testnet) 30000"
    unfolding submitLinkAction_eq baseUrl_written by simp
next
  fix a
  show "list_all (\<lambda>c. \<not> isUpper c) (toLowerCase a)"
    by (rule toLowerCase_lower)
qed

text \<open>
  The theorem on the finalizer's run on testnet: the payload is posted to the testnet
  URL, and the answer of the remote side comes back as it is.
\<close>

theorem submission_payload_shape_witness:
  "posted (fst (main (sample_runtime finalizer_vars) (sample_ethers sample_address) sample_axios)) =
     [(''https://api-ui.hyperliquid-testnet.xyz/exchange'',
       Obj [(''action'',
             Obj [(''hyperliquidChain'', Str ''Testnet''),
                  (''isFinalize'', Bool True),
                  (''nonce'', Num (Fin 1761995511314)),
                  (''signatureChainId'', Str ''0x3e6''),
                  (''type'', Str ''linkStakingUser''),
                  (''user'', Str ''0x70997970c51812dc3a010c7d01b50e0d17dc79c8'')]),
            (''expiresAfter'', Null),
            (''isFrontend'', Bool True),
            (''nonce'', Num (Fin 1761995511314)),
            (''signature'', Obj [(''r'', Str ''0xr''), (''s'', Str ''0xs''), (''v'', Num (Fin 27))]),
            (''vaultAddress'', Null)],
       30000)]
   \<and> snd (submitLinkAction sample_axios Null True)
       = Inr \<lparr> status = 200, data = Obj [(''status'', Str ''ok'')] \<rparr>"
proof -
  note T = submission_payload_shape
      [of "sample_runtime finalizer_vars" "sample_ethers sample_address" sample_axios]
  have "snd (submitLinkAction sample_axios Null True)
          = sample_axios ''https://api-ui.hyperliquid-testnet.xyz/exchange'' Null (link_headers True) 30000"
    using conjunct1 [OF conjunct2 [OF conjunct2 [OF T]], rule_format, of Null True] by simp
  then show ?thesis
    by (simp add: posted_main_finalizer_sample sample_payload sample_post)
qed

text \<open>
  C3. \<open>signLinkAction\<close> returns a signature only after the address recovered from the typed
  data and the signature equals the wallet's address, compared in lower case, and what it
  returns is the tuple \<open>{r, s, v}\<close> of that signature. When the two addresses differ it
  stops after the recovery with the recovery-mismatch error. In a run of the linking
  script or of the finalizer's script, a recovery that does not match the loaded wallet
  ends the run with that error and nothing is posted; and when something is posted, the
  key was loaded, the signature was produced and the recovery matched before the post.
\<close>

theorem local_recovery_guard:
  "(\<forall>sig. snd (signLinkAction lib act w tn) = Inr sig \<longrightarrow>
      (\<exists>s sg recovered.
          signTypedData lib w (link_domain act) link_types (link_value act) = Inr s
        \<and> Signature_from lib s = Inr sg
        \<and> verifyTypedData lib (link_domain act) link_types (link_value act) s = Inr recovered
        \<and> toLowerCase recovered = toLowerCase (address w)
        \<and> sig = Obj [(''r'', Str (sig_r sg)), (''s'', Str (sig_s sg)), (''v'', Num (Fin (sig_v sg)))]))
   \<and> (\<forall>s sg recovered.
          signTypedData lib w (link_domain act) link_types (link_value act) = Inr s
        \<and> Signature_from lib s = Inr sg
        \<and> verifyTypedData lib (link_domain act) link_types (link_value act) s = Inr recovered
        \<and> toLowerCase recovered \<noteq> toLowerCase (address w)
        \<longrightarrow> signLinkAction lib act w tn =
              ([SignTypedData w (link_domain act) link_types (link_value act),
                VerifyTypedData (link_domain act) link_types (link_value act) s],
               Inl (RecoveryMismatch recovered (address w))))
   \<and> (\<forall>k w' d t v s recovered.
          New_Wallet k \<in> set (fst (main rt lib post)) \<and> Wallet_new lib k = Inr w'
        \<and> VerifyTypedData d t v s \<in> set (fst (main rt lib post))
        \<and> verifyTypedData lib d t v s = Inr recovered
        \<and> toLowerCase recovered \<noteq> toLowerCase (address w')
        \<longrightarrow> snd (main rt lib post) = Inl (RecoveryMismatch recovered (address w'))
            \<and> posted (fst (main rt lib post)) = [])
   \<and> (posted (fst (main rt lib post)) \<noteq> [] \<longrightarrow>
        (\<exists>k w' d t v s recovered.
            New_Wallet k \<in> set (beforePost (fst (main rt lib post)))
          \<and> Wallet_new lib k = Inr w'
          \<and> SignTypedData w' d t v \<in> set (beforePost (fst (main rt lib post)))
          \<and> signTypedData lib w' d t v = Inr s
          \<and> VerifyTypedData d t v s \<in> set (beforePost (fst (main rt lib post)))
          \<and> verifyTypedData lib d t v s = Inr recovered
          \<and> toLowerCase recovered = toLowerCase (address w')))
   \<and> (\<forall>k w' d t v s recovered.
          New_Wallet k \<in> set (fst (main_finalize rt lib post)) \<and> Wallet_new lib k = Inr w'
        \<and> VerifyTypedData d t v s \<in> set (fst (main_finalize rt lib post))
        \<and> verifyTypedData lib d t v s = Inr recovered
        \<and> toLowerCase recovered \<noteq> toLowerCase (address w')
        \<longrightarrow> snd (main_finalize rt lib post) = Inl (RecoveryMismatch recovered (address w'))
            \<and> posted (fst (main_finalize rt lib post)) = [])
   \<and> (posted (fst (main_finalize rt lib post)) \<noteq> [] \<longrightarrow>
        (\<exists>k w' d t v s recovered.
            New_Wallet k \<in> set (beforePost (fst (main_finalize rt lib post)))
          \<and> Wallet_new lib k = Inr w'
          \<and> SignTypedData w' d t v \<in> set (beforePost (fst (main_finalize rt lib post)))
          \<and> signTypedData lib w' d t v = Inr s
          \<and> VerifyTypedData d t v s \<in> set (beforePost (fst (main_finalize rt lib post)))
          \<and> verifyTypedData lib d t v s = Inr recovered
          \<and> toLowerCase recovered = toLowerCase (address w')))"
proof -
  have A: "\<forall>sig. snd (signLinkAction lib act w tn) = Inr sig \<longrightarrow>
      (\<exists>s sg recovered.
          signTypedData lib w (link_domain act) link_types (link_value act) = Inr s
        \<and> Signature_from lib s = Inr sg
        \<and> verifyTypedData lib (link_domain act) link_types (link_value act) s = Inr recovered
        \<and> toLowerCase recovered = toLowerCase (address w)
        \<and> sig = Obj [(''r'', Str (sig_r sg)), (''s'', Str (sig_s sg)), (''v'', Num (Fin (sig_v sg)))])"
    unfolding signLinkAction_Inr sigObj_def by blast
  have B: "\<forall>s sg recovered.
          signTypedData lib w (link_domain act) link_types (link_value act) = Inr s
        \<and> Signature_from lib s = Inr sg
        \<and> verifyTypedData lib (link_domain act) link_types (link_value act) s = Inr recovered
        \<and> toLowerCase recovered \<noteq> toLowerCase (address w)
        \<longrightarrow> signLinkAction lib act w tn =
              ([SignTypedData w (link_domain act) link_types (link_value act),
                VerifyTypedData (link_domain act) link_types (link_value act) s],
               Inl (RecoveryMismatch recovered (address w)))"
    by (simp add: signLinkAction_eq)
  have C: "\<forall>k w' d t v s recovered.
          New_Wallet k \<in> set (fst (main rt lib post)) \<and> Wallet_new lib k = Inr w'
        \<and> VerifyTypedData d t v s \<in> set (fst (main rt lib post))
        \<and> verifyTypedData lib d t v s = Inr recovered
        \<and> toLowerCase recovered \<noteq> toLowerCase (address w')
        \<longrightarrow> snd (main rt lib post) = Inl (RecoveryMismatch recovered (address w'))
            \<and> posted (fst (main rt lib post)) = []"
    using guard_main_mismatch by blast
  have D: "posted (fst (main rt lib post)) \<noteq> [] \<longrightarrow>
        (\<exists>k w' d t v s recovered.
            New_Wallet k \<in> set (beforePost (fst (main rt lib post)))
          \<and> Wallet_new lib k = Inr w'
          \<and> SignTypedData w' d t v \<in> set (beforePost (fst (main rt lib post)))
          \<and> signTypedData lib w' d t v = Inr s
          \<and> VerifyTypedData d t v s \<in> set (beforePost (fst (main rt lib post)))
          \<and> verifyTypedData lib d t v s = Inr recovered
          \<and> toLowerCase recovered = toLowerCase (address w'))"
    using guard_main_post by blast
  have E: "\<forall>k w' d t v s recovered.
          New_Wallet k \<in> set (fst (main_finalize rt lib post)) \<and> Wallet_new lib k = Inr w'
        \<and> VerifyTypedData d t v s \<in> set (fst (main_finalize rt lib post))
        \<and> verifyTypedData lib d t v s = Inr recovered
        \<and> toLowerCase recovered \<noteq> toLowerCase (address w')
        \<longrightarrow> snd (main_finalize rt lib post) = Inl (RecoveryMismatch recovered (address w'))
            \<and> posted (fst (main_finalize rt lib post)) = []"
    using guard_main_finalize_mismatch by blast
  have F: "posted (fst (main_finalize rt lib post)) \<noteq> [] \<longrightarrow>
        (\<exists>k w' d t v s recovered.
            New_Wallet k \<in> set (beforePost (fst (main_finalize rt lib post)))
          \<and> Wallet_new lib k = Inr w'
          \<and> SignTypedData w' d t v \<in> set (beforePost (fst (main_finalize rt lib post)))
          \<and> signTypedData lib w' d t v = Inr s
          \<and> VerifyTypedData d t v s \<in> set (beforePost (fst (main_finalize rt lib post)))
          \<and> verifyTypedData lib d t v s = Inr recovered
          \<and> toLowerCase recovered = toLowerCase (address w'))"
    using guard_main_finalize_post by blast
  show ?thesis
    using A B C D E F by (intro conjI)
qed

text \<open>
  The theorem on a finalizer run in which the library recovers another address than the
  wallet's: the run ends with the mismatch error and posts nothing.
\<close>

theorem local_recovery_guard_witness:
  "snd (main (sample_runtime finalizer_vars)
          (sample_ethers ''0x70997970C51812dc3A010C7d01b50e0d17dc79C8'') sample_axios)
     = Inl (RecoveryMismatch ''0x70997970C51812dc3A010C7d01b50e0d17dc79C8'' sample_address)
   \<and> posted (fst (main (sample_runtime finalizer_vars)
          (sample_ethers ''0x70997970C51812dc3A010C7d01b50e0d17dc79C8'') sample_axios)) = []"
proof -
  let ?lib = "sample_ethers ''0x70997970C51812dc3A010C7d01b50e0d17dc79C8''"
  note T = local_recovery_guard [of ?lib _ _ _ "sample_runtime finalizer_vars" sample_axios]
  note C = conjunct1 [OF conjunct2 [OF conjunct2 [OF T]], rule_format]
  have w: "Wallet_new ?lib ''0xac0974bec39a17e36ba4a6b4d238ff944bacb478cbed5efcae784d7bf4f2ff80''
             = Inr \<lparr> privateKey = ''0xac0974bec39a17e36ba4a6b4d238ff944bacb478cbed5efcae784d7bf4f2ff80'',
                     address = sample_address \<rparr>"
    by (rule sample_wallet)
  have ne: "toLowerCase ''0x70997970C51812dc3A010C7d01b50e0d17dc79C8''
              \<noteq> toLowerCase (address \<lparr> privateKey = ''0xac0974bec39a17e36ba4a6b4d238ff944bacb478cbed5efcae784d7bf4f2ff80'',
                     address = sample_address \<rparr>)"
    using sample_addresses_differ by simp
  have "snd (main (sample_runtime finalizer_vars) ?lib sample_axios)
     = Inl (RecoveryMismatch ''0x70997970C51812dc3A010C7d01b50e0d17dc79C8''
              (address \<lparr> privateKey = ''0xac0974bec39a17e36ba4a6b4d238ff944bacb478cbed5efcae784d7bf4f2ff80'',
                     address = sample_address \<rparr>))
   \<and> posted (fst (main (sample_runtime finalizer_vars) ?lib sample_axios)) = []"
    by (rule C) (intro conjI, rule conjunct1 [OF sample_mismatch_trace], rule w,
        rule conjunct2 [OF sample_mismatch_trace], rule sample_verify, rule ne)
  then show ?thesis by simp
qed

text \<open>
  C8. The claim as stated fails. The sign-and-call script runs in typed mode with its
  RPC URL, key and API URL configured and no \<open>TYPED_DATA_JSON\<close>. It queries the block
  number over RPC and loads the key, and only then fails with the configuration error for
  \<open>TYPED_DATA_JSON\<close>.
\<close>

theorem late_config_check_counterexample:
  "missingOrBlank (sample_runtime typed_vars) ''TYPED_DATA_JSON''
   \<and> main_sign (sample_runtime typed_vars) (sample_ethers sample_address) sample_axios =
       ([Console_log [Str ''Timestamp: 2025-11-01T11:11:51.000Z''],
         GetBlockNumber ''http://localhost:8545'',
         New_Wallet ''0xac0974bec39a17e36ba4a6b4d238ff944bacb478cbed5efcae784d7bf4f2ff80''],
        Inl (MissingEnv ''TYPED_DATA_JSON''))"
  by (simp add: main_sign_eq typed_env sample_block sample_wallet sample_iso
      signByMode_typed_missing [OF typed_env(4) typed_env(5)])

text \<open>
  C8, amended. When a variable that a script requires unconditionally is missing or
  blank, the run does nothing but print to the console (no key is loaded, nothing is
  signed, no RPC or HTTP request is made) and ends with the configuration error of a
  missing variable; in the scripts that parse \<open>NONCE\<close> or \<open>CHAIN_ID\<close> first, a
  malformed number is reported instead, as a SyntaxError. These variables are the role's
  key and address in the linking script, \<open>STAKING_PRIVATE_KEY\<close> and
  \<open>STAKING_USER_ADDRESS\<close> in the finalizer's script, \<open>ETH_RPC_URL\<close>, \<open>PRIVATE_KEY\<close> and
  \<open>TARGET_API_URL\<close> in the sign-and-call script, and \<open>ETH_RPC_URL\<close>, \<open>CHAIN_ID\<close>,
  \<open>PRIVATE_KEY\<close>, \<open>TO_ADDRESS\<close> and \<open>AMOUNT_ETH\<close> in the transaction script.
  \<open>TYPED_DATA_JSON\<close>, required in typed mode only, is checked after the RPC block number
  query and the key load: when it is missing the run fails, has made that query, and has
  done nothing else but load the key and print; it signs nothing and posts nothing.
\<close>

theorem config_errors_precede_work:
  "(missingOrBlank rt (if env rt ''IS_FINALIZE'' = Some ''true''
                       then ''STAKING_PRIVATE_KEY'' else ''TRADING_PRIVATE_KEY'')
    \<or> missingOrBlank rt (if env rt ''IS_FINALIZE'' = Some ''true''
                         then ''STAKING_USER_ADDRESS'' else ''TRADING_USER_ADDRESS'')
    \<longrightarrow> list_all isConsole (fst (main rt lib post))
        \<and> (snd (main rt lib post) = Inl SyntaxError
           \<or> (\<exists>name. snd (main rt lib post) = Inl (MissingEnv name) \<and> missingOrBlank rt name)))
   \<and> (missingOrBlank rt ''STAKING_PRIVATE_KEY'' \<or> missingOrBlank rt ''STAKING_USER_ADDRESS''
    \<longrightarrow> list_all isConsole (fst (main_finalize rt lib post))
        \<and> (\<exists>name. snd (main_finalize rt lib post) = Inl (MissingEnv name) \<and> missingOrBlank rt name))
   \<and> (missingOrBlank rt ''ETH_RPC_URL'' \<or> missingOrBlank rt ''PRIVATE_KEY''
       \<or> missingOrBlank rt ''TARGET_API_URL''
    \<longrightarrow> list_all isConsole (fst (main_sign rt lib post))
        \<and> (\<exists>name. snd (main_sign rt lib post) = Inl (MissingEnv name) \<and> missingOrBlank rt name))
   \<and> (missingOrBlank rt ''ETH_RPC_URL'' \<or> missingOrBlank rt ''CHAIN_ID''
       \<or> missingOrBlank rt ''PRIVATE_KEY'' \<or> missingOrBlank rt ''TO_ADDRESS''
       \<or> missingOrBlank rt ''AMOUNT_ETH''
    \<longrightarrow> list_all isConsole (fst (main_tx rt lib txlib))
        \<and> (snd (main_tx rt lib txlib) = Inl SyntaxError
           \<or> (\<exists>name. snd (main_tx rt lib txlib) = Inl (MissingEnv name) \<and> missingOrBlank rt name)))
   \<and> (getenvStrict rt ''ETH_RPC_URL'' = Inr rpcUrl
       \<and> getenvStrict rt ''PRIVATE_KEY'' = Inr key
       \<and> getenvStrict rt ''TARGET_API_URL'' = Inr apiUrl
       \<and> toLowerCase (orDefault (env rt ''SIGN_MODE'') ''personal'') = ''typed''
       \<and> missingOrBlank rt ''TYPED_DATA_JSON''
    \<longrightarrow> list_all (\<lambda>ev. isConsole ev \<or> ev = GetBlockNumber rpcUrl \<or> ev = New_Wallet key)
          (fst (main_sign rt lib post))
        \<and> GetBlockNumber rpcUrl \<in> set (fst (main_sign rt lib post))
        \<and> (\<exists>e. snd (main_sign rt lib post) = Inl e)
        \<and> (\<forall>b w. getBlockNumber lib rpcUrl = Inr b \<and> Wallet_new lib key = Inr w \<longrightarrow>
              main_sign rt lib post =
                ([Console_log [Str (''Timestamp: '' @ Date_toISOString rt)],
                  GetBlockNumber rpcUrl, New_Wallet key],
                 Inl (MissingEnv ''TYPED_DATA_JSON''))))"
proof (intro conjI impI)
  assume "missingOrBlank rt (if env rt ''IS_FINALIZE'' = Some ''true''
                       then ''STAKING_PRIVATE_KEY'' else ''TRADING_PRIVATE_KEY'')
    \<or> missingOrBlank rt (if env rt ''IS_FINALIZE'' = Some ''true''
                         then ''STAKING_USER_ADDRESS'' else ''TRADING_USER_ADDRESS'')"
  from config_main [OF this]
  show "list_all isConsole (fst (main rt lib post))"
    and "snd (main rt lib post) = Inl SyntaxError
           \<or> (\<exists>name. snd (main rt lib post) = Inl (MissingEnv name) \<and> missingOrBlank rt name)"
    by blast+
next
  assume "missingOrBlank rt ''STAKING_PRIVATE_KEY'' \<or> missingOrBlank rt ''STAKING_USER_ADDRESS''"
  from config_main_finalize [OF this]
  show "list_all isConsole (fst (main_finalize rt lib post))"
    and "\<exists>name. snd (main_finalize rt lib post) = Inl (MissingEnv name) \<and> missingOrBlank rt name"
    by blast+
next
  assume "missingOrBlank rt ''ETH_RPC_URL'' \<or> missingOrBlank rt ''PRIVATE_KEY''
       \<or> missingOrBlank rt ''TARGET_API_URL''"
  from config_main_sign [OF this]
  show "list_all isConsole (fst (main_sign rt lib post))"
    and "\<exists>name. snd (main_sign rt lib post) = Inl (MissingEnv name) \<and> missingOrBlank rt name"
    by blast+
next
  assume "missingOrBlank rt ''ETH_RPC_URL'' \<or> missingOrBlank rt ''CHAIN_ID''
       \<or> missingOrBlank rt ''PRIVATE_KEY'' \<or> missingOrBlank rt ''TO_ADDRESS''
       \<or> missingOrBlank rt ''AMOUNT_ETH''"
  from config_main_tx [OF this]
  show "list_all isConsole (fst (main_tx rt lib txlib))"
    and "snd (main_tx rt lib txlib) = Inl SyntaxError
           \<or> (\<exists>name. snd (main_tx rt lib txlib) = Inl (MissingEnv name) \<and> missingOrBlank rt name)"
    by blast+
next
  assume h: "getenvStrict rt ''ETH_RPC_URL'' = Inr rpcUrl
       \<and> getenvStrict rt ''PRIVATE_KEY'' = Inr key
       \<and> getenvStrict rt ''TARGET_API_URL'' = Inr apiUrl
       \<and> toLowerCase (orDefault (env rt ''SIGN_MODE'') ''personal'') = ''typed''
       \<and> missingOrBlank rt ''TYPED_DATA_JSON''"
  note T = config_main_sign_typed [of rt rpcUrl key apiUrl lib post]
  from h T
  show "list_all (\<lambda>ev. isConsole ev \<or> ev = GetBlockNumber rpcUrl \<or> ev = New_Wallet key)
          (fst (main_sign rt lib post))"
    and "GetBlockNumber rpcUrl \<in> set (fst (main_sign rt lib post))"
    and "\<exists>e. snd (main_sign rt lib post) = Inl e"
    and "\<forall>b w. getBlockNumber lib rpcUrl = Inr b \<and> Wallet_new lib key = Inr w \<longrightarrow>
              main_sign rt lib post =
                ([Console_log [Str (''Timestamp: '' @ Date_toISOString rt)],
                  GetBlockNumber rpcUrl, New_Wallet key],
                 Inl (MissingEnv ''TYPED_DATA_JSON''))"
    by blast+
qed

text \<open>The theorem on the linking script with an empty environment.\<close>

theorem config_errors_precede_work_witness:
  "missingOrBlank (sample_runtime []) ''TRADING_PRIVATE_KEY''
   \<and> list_all isConsole (fst (main (sample_runtime []) (sample_ethers sample_address) sample_axios))
   \<and> snd (main (sample_runtime []) (sample_ethers sample_address) sample_axios)
       = Inl (MissingEnv ''TRADING_PRIVATE_KEY'')"
proof -
  have m: "missingOrBlank (sample_runtime []) ''TRADING_PRIVATE_KEY''"
    by (simp add: missingOrBlank_def sample_env)
  have k: "(if env (sample_runtime []) ''IS_FINALIZE'' = Some ''true''
            then ''STAKING_PRIVATE_KEY'' else ''TRADING_PRIVATE_KEY'') = ''TRADING_PRIVATE_KEY''"
    by (simp add: sample_env)
  note T = config_errors_precede_work
      [of "sample_runtime []" "sample_ethers sample_address" sample_axios]
  note M = conjunct1 [OF T, unfolded k, rule_format, OF disjI1 [OF m]]
  show ?thesis
    using m conjunct1 [OF M] by (simp add: empty_env_main)
qed

end
